theory Spec2Isabelle
  imports Main "HOL-Library.Word"
begin

unbundle bit_operations_syntax

section \<open>The host side of the SQLite-in-Wasm bridge (main.go)\<close>

text \<open>
  The Go program drives a Wasm build of SQLite through the exported functions of one
  module instance and through that instance's linear memory. The guest (the Wasm code)
  and the runtime's memory interface are outside the program; the guest is a parameter
  of the model (any deterministic behaviour of the exported functions on the linear
  memory and on the guest's hidden state), and the memory interface is modelled by its
  contract. Everything in main.go after the runtime has been set up is translated
  function by function.

  Go's \<open>uint32\<close> and \<open>uint64\<close> are words; Go's \<open>int\<close> is taken at its 64-bit
  width (the conversion \<open>int(x)\<close> of a \<open>uint64\<close> keeps all 64 bits and reads them as
  two's complement, \<open>sint\<close>). A Go \<open>string\<close> is its byte sequence.
\<close>

type_synonym byte = "8 word"
type_synonym u32 = "32 word"
type_synonym u64 = "64 word"
type_synonym gostring = "byte list"

definition bytes_of :: "string \<Rightarrow> gostring" where
  "bytes_of cs = map of_char cs"

subsection \<open>The guest and the runtime\<close>

text \<open>
  An exported function receives its numeric arguments, the linear memory and the
  guest's hidden state; it returns the runtime's \<open>(results, err)\<close> as a sum
  (\<open>Inl err\<close> is a trap or any other error of the invocation), the memory and the
  hidden state it leaves behind.
\<close>

type_synonym 'g guest_fn =
  "u64 list \<Rightarrow> byte list \<Rightarrow> 'g \<Rightarrow> (string + u64 list) \<times> byte list \<times> 'g"

text \<open>An \<open>api.Function\<close>: the export's name with its behaviour.\<close>

record 'g func =
  fname :: string
  fbody :: "'g guest_fn"

text \<open>
  What \<open>r.InstantiateModule\<close> gives when it succeeds: the export table, the initial
  linear memory and the initial hidden state of the guest.
\<close>

record 'g moduleInstance =
  exports :: "string \<Rightarrow> 'g guest_fn option"
  memory0 :: "byte list"
  guest0 :: 'g

text \<open>\<open>sqlite.ExportedFunction(name)\<close>: \<open>nil\<close> (here \<open>None\<close>) when there is no such export.\<close>

definition ExportedFunction :: "'g moduleInstance \<Rightarrow> string \<Rightarrow> 'g func option" where
  "ExportedFunction sqlite name =
     (case exports sqlite name of
        None \<Rightarrow> None
      | Some body \<Rightarrow> Some \<lparr>fname = name, fbody = body\<rparr>)"

subsection \<open>The struct \<open>sqliteModule\<close>\<close>

text \<open>
  The fields of the Go struct, in its order. The field \<open>memory\<close> is a reference to
  the instance's linear memory; the bytes it refers to are the component \<open>mem\<close> of
  the program state below.
\<close>

record 'g sqliteModule =
  "open" :: "'g func option"
  exec :: "'g func option"
  getResultPtr :: "'g func option"
  getResultSize :: "'g func option"
  prepare :: "'g func option"
  step :: "'g func option"
  columnInt :: "'g func option"
  columnText :: "'g func option"
  alloc :: "'g func option"
  dbHandle :: u64

record user =
  id' :: u64
  name' :: gostring

subsection \<open>Program state, events and panics\<close>

text \<open>
  Every interaction of the host with the instance is appended to \<open>trace\<close>: a call of
  an export (name, arguments, outcome) and a memory access (address, size, and whether
  the runtime accepted it). The trace is the only component the Go program does not
  have; it is what the statements about "which calls are made" speak about.
\<close>

datatype event =
    Called string "u64 list" "string + u64 list"
  | MemRead u32 u32 bool
  | MemReadUint32Le u32 bool
  | MemWrite u32 nat bool

record 'g state =
  smod :: "'g sqliteModule"
  mem :: "byte list"
  guest :: 'g
  trace :: "event list"

text \<open>
  Every failure of main.go is a panic. \<open>CallPanic msg err\<close> is \<open>log.Panicln(err)\<close> or
  \<open>log.Panicf(msg ..., err)\<close> after a \<open>Call\<close> returned \<open>err\<close>; \<open>Panic msg\<close> is a
  \<open>log.Panic\<close> with a fixed message (the literal part of its format);
  \<open>StatusPanic code detail\<close> is the panic of \<open>ensureStatusCodeSuccess\<close>;
  \<open>NilFunctionPanic\<close> is Go's nil dereference when \<open>Call\<close> is invoked on a \<open>nil\<close>
  \<open>api.Function\<close>; \<open>IndexPanic\<close> is Go's index-out-of-range panic of \<open>res[0]\<close> on an
  empty result slice; \<open>InstantiatePanic err\<close> is the panic after a failed
  \<open>InstantiateModule\<close>.
\<close>

datatype panic =
    CallPanic string string
  | Panic string
  | StatusPanic u32 gostring
  | NilFunctionPanic
  | IndexPanic
  | InstantiatePanic string

type_synonym ('g, 'a) io = "'g state \<Rightarrow> (panic + 'a) \<times> 'g state"

definition return :: "'a \<Rightarrow> ('g, 'a) io" where
  "return x \<sigma> = (Inr x, \<sigma>)"

definition throw :: "panic \<Rightarrow> ('g, 'a) io" where
  "throw e \<sigma> = (Inl e, \<sigma>)"

definition bind :: "('g, 'a) io \<Rightarrow> ('a \<Rightarrow> ('g, 'b) io) \<Rightarrow> ('g, 'b) io" where
  "bind m f \<sigma> =
     (case m \<sigma> of
        (Inl e, \<sigma>') \<Rightarrow> (Inl e, \<sigma>')
      | (Inr x, \<sigma>') \<Rightarrow> f x \<sigma>')"

definition getModule :: "('g, 'g sqliteModule) io" where
  "getModule \<sigma> = (Inr (smod \<sigma>), \<sigma>)"

definition log_event :: "event \<Rightarrow> 'g state \<Rightarrow> 'g state" where
  "log_event ev \<sigma> = \<sigma>\<lparr>trace := trace \<sigma> @ [ev]\<rparr>"

subsection \<open>The runtime's interface: \<open>api.Function\<close> and \<open>api.Memory\<close>\<close>

text \<open>
  \<open>f.Call(ctx, args...)\<close>. On a \<open>nil\<close> function Go panics before anything is
  invoked. Otherwise the export runs once on the current memory and hidden state, and
  its \<open>(results, err)\<close> comes back to the caller.
\<close>

definition Call :: "'g func option \<Rightarrow> u64 list \<Rightarrow> ('g, string + u64 list) io" where
  "Call f args \<sigma> =
     (case f of
        None \<Rightarrow> (Inl NilFunctionPanic, \<sigma>)
      | Some fn \<Rightarrow>
          (case fbody fn args (mem \<sigma>) (guest \<sigma>) of
             (out, m', g') \<Rightarrow>
               (Inr out, log_event (Called (fname fn) args out) (\<sigma>\<lparr>mem := m', guest := g'\<rparr>))))"

text \<open>
  The recurring pattern \<open>res, err := f.Call(ctx, args...); if err != nil { log.Panic... }\<close>.
\<close>

definition callOrPanic :: "string \<Rightarrow> 'g func option \<Rightarrow> u64 list \<Rightarrow> ('g, u64 list) io" where
  "callOrPanic msg f args =
     bind (Call f args) (\<lambda>r.
       case r of
         Inl err \<Rightarrow> throw (CallPanic msg err)
       | Inr res \<Rightarrow> return res)"

text \<open>\<open>res[0]\<close>: Go panics when the slice is empty.\<close>

definition index0 :: "u64 list \<Rightarrow> ('g, u64) io" where
  "index0 res = (case res of [] \<Rightarrow> throw IndexPanic | r # _ \<Rightarrow> return r)"

text \<open>
  The linear memory is a byte list; its length is the current memory size. The three
  operations of \<open>api.Memory\<close> that main.go uses belong to the runtime, not to this
  repository. Their contract: an access whose range \<open>[offset, offset + size)\<close> does not
  lie within the current memory size is refused (\<open>ok = false\<close>, here \<open>None\<close>) and
  nothing is read or written; \<open>ReadUint32Le\<close> decodes four bytes in little-endian
  order.
\<close>

definition le32 :: "byte list \<Rightarrow> u32" where
  "le32 bs = foldr (\<lambda>b acc. ucast b OR push_bit 8 acc) bs 0"

definition in_range :: "byte list \<Rightarrow> u32 \<Rightarrow> nat \<Rightarrow> bool" where
  "in_range m off n = (unat off + n \<le> length m)"

definition Read :: "byte list \<Rightarrow> u32 \<Rightarrow> u32 \<Rightarrow> byte list option" where
  "Read m off cnt =
     (if in_range m off (unat cnt) then Some (take (unat cnt) (drop (unat off) m)) else None)"

definition ReadUint32Le :: "byte list \<Rightarrow> u32 \<Rightarrow> u32 option" where
  "ReadUint32Le m off =
     (if in_range m off 4 then Some (le32 (take 4 (drop (unat off) m))) else None)"

definition Write :: "byte list \<Rightarrow> u32 \<Rightarrow> byte list \<Rightarrow> byte list option" where
  "Write m off v =
     (if in_range m off (length v)
      then Some (take (unat off) m @ v @ drop (unat off + length v) m)
      else None)"

text \<open>The same three operations on the program state, each leaving its event.\<close>

definition memRead :: "u32 \<Rightarrow> u32 \<Rightarrow> ('g, byte list option) io" where
  "memRead off cnt \<sigma> =
     (Inr (Read (mem \<sigma>) off cnt),
      log_event (MemRead off cnt (in_range (mem \<sigma>) off (unat cnt))) \<sigma>)"

definition memReadUint32Le :: "u32 \<Rightarrow> ('g, u32 option) io" where
  "memReadUint32Le off \<sigma> =
     (Inr (ReadUint32Le (mem \<sigma>) off),
      log_event (MemReadUint32Le off (in_range (mem \<sigma>) off 4)) \<sigma>)"

definition memWrite :: "u32 \<Rightarrow> byte list \<Rightarrow> ('g, bool) io" where
  "memWrite off v \<sigma> =
     (case Write (mem \<sigma>) off v of
        None \<Rightarrow> (Inr False, log_event (MemWrite off (length v) False) \<sigma>)
      | Some m' \<Rightarrow> (Inr True, log_event (MemWrite off (length v) True) (\<sigma>\<lparr>mem := m'\<rparr>)))"

subsection \<open>The functions of main.go\<close>

definition SQLITE_ROW :: u64 where
  "SQLITE_ROW = 100"

text \<open>\<open>ensureStatusCodeSuccess(resultPpr, errMsg)\<close>\<close>

definition ensureStatusCodeSuccess :: "u32 \<Rightarrow> gostring \<Rightarrow> ('g, unit) io" where
  "ensureStatusCodeSuccess resultPpr errMsg =
     bind (memReadUint32Le resultPpr) (\<lambda>r.
       case r of
         None \<Rightarrow> throw (Panic ''cannot read return code'')
       | Some retCode \<Rightarrow>
           if retCode \<noteq> 0 then throw (StatusPanic retCode errMsg) else return ())"

text \<open>\<open>allocateString(str)\<close>\<close>

definition allocateString :: "gostring \<Rightarrow> ('g, u64 \<times> u64) io" where
  "allocateString str =
     bind getModule (\<lambda>s.
     bind (callOrPanic [] (alloc s) [of_nat (length str), 0]) (\<lambda>res.
     bind (index0 res) (\<lambda>ptr.
     bind (memWrite (ucast ptr) str) (\<lambda>ok.
       if \<not> ok then throw (Panic ''failed to write name'')
       else return (ptr, of_nat (length str))))))"

text \<open>\<open>execStep(stmt)\<close>\<close>

definition execStep :: "u32 \<Rightarrow> ('g, u64) io" where
  "execStep stmt =
     bind getModule (\<lambda>s.
     bind (callOrPanic ''failed to call step'' (step s) [ucast stmt]) (\<lambda>res.
       index0 res))"

text \<open>\<open>readInt(stmt, columnIndex)\<close>\<close>

definition readInt :: "u32 \<Rightarrow> u32 \<Rightarrow> ('g, u64) io" where
  "readInt stmt columnIndex =
     bind getModule (\<lambda>s.
     bind (callOrPanic ''failed to read column as integer'' (columnInt s)
             [ucast stmt, ucast columnIndex]) (\<lambda>res.
       index0 res))"

text \<open>\<open>readText(stmt, columnIndex)\<close>\<close>

definition readText :: "u32 \<Rightarrow> u32 \<Rightarrow> ('g, gostring) io" where
  "readText stmt columnIndex =
     bind getModule (\<lambda>s.
     bind (callOrPanic ''failed to read column as text'' (columnText s)
             [ucast stmt, ucast columnIndex]) (\<lambda>_.
     bind getModule (\<lambda>s.
     bind (callOrPanic ''failed to get column text ptr'' (getResultPtr s) []) (\<lambda>textPtr.
     bind getModule (\<lambda>s.
     bind (callOrPanic ''failed to get column text size'' (getResultSize s) []) (\<lambda>textSize.
     bind (index0 textPtr) (\<lambda>p.
     bind (index0 textSize) (\<lambda>n.
     bind (memRead (ucast p) (ucast n)) (\<lambda>r.
       case r of
         None \<Rightarrow> throw (Panic ''failed to read text'')
       | Some raw \<Rightarrow> return raw)))))))))"

text \<open>\<open>execSql(query)\<close>\<close>

definition execSql :: "gostring \<Rightarrow> ('g, unit) io" where
  "execSql query =
     bind (allocateString query) (\<lambda>(queryPtr, querySize).
     bind getModule (\<lambda>s.
     bind (callOrPanic ''error execution query'' (exec s)
             [dbHandle s, queryPtr, querySize, 0, 0]) (\<lambda>_.
     bind getModule (\<lambda>s.
     bind (callOrPanic ''error getting result ptr'' (getResultPtr s) []) (\<lambda>res.
     bind (index0 res) (\<lambda>r0.
     bind (memReadUint32Le (ucast (r0 + 4))) (\<lambda>x.
       case x of
         None \<Rightarrow> throw (Panic ''cannot read err msg ptr'')
       | Some errMsgPtr \<Rightarrow>
     bind (memReadUint32Le (ucast (r0 + 8))) (\<lambda>y.
       case y of
         None \<Rightarrow> throw (Panic ''cannot read err msg size'')
       | Some errMsgSize \<Rightarrow>
     bind (if errMsgSize \<noteq> 0
           then bind (memRead errMsgPtr errMsgSize) (\<lambda>r.
                  case r of
                    None \<Rightarrow> throw (Panic ''cannot read err msg'')
                  | Some raw \<Rightarrow> return raw)
           else return []) (\<lambda>errMsg.
       ensureStatusCodeSuccess (ucast r0) errMsg)))))))))"

text \<open>
  \<open>execSelectUsers(query)\<close>, first half: everything up to the statement handle
  (allocate, prepare, result pointer, status, handle).
\<close>

definition prepareStmt :: "gostring \<Rightarrow> ('g, u32) io" where
  "prepareStmt query =
     bind (allocateString query) (\<lambda>(queryPtr, querySize).
     bind getModule (\<lambda>s.
     bind (callOrPanic ''failed to call prepare query'' (prepare s)
             [dbHandle s, queryPtr, querySize]) (\<lambda>_.
     bind getModule (\<lambda>s.
     bind (callOrPanic ''error getting result ptr'' (getResultPtr s) []) (\<lambda>res.
     bind (index0 res) (\<lambda>r0.
     bind (ensureStatusCodeSuccess (ucast r0) (bytes_of ''failed to prepare'')) (\<lambda>_.
     bind (memReadUint32Le (ucast (r0 + 4))) (\<lambda>x.
       case x of
         None \<Rightarrow> throw (Panic ''failed to read prepared statement'')
       | Some stmt \<Rightarrow>
           if stmt = 0 then throw (Panic ''failed to read prepared statement'')
           else return stmt))))))))"

text \<open>
  \<open>execSelectUsers(query)\<close>, second half: the loop \<open>for rc == SQLITE_ROW { ... }\<close>,
  entered with the code of the first step. The guest may answer \<open>SQLITE_ROW\<close> for
  ever, so the loop is a partial function: \<open>None\<close> is "never returns".
\<close>

partial_function (option) stepLoop ::
  "u32 \<Rightarrow> u64 \<Rightarrow> user list \<Rightarrow> 'g state \<Rightarrow> ((panic + user list) \<times> 'g state) option" where
  "stepLoop stmt rc users \<sigma> =
     (if rc = SQLITE_ROW then
        (case readInt stmt 0 \<sigma> of
           (Inl e, \<sigma>1) \<Rightarrow> Some (Inl e, \<sigma>1)
         | (Inr i, \<sigma>1) \<Rightarrow>
             (case readText stmt 1 \<sigma>1 of
                (Inl e, \<sigma>2) \<Rightarrow> Some (Inl e, \<sigma>2)
              | (Inr n, \<sigma>2) \<Rightarrow>
                  (case execStep stmt \<sigma>2 of
                     (Inl e, \<sigma>3) \<Rightarrow> Some (Inl e, \<sigma>3)
                   | (Inr rc', \<sigma>3) \<Rightarrow>
                       stepLoop stmt rc' (users @ [\<lparr>id' = i, name' = n\<rparr>]) \<sigma>3)))
      else Some (Inr users, \<sigma>))"

definition execSelectUsers ::
  "gostring \<Rightarrow> 'g state \<Rightarrow> ((panic + user list) \<times> 'g state) option" where
  "execSelectUsers query \<sigma> =
     (case prepareStmt query \<sigma> of
        (Inl e, \<sigma>1) \<Rightarrow> Some (Inl e, \<sigma>1)
      | (Inr stmt, \<sigma>1) \<Rightarrow>
          (case execStep stmt \<sigma>1 of
             (Inl e, \<sigma>2) \<Rightarrow> Some (Inl e, \<sigma>2)
           | (Inr rc, \<sigma>2) \<Rightarrow> stepLoop stmt rc [] \<sigma>2))"

text \<open>
  \<open>newSqlModule\<close>: the struct literal binding the nine exports (\<open>dbHandle\<close> starts at
  Go's zero value), then the opening of the database.
\<close>

definition bindExports :: "'g moduleInstance \<Rightarrow> 'g state" where
  "bindExports sqlite =
     \<lparr>smod =
        \<lparr>open = ExportedFunction sqlite ''sqlite3_open_v2'',
         exec = ExportedFunction sqlite ''sqlite3_exec'',
         getResultPtr = ExportedFunction sqlite ''get_result_ptr'',
         getResultSize = ExportedFunction sqlite ''get_result_size'',
         prepare = ExportedFunction sqlite ''sqlite3_prepare_v2'',
         step = ExportedFunction sqlite ''sqlite3_step'',
         columnInt = ExportedFunction sqlite ''sqlite3_column_int64'',
         columnText = ExportedFunction sqlite ''sqlite3_column_text'',
         alloc = ExportedFunction sqlite ''allocate'',
         dbHandle = 0\<rparr>,
      mem = memory0 sqlite,
      guest = guest0 sqlite,
      trace = []\<rparr>"

definition setDbHandle :: "u64 \<Rightarrow> ('g, unit) io" where
  "setDbHandle h \<sigma> = (Inr (), \<sigma>\<lparr>smod := (smod \<sigma>)\<lparr>dbHandle := h\<rparr>\<rparr>)"

definition openDb :: "('g, unit) io" where
  "openDb =
     bind (allocateString (bytes_of '':memory:'')) (\<lambda>(dbNamePtr, dbNameSize).
     bind (allocateString []) (\<lambda>(fsNamePTr, fsNameSize).
     bind getModule (\<lambda>s.
     bind (callOrPanic [] (open s) [dbNamePtr, dbNameSize, 6, fsNamePTr, fsNameSize]) (\<lambda>_.
     bind getModule (\<lambda>s.
     bind (callOrPanic [] (getResultPtr s) []) (\<lambda>res.
     bind (index0 res) (\<lambda>r0.
     bind (ensureStatusCodeSuccess (ucast r0) (bytes_of ''db pointer'')) (\<lambda>_.
     bind (memReadUint32Le (ucast (r0 + 4))) (\<lambda>x.
       case x of
         None \<Rightarrow> throw (Panic ''cannot take db pointer'')
       | Some h \<Rightarrow> setDbHandle (ucast h))))))))))"

definition newSqlModule :: "string + 'g moduleInstance \<Rightarrow> panic + (panic + unit) \<times> 'g state" where
  "newSqlModule instantiated =
     (case instantiated of
        Inl err \<Rightarrow> Inl (InstantiatePanic err)
      | Inr sqlite \<Rightarrow> Inr (openDb (bindExports sqlite)))"

declare stepLoop.simps [code]

subsection \<open>Vocabulary for the statements\<close>

text \<open>The events an operation appends to the trace.\<close>

definition new_events :: "'g state \<Rightarrow> 'g state \<Rightarrow> event list" where
  "new_events \<sigma> \<sigma>' = drop (length (trace \<sigma>)) (trace \<sigma>')"

fun is_call :: "event \<Rightarrow> bool" where
  "is_call (Called _ _ _) = True"
| "is_call _ = False"

fun is_call_of :: "string \<Rightarrow> event \<Rightarrow> bool" where
  "is_call_of n (Called n' _ _) = (n' = n)"
| "is_call_of n _ = False"

fun is_byte_read :: "event \<Rightarrow> bool" where
  "is_byte_read (MemRead _ _ _) = True"
| "is_byte_read _ = False"

text \<open>A memory access that the runtime refused.\<close>

fun failed_access :: "event \<Rightarrow> bool" where
  "failed_access (MemRead _ _ ok) = (\<not> ok)"
| "failed_access (MemReadUint32Le _ ok) = (\<not> ok)"
| "failed_access (MemWrite _ _ ok) = (\<not> ok)"
| "failed_access (Called _ _ _) = False"

definition clean :: "event list \<Rightarrow> bool" where
  "clean ext = list_all (\<lambda>e. \<not> failed_access e) ext"

text \<open>
  A refused access is fatal: a run that returns normally has none, and a run that
  panics has at most one, its last event.
\<close>

definition fatal_only :: "panic + 'a \<Rightarrow> event list \<Rightarrow> bool" where
  "fatal_only r ext = (if isl r then clean (butlast ext) else clean ext)"

definition disciplined :: "('g, 'a) io \<Rightarrow> bool" where
  "disciplined m =
     (\<forall>\<sigma>. \<exists>ext. trace (snd (m \<sigma>)) = trace \<sigma> @ ext \<and> fatal_only (fst (m \<sigma>)) ext)"

text \<open>
  The function references of a module built by \<open>newSqlModule\<close>: each field is \<open>nil\<close>
  or the export of the name the struct literal gives it.
\<close>

definition bound_to :: "'g func option \<Rightarrow> string \<Rightarrow> bool" where
  "bound_to f n = (case f of None \<Rightarrow> True | Some fn \<Rightarrow> fname fn = n)"

definition named :: "'g sqliteModule \<Rightarrow> bool" where
  "named s =
     (bound_to (open s) ''sqlite3_open_v2'' \<and>
      bound_to (exec s) ''sqlite3_exec'' \<and>
      bound_to (getResultPtr s) ''get_result_ptr'' \<and>
      bound_to (getResultSize s) ''get_result_size'' \<and>
      bound_to (prepare s) ''sqlite3_prepare_v2'' \<and>
      bound_to (step s) ''sqlite3_step'' \<and>
      bound_to (columnInt s) ''sqlite3_column_int64'' \<and>
      bound_to (columnText s) ''sqlite3_column_text'' \<and>
      bound_to (alloc s) ''allocate'')"

text \<open>
  An operation keeps the module struct \<open>s\<close> and appends only events that satisfy \<open>P\<close>.
\<close>

definition keeps :: "'g sqliteModule \<Rightarrow> (event \<Rightarrow> bool) \<Rightarrow> ('g, 'a) io \<Rightarrow> bool" where
  "keeps s P m =
     (\<forall>\<sigma>. smod \<sigma> = s \<longrightarrow>
        smod (snd (m \<sigma>)) = s \<and>
        (\<exists>ext. trace (snd (m \<sigma>)) = trace \<sigma> @ ext \<and> list_all P ext))"

text \<open>
  A call of the exec or of the prepare export passes \<open>h\<close> as its first argument.
\<close>

fun handle_passed :: "u64 \<Rightarrow> event \<Rightarrow> bool" where
  "handle_passed h (Called n args out) =
     (if n = ''sqlite3_exec'' \<or> n = ''sqlite3_prepare_v2''
      then (case args of [] \<Rightarrow> False | a # _ \<Rightarrow> a = h)
      else True)"
| "handle_passed h _ = True"

text \<open>
  The codes of the step calls in a list of events, in order: the first result of each
  call of the step export (\<open>None\<close> for a call that returned an error or no result).
\<close>

fun step_code :: "event \<Rightarrow> u64 option list" where
  "step_code (Called n args out) =
     (if n = ''sqlite3_step''
      then [case out of Inl _ \<Rightarrow> None | Inr [] \<Rightarrow> None | Inr (v # _) \<Rightarrow> Some v]
      else [])"
| "step_code _ = []"

definition step_codes :: "event list \<Rightarrow> u64 option list" where
  "step_codes ext = concat (map step_code ext)"

subsection \<open>A small guest for concrete runs\<close>

text \<open>
  A guest with a fixed allocator address \<open>a\<close>, a result pointer \<open>b\<close>, a result size
  \<open>k\<close> and a countdown of rows as its hidden state. Its open, exec, prepare and
  text-column exports leave the memory as it is, so the result struct a run sees is
  the one placed in the initial memory.
\<close>

definition demo_fn :: "u64 \<Rightarrow> u64 \<Rightarrow> u64 \<Rightarrow> string \<Rightarrow> nat guest_fn option" where
  "demo_fn a b k name =
     (if name = ''allocate'' then Some (\<lambda>args m g. (Inr [a], m, g))
      else if name = ''get_result_ptr'' then Some (\<lambda>args m g. (Inr [b], m, g))
      else if name = ''get_result_size'' then Some (\<lambda>args m g. (Inr [k], m, g))
      else if name = ''sqlite3_step''
        then Some (\<lambda>args m g. (Inr [if 0 < g then 100 else 101], m, g - 1))
      else if name = ''sqlite3_column_int64'' then Some (\<lambda>args m g. (Inr [of_nat g], m, g))
      else if name \<in> {''sqlite3_open_v2'', ''sqlite3_exec'', ''sqlite3_prepare_v2'',
                       ''sqlite3_column_text''}
        then Some (\<lambda>args m g. (Inr [], m, g))
      else None)"

definition demo :: "u64 \<Rightarrow> u64 \<Rightarrow> u64 \<Rightarrow> byte list \<Rightarrow> nat \<Rightarrow> nat moduleInstance" where
  "demo a b k m rows = \<lparr>exports = demo_fn a b k, memory0 = m, guest0 = rows\<rparr>"

text \<open>The same guest with a step export that traps, and with no step export at all.\<close>

definition demo_trap :: "byte list \<Rightarrow> nat moduleInstance" where
  "demo_trap m =
     \<lparr>exports = (demo_fn 12 0 0)
        (''sqlite3_step'' := Some (\<lambda>args m g. (Inl ''unreachable'', m, g))),
      memory0 = m, guest0 = 0\<rparr>"

definition demo_nostep :: "byte list \<Rightarrow> nat moduleInstance" where
  "demo_nostep m =
     \<lparr>exports = (demo_fn 12 0 0)(''sqlite3_step'' := None), memory0 = m, guest0 = 0\<rparr>"

text \<open>A memory whose result struct at address 0 holds status 0 and the word 16 at offset 4.\<close>

definition demo_mem :: "byte list" where
  "demo_mem = [0,0,0,0, 16,0,0,0, 0,0,0,0, 0,0,0,0, 0,0,0,0, 99,0,0,0, 0,0,0,0, 0,0,0,0]"

text \<open>
  A memory whose result struct at address 0 holds status 1, the word 16 at offset 4 and
  the word 2 at offset 8; the bytes "hi" at 16, the words 28 and 3 at 20 and 24, and the
  bytes "abc" at 28.
\<close>

definition demo_mem_err :: "byte list" where
  "demo_mem_err = [1,0,0,0, 16,0,0,0, 2,0,0,0, 0,0,0,0, 104,105,0,0, 28,0,0,0, 3,0,0,0,
                   97,98,99,0, 0,0,0,0]"

text \<open>The same struct with a message range that does not fit the memory (size 200).\<close>

definition demo_mem_bad :: "byte list" where
  "demo_mem_bad = [1,0,0,0, 16,0,0,0, 200,0,0,0, 0,0,0,0, 104,105,0,0, 28,0,0,0, 3,0,0,0,
                   97,98,99,0, 0,0,0,0]"

text \<open>The same guest with an exec export that traps.\<close>

definition demo_trap_exec :: "byte list \<Rightarrow> nat moduleInstance" where
  "demo_trap_exec m =
     \<lparr>exports = (demo_fn 12 0 0)
        (''sqlite3_exec'' := Some (\<lambda>args m g. (Inl ''unreachable'', m, g))),
      memory0 = m, guest0 = 0\<rparr>"

text \<open>
  From \<open>\<sigma>\<close> to \<open>\<sigma>'\<close> the module struct is \<open>s\<close> and the trace has grown by events that
  satisfy \<open>P\<close>.
\<close>

definition follows :: "'g sqliteModule \<Rightarrow> (event \<Rightarrow> bool) \<Rightarrow> 'g state \<Rightarrow> 'g state \<Rightarrow> bool" where
  "follows s P \<sigma> \<sigma>' =
     (smod \<sigma>' = s \<and> (\<exists>ext. trace \<sigma>' = trace \<sigma> @ ext \<and> list_all P ext))"

section \<open>Basic facts\<close>

lemmas demo_defs = bindExports_def demo_def demo_fn_def ExportedFunction_def demo_trap_def
  demo_nostep_def

lemmas mem_defs = Read_def ReadUint32Le_def Write_def in_range_def le32_def

lemmas io_defs = bind_def return_def throw_def getModule_def log_event_def Call_def
  callOrPanic_def index0_def memRead_def memReadUint32Le_def memWrite_def

lemmas op_defs = execSelectUsers_def prepareStmt_def allocateString_def execStep_def
  ensureStatusCodeSuccess_def readInt_def readText_def execSql_def openDb_def setDbHandle_def

lemma bind_Inl: "m \<sigma> = (Inl e, \<sigma>') \<Longrightarrow> bind m f \<sigma> = (Inl e, \<sigma>')"
  by (simp add: bind_def)

lemma bind_Inr: "m \<sigma> = (Inr x, \<sigma>') \<Longrightarrow> bind m f \<sigma> = f x \<sigma>'"
  by (simp add: bind_def)

lemma bind_InrE:
  assumes "bind m f \<sigma> = (Inr y, \<sigma>')"
  obtains x \<sigma>1 where "m \<sigma> = (Inr x, \<sigma>1)" "f x \<sigma>1 = (Inr y, \<sigma>')"
  using assms by (auto simp: bind_def split: prod.splits sum.splits)

lemma ExportedFunction_bound: "bound_to (ExportedFunction sqlite n) n"
  by (simp add: bound_to_def ExportedFunction_def split: option.splits)

lemma named_bindExports: "named (smod (bindExports sqlite))"
  by (simp add: named_def bindExports_def ExportedFunction_bound)

lemma keepsD:
  assumes "keeps s P m" "smod \<sigma> = s" "m \<sigma> = (r, \<sigma>')"
  obtains ext where "smod \<sigma>' = s" "trace \<sigma>' = trace \<sigma> @ ext" "list_all P ext"
  using assms unfolding keeps_def by (metis snd_conv)

lemma keeps_return: "keeps s P (return x)"
  by (simp add: keeps_def return_def)

lemma keeps_throw: "keeps s P (throw e)"
  by (simp add: keeps_def throw_def)

lemma keeps_bind:
  assumes m: "keeps s P m" and f: "\<And>x. keeps s P (f x)"
  shows "keeps s P (bind m f)"
  unfolding keeps_def
proof (intro allI impI)
  fix \<sigma> :: "'a state"
  assume s: "smod \<sigma> = s"
  obtain r \<sigma>1 where r: "m \<sigma> = (r, \<sigma>1)" by (cases "m \<sigma>")
  from keepsD[OF m s r] obtain e1 where
    1: "smod \<sigma>1 = s" "trace \<sigma>1 = trace \<sigma> @ e1" "list_all P e1" .
  show "smod (snd (bind m f \<sigma>)) = s \<and>
        (\<exists>ext. trace (snd (bind m f \<sigma>)) = trace \<sigma> @ ext \<and> list_all P ext)"
  proof (cases r)
    case (Inl e)
    with r 1 show ?thesis by (simp add: bind_def)
  next
    case (Inr x)
    obtain r2 \<sigma>2 where r2: "f x \<sigma>1 = (r2, \<sigma>2)" by (cases "f x \<sigma>1")
    from keepsD[OF f 1(1) r2] obtain e2 where
      2: "smod \<sigma>2 = s" "trace \<sigma>2 = trace \<sigma>1 @ e2" "list_all P e2" .
    from Inr r r2 1 2 show ?thesis by (simp add: bind_def)
  qed
qed

lemma keeps_getModule:
  assumes "keeps s P (f s)"
  shows "keeps s P (bind getModule f)"
  using assms by (simp add: keeps_def bind_def getModule_def)

lemma keeps_Call:
  assumes "bound_to f n" "\<And>out. P (Called n args out)"
  shows "keeps s P (Call f args)"
  using assms
  by (auto simp: keeps_def Call_def log_event_def bound_to_def split: option.splits prod.splits)

lemma keeps_callOrPanic:
  assumes "bound_to f n" "\<And>out. P (Called n args out)"
  shows "keeps s P (callOrPanic msg f args)"
  unfolding callOrPanic_def
proof (rule keeps_bind)
  show "keeps s P (Call f args)"
    using assms by (rule keeps_Call)
  show "keeps s P (case r of Inl err \<Rightarrow> throw (CallPanic msg err) | Inr res \<Rightarrow> return res)" for r
    by (cases r) (simp_all add: keeps_return keeps_throw)
qed

lemma keeps_index0: "keeps s P (index0 res)"
  by (auto simp: index0_def split: list.splits intro: keeps_return keeps_throw)

lemma keeps_memRead: "(\<And>e. \<not> is_call e \<Longrightarrow> P e) \<Longrightarrow> keeps s P (memRead off cnt)"
  by (simp add: keeps_def memRead_def log_event_def)

lemma keeps_memReadUint32Le: "(\<And>e. \<not> is_call e \<Longrightarrow> P e) \<Longrightarrow> keeps s P (memReadUint32Le off)"
  by (simp add: keeps_def memReadUint32Le_def log_event_def)

lemma keeps_memWrite: "(\<And>e. \<not> is_call e \<Longrightarrow> P e) \<Longrightarrow> keeps s P (memWrite off v)"
  by (simp add: keeps_def memWrite_def log_event_def split: option.splits)

lemma keeps_ensureStatusCodeSuccess:
  "(\<And>e. \<not> is_call e \<Longrightarrow> P e) \<Longrightarrow> keeps s P (ensureStatusCodeSuccess p msg)"
  unfolding ensureStatusCodeSuccess_def
  by (intro keeps_bind keeps_memReadUint32Le)
     (auto split: option.splits intro: keeps_return keeps_throw)

lemma keeps_allocateString:
  assumes "named s" "\<And>e. \<not> is_call e \<Longrightarrow> P e" "\<And>args out. P (Called ''allocate'' args out)"
  shows "keeps s P (allocateString str)"
  unfolding allocateString_def
  apply (intro keeps_getModule keeps_bind keeps_index0 keeps_memWrite
      keeps_callOrPanic[where n = "''allocate''"])
  using assms by (auto simp: named_def intro: keeps_return keeps_throw)

lemma keeps_execStep:
  assumes "named s" "\<And>out. P (Called ''sqlite3_step'' [ucast stmt] out)"
  shows "keeps s P (execStep stmt)"
  unfolding execStep_def
  apply (intro keeps_getModule keeps_bind keeps_index0
      keeps_callOrPanic[where n = "''sqlite3_step''"])
  using assms by (auto simp: named_def)

lemma keeps_readInt:
  assumes "named s" "\<And>args out. P (Called ''sqlite3_column_int64'' args out)"
  shows "keeps s P (readInt stmt c)"
  unfolding readInt_def
  apply (intro keeps_getModule keeps_bind keeps_index0
      keeps_callOrPanic[where n = "''sqlite3_column_int64''"])
  using assms by (auto simp: named_def)

lemma keeps_readText:
  assumes "named s" "\<And>e. \<not> is_call e \<Longrightarrow> P e"
    "\<And>args out. P (Called ''sqlite3_column_text'' args out)"
    "\<And>args out. P (Called ''get_result_ptr'' args out)"
    "\<And>args out. P (Called ''get_result_size'' args out)"
  shows "keeps s P (readText stmt c)"
  unfolding readText_def
  apply (rule keeps_getModule)
  apply (rule keeps_bind)
   apply (rule keeps_callOrPanic[where n = "''sqlite3_column_text''"])
  using assms apply (simp add: named_def)
  using assms apply simp
  apply (rule keeps_getModule)
  apply (rule keeps_bind)
   apply (rule keeps_callOrPanic[where n = "''get_result_ptr''"])
  using assms apply (simp add: named_def)
  using assms apply simp
  apply (rule keeps_getModule)
  apply (rule keeps_bind)
   apply (rule keeps_callOrPanic[where n = "''get_result_size''"])
  using assms apply (simp add: named_def)
  using assms apply simp
  apply (intro keeps_bind keeps_index0 keeps_memRead)
  using assms by (auto split: option.splits intro: keeps_return keeps_throw)

section \<open>Refused memory accesses are fatal: the building blocks\<close>

lemma clean_Nil [simp]: "clean []"
  by (simp add: clean_def)

lemma clean_append [simp]: "clean (xs @ ys) \<longleftrightarrow> clean xs \<and> clean ys"
  by (simp add: clean_def)

lemma clean_butlast: "clean xs \<Longrightarrow> clean (butlast xs)"
  by (auto simp: clean_def list_all_iff dest: in_set_butlastD)

lemma clean_Called [simp]: "clean [Called n args out]"
  by (simp add: clean_def)

lemma fatal_only_clean: "clean ext \<Longrightarrow> fatal_only r ext"
  by (simp add: fatal_only_def clean_butlast)

lemma disciplinedD:
  assumes "disciplined m" "m \<sigma> = (r, \<sigma>')"
  obtains ext where "trace \<sigma>' = trace \<sigma> @ ext" "fatal_only r ext"
  using assms unfolding disciplined_def by (metis fst_conv snd_conv)

lemma disciplined_return: "disciplined (return x)"
  by (simp add: disciplined_def return_def fatal_only_def)

lemma disciplined_throw: "disciplined (throw e)"
  by (simp add: disciplined_def throw_def fatal_only_def)

lemma disciplined_bind:
  assumes m: "disciplined m" and f: "\<And>x. disciplined (f x)"
  shows "disciplined (bind m f)"
  unfolding disciplined_def
proof
  fix \<sigma> :: "'a state"
  obtain r \<sigma>1 where r: "m \<sigma> = (r, \<sigma>1)" by (cases "m \<sigma>")
  from disciplinedD[OF m r] obtain e1 where
    1: "trace \<sigma>1 = trace \<sigma> @ e1" "fatal_only r e1" .
  show "\<exists>ext. trace (snd (bind m f \<sigma>)) = trace \<sigma> @ ext \<and> fatal_only (fst (bind m f \<sigma>)) ext"
  proof (cases r)
    case (Inl e)
    with r 1 show ?thesis by (simp add: bind_def fatal_only_def)
  next
    case (Inr x)
    obtain r2 \<sigma>2 where r2: "f x \<sigma>1 = (r2, \<sigma>2)" by (cases "f x \<sigma>1")
    from disciplinedD[OF f r2] obtain e2 where
      2: "trace \<sigma>2 = trace \<sigma>1 @ e2" "fatal_only r2 e2" .
    from Inr 1 have c1: "clean e1" by (simp add: fatal_only_def)
    have "fatal_only r2 (e1 @ e2)"
      using c1 2(2) by (cases "e2 = []") (auto simp: fatal_only_def butlast_append clean_butlast)
    with Inr r r2 1 2 show ?thesis by (simp add: bind_def)
  qed
qed

lemma disciplined_getModule:
  assumes "\<And>s. disciplined (f s)"
  shows "disciplined (bind getModule f)"
  using assms by (simp add: disciplined_def bind_def getModule_def)

lemma disciplined_callOrPanic: "disciplined (callOrPanic msg f args)"
  by (auto simp: disciplined_def io_defs fatal_only_def split: option.splits prod.splits sum.splits)

lemma disciplined_index0: "disciplined (index0 res)"
  by (auto simp: index0_def split: list.splits intro: disciplined_return disciplined_throw)

lemma disciplined_memRead:
  assumes "\<And>v. disciplined (g v)"
  shows "disciplined (bind (memRead off cnt) (case_option (throw e) g))"
  unfolding disciplined_def
proof
  fix \<sigma> :: "'a state"
  show "\<exists>ext. trace (snd (bind (memRead off cnt) (case_option (throw e) g) \<sigma>)) = trace \<sigma> @ ext \<and>
          fatal_only (fst (bind (memRead off cnt) (case_option (throw e) g) \<sigma>)) ext"
  proof (cases "Read (mem \<sigma>) off cnt")
    case None
    then show ?thesis
      by (simp add: bind_def memRead_def log_event_def throw_def fatal_only_def)
  next
    case (Some v)
    let ?\<sigma>1 = "log_event (MemRead off cnt (in_range (mem \<sigma>) off (unat cnt))) \<sigma>"
    from Some have ok: "in_range (mem \<sigma>) off (unat cnt)"
      by (simp add: Read_def split: if_splits)
    obtain r2 \<sigma>2 where r2: "g v ?\<sigma>1 = (r2, \<sigma>2)" by (cases "g v ?\<sigma>1")
    from disciplinedD[OF assms r2] obtain e2 where
      2: "trace \<sigma>2 = trace ?\<sigma>1 @ e2" "fatal_only r2 e2" .
    have "fatal_only r2 ([MemRead off cnt True] @ e2)"
      using 2(2) by (cases "e2 = []") (auto simp: fatal_only_def butlast_append clean_def)
    with Some ok r2 2 show ?thesis
      by (simp add: bind_def memRead_def log_event_def)
  qed
qed

lemma disciplined_memReadUint32Le:
  assumes "\<And>v. disciplined (g v)"
  shows "disciplined (bind (memReadUint32Le off) (case_option (throw e) g))"
  unfolding disciplined_def
proof
  fix \<sigma> :: "'a state"
  show "\<exists>ext. trace (snd (bind (memReadUint32Le off) (case_option (throw e) g) \<sigma>)) = trace \<sigma> @ ext \<and>
          fatal_only (fst (bind (memReadUint32Le off) (case_option (throw e) g) \<sigma>)) ext"
  proof (cases "ReadUint32Le (mem \<sigma>) off")
    case None
    then show ?thesis
      by (simp add: bind_def memReadUint32Le_def log_event_def throw_def fatal_only_def)
  next
    case (Some v)
    let ?\<sigma>1 = "log_event (MemReadUint32Le off (in_range (mem \<sigma>) off 4)) \<sigma>"
    from Some have ok: "in_range (mem \<sigma>) off 4"
      by (simp add: ReadUint32Le_def split: if_splits)
    obtain r2 \<sigma>2 where r2: "g v ?\<sigma>1 = (r2, \<sigma>2)" by (cases "g v ?\<sigma>1")
    from disciplinedD[OF assms r2] obtain e2 where
      2: "trace \<sigma>2 = trace ?\<sigma>1 @ e2" "fatal_only r2 e2" .
    have "fatal_only r2 ([MemReadUint32Le off True] @ e2)"
      using 2(2) by (cases "e2 = []") (auto simp: fatal_only_def butlast_append clean_def)
    with Some ok r2 2 show ?thesis
      by (simp add: bind_def memReadUint32Le_def log_event_def)
  qed
qed

lemma disciplined_memWrite:
  assumes "disciplined g"
  shows "disciplined (bind (memWrite off v) (\<lambda>ok. if \<not> ok then throw e else g))"
  unfolding disciplined_def
proof
  fix \<sigma> :: "'a state"
  let ?m = "bind (memWrite off v) (\<lambda>ok. if \<not> ok then throw e else g)"
  show "\<exists>ext. trace (snd (?m \<sigma>)) = trace \<sigma> @ ext \<and> fatal_only (fst (?m \<sigma>)) ext"
  proof (cases "Write (mem \<sigma>) off v")
    case None
    then show ?thesis
      by (simp add: bind_def memWrite_def log_event_def throw_def fatal_only_def)
  next
    case (Some m')
    let ?\<sigma>1 = "log_event (MemWrite off (length v) True) (\<sigma>\<lparr>mem := m'\<rparr>)"
    obtain r2 \<sigma>2 where r2: "g ?\<sigma>1 = (r2, \<sigma>2)" by (cases "g ?\<sigma>1")
    from disciplinedD[OF assms r2] obtain e2 where
      2: "trace \<sigma>2 = trace ?\<sigma>1 @ e2" "fatal_only r2 e2" .
    have "fatal_only r2 ([MemWrite off (length v) True] @ e2)"
      using 2(2) by (cases "e2 = []") (auto simp: fatal_only_def butlast_append clean_def)
    with Some r2 2 show ?thesis
      by (simp add: bind_def memWrite_def log_event_def)
  qed
qed

lemma disciplined_if:
  "disciplined a \<Longrightarrow> disciplined b \<Longrightarrow> disciplined (if c then a else b)"
  by simp

lemma disciplined_case_prod:
  "(\<And>a b. disciplined (f a b)) \<Longrightarrow> disciplined (case_prod f p)"
  by (cases p) simp

lemmas disciplined_intros = disciplined_getModule disciplined_memRead disciplined_memReadUint32Le
  disciplined_memWrite disciplined_bind disciplined_callOrPanic disciplined_index0
  disciplined_return disciplined_throw disciplined_if disciplined_case_prod

lemma disciplined_ensureStatusCodeSuccess: "disciplined (ensureStatusCodeSuccess p msg)"
  unfolding ensureStatusCodeSuccess_def by (intro disciplined_intros)

lemma disciplined_allocateString: "disciplined (allocateString str)"
  unfolding allocateString_def by (intro disciplined_intros)

lemma disciplined_execStep: "disciplined (execStep stmt)"
  unfolding execStep_def by (intro disciplined_intros)

lemma disciplined_readInt: "disciplined (readInt stmt c)"
  unfolding readInt_def by (intro disciplined_intros)

lemma disciplined_readText: "disciplined (readText stmt c)"
  unfolding readText_def by (intro disciplined_intros)

lemma disciplined_execSql: "disciplined (execSql query)"
  unfolding execSql_def
  by (intro disciplined_intros disciplined_allocateString disciplined_ensureStatusCodeSuccess)

lemma disciplined_prepareStmt: "disciplined (prepareStmt query)"
  unfolding prepareStmt_def
  by (intro disciplined_intros disciplined_allocateString disciplined_ensureStatusCodeSuccess)

lemma disciplined_setDbHandle: "disciplined (setDbHandle h)"
  by (simp add: disciplined_def setDbHandle_def fatal_only_def)

lemma disciplined_openDb: "disciplined openDb"
  unfolding openDb_def
  by (intro disciplined_intros disciplined_allocateString disciplined_ensureStatusCodeSuccess
      disciplined_setDbHandle)

lemma fatal_only_append: "clean a \<Longrightarrow> fatal_only r b \<Longrightarrow> fatal_only r (a @ b)"
  by (cases "b = []") (auto simp: fatal_only_def butlast_append clean_butlast)

lemma disciplined_Inr:
  assumes "disciplined m" "m \<sigma> = (Inr x, \<sigma>')"
  obtains ext where "trace \<sigma>' = trace \<sigma> @ ext" "clean ext"
  using disciplinedD[OF assms] by (auto simp: fatal_only_def)

lemma disciplined_Inl:
  assumes "disciplined m" "m \<sigma> = (Inl e, \<sigma>')"
  obtains ext where "trace \<sigma>' = trace \<sigma> @ ext" "fatal_only (Inl e :: panic + 'b) ext"
  using disciplinedD[OF assms] by (auto simp: fatal_only_def)

text \<open>
  Induction over the runs of the loop that return: one case for leaving the loop, one
  for each of the three places a pass can panic, one for a whole pass.
\<close>

lemma stepLoop_returns_induct [consumes 1, case_names leave readInt_panics readText_panics
    execStep_panics pass]:
  assumes run: "stepLoop stmt rc0 users0 \<sigma>0 = Some y0"
    and leave: "\<And>rc users \<sigma>. rc \<noteq> SQLITE_ROW \<Longrightarrow> Q rc users \<sigma> (Inr users, \<sigma>)"
    and p1: "\<And>users \<sigma> e \<sigma>1. readInt stmt 0 \<sigma> = (Inl e, \<sigma>1) \<Longrightarrow>
               Q SQLITE_ROW users \<sigma> (Inl e, \<sigma>1)"
    and p2: "\<And>users \<sigma> i \<sigma>1 e \<sigma>2.
               readInt stmt 0 \<sigma> = (Inr i, \<sigma>1) \<Longrightarrow> readText stmt 1 \<sigma>1 = (Inl e, \<sigma>2) \<Longrightarrow>
               Q SQLITE_ROW users \<sigma> (Inl e, \<sigma>2)"
    and p3: "\<And>users \<sigma> i \<sigma>1 n \<sigma>2 e \<sigma>3.
               readInt stmt 0 \<sigma> = (Inr i, \<sigma>1) \<Longrightarrow> readText stmt 1 \<sigma>1 = (Inr n, \<sigma>2) \<Longrightarrow>
               execStep stmt \<sigma>2 = (Inl e, \<sigma>3) \<Longrightarrow>
               Q SQLITE_ROW users \<sigma> (Inl e, \<sigma>3)"
    and pass: "\<And>users \<sigma> i \<sigma>1 n \<sigma>2 rc' \<sigma>3 y.
               readInt stmt 0 \<sigma> = (Inr i, \<sigma>1) \<Longrightarrow> readText stmt 1 \<sigma>1 = (Inr n, \<sigma>2) \<Longrightarrow>
               execStep stmt \<sigma>2 = (Inr rc', \<sigma>3) \<Longrightarrow>
               Q rc' (users @ [\<lparr>id' = i, name' = n\<rparr>]) \<sigma>3 y \<Longrightarrow>
               Q SQLITE_ROW users \<sigma> y"
  shows "Q rc0 users0 \<sigma>0 y0"
proof -
  have "stmt' = stmt \<longrightarrow> Q rc0 users0 \<sigma>0 y0" if "stepLoop stmt' rc0 users0 \<sigma>0 = Some y0" for stmt'
  proof (rule stepLoop.raw_induct
      [where P = "\<lambda>stmt' rc users \<sigma> y. stmt' = stmt \<longrightarrow> Q rc users \<sigma> y", OF _ that])
    fix loop :: "u32 \<Rightarrow> u64 \<Rightarrow> user list \<Rightarrow> 'a state \<Rightarrow> ((panic + user list) \<times> 'a state) option"
      and stmt' rc users \<sigma> y
    assume IH: "\<And>stmt' rc users \<sigma> y. loop stmt' rc users \<sigma> = Some y \<Longrightarrow>
        stmt' = stmt \<longrightarrow> Q rc users \<sigma> y"
      and F: "(if rc = SQLITE_ROW then
          (case readInt stmt' 0 \<sigma> of
             (Inl e, \<sigma>1) \<Rightarrow> Some (Inl e, \<sigma>1)
           | (Inr i, \<sigma>1) \<Rightarrow>
               (case readText stmt' 1 \<sigma>1 of
                  (Inl e, \<sigma>2) \<Rightarrow> Some (Inl e, \<sigma>2)
                | (Inr n, \<sigma>2) \<Rightarrow>
                    (case execStep stmt' \<sigma>2 of
                       (Inl e, \<sigma>3) \<Rightarrow> Some (Inl e, \<sigma>3)
                     | (Inr rc', \<sigma>3) \<Rightarrow>
                         loop stmt' rc' (users @ [\<lparr>id' = i, name' = n\<rparr>]) \<sigma>3)))
        else Some (Inr users, \<sigma>)) = Some y"
    show "stmt' = stmt \<longrightarrow> Q rc users \<sigma> y"
    proof
      assume st: "stmt' = stmt"
      show "Q rc users \<sigma> y"
      proof (cases "rc = SQLITE_ROW")
        case False
        with F leave show ?thesis by auto
      next
        case True
        obtain r1 \<sigma>1 where r1: "readInt stmt 0 \<sigma> = (r1, \<sigma>1)" by (cases "readInt stmt 0 \<sigma>")
        show ?thesis
        proof (cases r1)
          case (Inl e)
          with True r1 F st p1 show ?thesis by auto
        next
          case (Inr i)
          obtain r2 \<sigma>2 where r2: "readText stmt 1 \<sigma>1 = (r2, \<sigma>2)"
            by (cases "readText stmt 1 \<sigma>1")
          show ?thesis
          proof (cases r2)
            case (Inl e)
            with True r1 r2 Inr F st p2 show ?thesis by auto
          next
            case n: (Inr n)
            obtain r3 \<sigma>3 where r3: "execStep stmt \<sigma>2 = (r3, \<sigma>3)"
              by (cases "execStep stmt \<sigma>2")
            show ?thesis
            proof (cases r3)
              case (Inl e)
              with True r1 r2 r3 Inr n F st p3 show ?thesis by auto
            next
              case rc': (Inr rc')
              from True r1 r2 r3 Inr n rc' F st
              have "loop stmt rc' (users @ [\<lparr>id' = i, name' = n\<rparr>]) \<sigma>3 = Some y" by simp
              from IH[OF this] have "Q rc' (users @ [\<lparr>id' = i, name' = n\<rparr>]) \<sigma>3 y" by simp
              with True r1 r2 r3 Inr n rc' pass show ?thesis by auto
            qed
          qed
        qed
      qed
    qed
  qed
  with run show ?thesis by simp
qed

lemma stepLoop_disciplined:
  assumes "stepLoop stmt rc users \<sigma> = Some y"
  shows "\<exists>ext. trace (snd y) = trace \<sigma> @ ext \<and> fatal_only (fst y) ext"
  using assms
proof (induction rule: stepLoop_returns_induct)
  case (leave rc users \<sigma>)
  show ?case by (simp add: fatal_only_def)
next
  case (readInt_panics users \<sigma> e \<sigma>1)
  from disciplined_Inl[OF disciplined_readInt this] show ?case
    by (metis fst_conv snd_conv)
next
  case (readText_panics users \<sigma> i \<sigma>1 e \<sigma>2)
  from disciplined_Inr[OF disciplined_readInt readText_panics(1)] obtain e1 where
    e1: "trace \<sigma>1 = trace \<sigma> @ e1" "clean e1" .
  from disciplined_Inl[OF disciplined_readText readText_panics(2)] obtain e2 where
    e2: "trace \<sigma>2 = trace \<sigma>1 @ e2" "fatal_only (Inl e :: panic + user list) e2" .
  from e1 e2 show ?case by (auto intro: fatal_only_append)
next
  case (execStep_panics users \<sigma> i \<sigma>1 n \<sigma>2 e \<sigma>3)
  from disciplined_Inr[OF disciplined_readInt execStep_panics(1)] obtain e1 where
    e1: "trace \<sigma>1 = trace \<sigma> @ e1" "clean e1" .
  from disciplined_Inr[OF disciplined_readText execStep_panics(2)] obtain e2 where
    e2: "trace \<sigma>2 = trace \<sigma>1 @ e2" "clean e2" .
  from disciplined_Inl[OF disciplined_execStep execStep_panics(3)] obtain e3 where
    e3: "trace \<sigma>3 = trace \<sigma>2 @ e3" "fatal_only (Inl e :: panic + user list) e3" .
  from e1 e2 e3 have "trace \<sigma>3 = trace \<sigma> @ (e1 @ e2) @ e3"
    "fatal_only (Inl e :: panic + user list) ((e1 @ e2) @ e3)"
    by (auto intro: fatal_only_append)
  then show ?case by (metis fst_conv snd_conv)
next
  case (pass users \<sigma> i \<sigma>1 n \<sigma>2 rc' \<sigma>3 y)
  from disciplined_Inr[OF disciplined_readInt pass(1)] obtain e1 where
    e1: "trace \<sigma>1 = trace \<sigma> @ e1" "clean e1" .
  from disciplined_Inr[OF disciplined_readText pass(2)] obtain e2 where
    e2: "trace \<sigma>2 = trace \<sigma>1 @ e2" "clean e2" .
  from disciplined_Inr[OF disciplined_execStep pass(3)] obtain e3 where
    e3: "trace \<sigma>3 = trace \<sigma>2 @ e3" "clean e3" .
  from pass(4) obtain e4 where
    e4: "trace (snd y) = trace \<sigma>3 @ e4" "fatal_only (fst y) e4" by auto
  from e1 e2 e3 e4 have "trace (snd y) = trace \<sigma> @ (e1 @ e2 @ e3) @ e4"
    "fatal_only (fst y) ((e1 @ e2 @ e3) @ e4)"
    by (auto intro: fatal_only_append)
  then show ?case by blast
qed

lemma execSelectUsers_disciplined:
  assumes "execSelectUsers query \<sigma> = Some y"
  shows "\<exists>ext. trace (snd y) = trace \<sigma> @ ext \<and> fatal_only (fst y) ext"
proof -
  obtain r1 \<sigma>1 where r1: "prepareStmt query \<sigma> = (r1, \<sigma>1)" by (cases "prepareStmt query \<sigma>")
  show ?thesis
  proof (cases r1)
    case (Inl e)
    with r1 assms have y: "y = (Inl e, \<sigma>1)" by (simp add: execSelectUsers_def)
    from disciplined_Inl[OF disciplined_prepareStmt r1[unfolded Inl]] y show ?thesis
      by (metis fst_conv snd_conv)
  next
    case (Inr stmt)
    from disciplined_Inr[OF disciplined_prepareStmt r1[unfolded Inr]] obtain e1 where
      e1: "trace \<sigma>1 = trace \<sigma> @ e1" "clean e1" .
    obtain r2 \<sigma>2 where r2: "execStep stmt \<sigma>1 = (r2, \<sigma>2)" by (cases "execStep stmt \<sigma>1")
    show ?thesis
    proof (cases r2)
      case (Inl e)
      with r1 r2 Inr assms have y: "y = (Inl e, \<sigma>2)" by (simp add: execSelectUsers_def)
      from disciplined_Inl[OF disciplined_execStep r2[unfolded Inl]] obtain e2 where
        "trace \<sigma>2 = trace \<sigma>1 @ e2" "fatal_only (fst y) e2" unfolding y by auto
      with e1 y show ?thesis
        by (auto intro: fatal_only_append)
    next
      case rc: (Inr rc)
      from disciplined_Inr[OF disciplined_execStep r2[unfolded rc]] obtain e2 where
        e2: "trace \<sigma>2 = trace \<sigma>1 @ e2" "clean e2" .
      from r1 r2 Inr rc assms have "stepLoop stmt rc [] \<sigma>2 = Some y"
        by (simp add: execSelectUsers_def)
      from stepLoop_disciplined[OF this] obtain e3 where
        "trace (snd y) = trace \<sigma>2 @ e3" "fatal_only (fst y) e3" by auto
      with e1 e2 have "trace (snd y) = trace \<sigma> @ (e1 @ e2 @ e3)"
        "fatal_only (fst y) ((e1 @ e2) @ e3)"
        by (auto intro: fatal_only_append)
      then show ?thesis by auto
    qed
  qed
qed

section \<open>Runs that return: what happened on the way\<close>

lemma callOrPanic_InrD:
  assumes "callOrPanic msg f args \<sigma> = (Inr res, \<sigma>')"
  obtains fn m' g' where "f = Some fn"
    "fbody fn args (mem \<sigma>) (guest \<sigma>) = (Inr res, m', g')"
    "\<sigma>' = \<sigma>\<lparr>mem := m', guest := g', trace := trace \<sigma> @ [Called (fname fn) args (Inr res)]\<rparr>"
  using assms
  by (auto simp: io_defs split: option.splits prod.splits sum.splits)

lemma index0_InrD:
  assumes "index0 res \<sigma> = (Inr r, \<sigma>')"
  obtains rest where "res = r # rest" "\<sigma>' = \<sigma>"
  using assms by (auto simp: index0_def return_def throw_def split: list.splits)

lemma getModule_bind [simp]: "bind getModule f \<sigma> = f (smod \<sigma>) \<sigma>"
  by (simp add: bind_def getModule_def)

lemma memReadUint32Le_bind [simp]:
  "bind (memReadUint32Le off) f \<sigma> =
     f (ReadUint32Le (mem \<sigma>) off) (\<sigma>\<lparr>trace := trace \<sigma> @ [MemReadUint32Le off (in_range (mem \<sigma>) off 4)]\<rparr>)"
  by (simp add: bind_def memReadUint32Le_def log_event_def)

lemma memRead_bind [simp]:
  "bind (memRead off cnt) f \<sigma> =
     f (Read (mem \<sigma>) off cnt)
       (\<sigma>\<lparr>trace := trace \<sigma> @ [MemRead off cnt (in_range (mem \<sigma>) off (unat cnt))]\<rparr>)"
  by (simp add: bind_def memRead_def log_event_def)

lemma ReadUint32Le_Some_in_range: "ReadUint32Le m off = Some v \<Longrightarrow> in_range m off 4"
  by (simp add: ReadUint32Le_def split: if_splits)

lemma Read_Some_in_range: "Read m off cnt = Some v \<Longrightarrow> in_range m off (unat cnt)"
  by (simp add: Read_def split: if_splits)

lemma ensureStatusCodeSuccess_InrD:
  assumes "ensureStatusCodeSuccess p msg \<sigma> = (Inr u, \<sigma>')"
  shows "ReadUint32Le (mem \<sigma>) p = Some 0"
    "\<sigma>' = \<sigma>\<lparr>trace := trace \<sigma> @ [MemReadUint32Le p True]\<rparr>"
  using assms
  by (auto simp: ensureStatusCodeSuccess_def return_def throw_def
      dest: ReadUint32Le_Some_in_range split: option.splits if_splits)

lemma smod_allocateString: "smod (snd (allocateString str \<sigma>)) = smod \<sigma>"
  by (auto simp: allocateString_def io_defs split: option.splits prod.splits sum.splits list.splits)

lemma allocateString_smod:
  "allocateString str \<sigma> = (r, \<sigma>') \<Longrightarrow> smod \<sigma>' = smod \<sigma>"
  using smod_allocateString[of str \<sigma>] by simp

text \<open>The successful runs of \<open>prepareStmt\<close>, step by step.\<close>

lemma prepareStmt_InrD:
  assumes "prepareStmt query \<sigma> = (Inr stmt, \<sigma>')"
  obtains queryPtr querySize \<sigma>1 r \<sigma>2 b bs \<sigma>3 where
    "allocateString query \<sigma> = (Inr (queryPtr, querySize), \<sigma>1)"
    "callOrPanic ''failed to call prepare query'' (prepare (smod \<sigma>))
       [dbHandle (smod \<sigma>), queryPtr, querySize] \<sigma>1 = (Inr r, \<sigma>2)"
    "callOrPanic ''error getting result ptr'' (getResultPtr (smod \<sigma>)) [] \<sigma>2 = (Inr (b # bs), \<sigma>3)"
    "ReadUint32Le (mem \<sigma>3) (ucast b) = Some 0"
    "ReadUint32Le (mem \<sigma>3) (ucast (b + 4)) = Some stmt"
    "stmt \<noteq> 0"
    "\<sigma>' = \<sigma>3\<lparr>trace := trace \<sigma>3 @
             [MemReadUint32Le (ucast b) True, MemReadUint32Le (ucast (b + 4)) True]\<rparr>"
proof -
  obtain ra \<sigma>1 where a: "allocateString query \<sigma> = (ra, \<sigma>1)"
    by (cases "allocateString query \<sigma>")
  have s1: "smod \<sigma>1 = smod \<sigma>" using a by (rule allocateString_smod)
  have "\<exists>pq. ra = Inr pq"
    using a assms by (cases ra) (simp_all add: prepareStmt_def bind_def getModule_def)
  then obtain queryPtr querySize where ra: "ra = Inr (queryPtr, querySize)" by auto
  obtain rc \<sigma>2 where c1: "callOrPanic ''failed to call prepare query'' (prepare (smod \<sigma>))
       [dbHandle (smod \<sigma>), queryPtr, querySize] \<sigma>1 = (rc, \<sigma>2)"
    by (cases "callOrPanic ''failed to call prepare query'' (prepare (smod \<sigma>))
       [dbHandle (smod \<sigma>), queryPtr, querySize] \<sigma>1")
  have "\<exists>r. rc = Inr r"
    using a ra c1 s1 assms by (cases rc) (simp_all add: prepareStmt_def bind_def getModule_def)
  then obtain r where rc: "rc = Inr r" by auto
  have s2: "smod \<sigma>2 = smod \<sigma>"
    using c1 rc s1 by (auto elim!: callOrPanic_InrD)
  obtain rg \<sigma>3 where c2: "callOrPanic ''error getting result ptr'' (getResultPtr (smod \<sigma>)) [] \<sigma>2
      = (rg, \<sigma>3)"
    by (cases "callOrPanic ''error getting result ptr'' (getResultPtr (smod \<sigma>)) [] \<sigma>2")
  have "\<exists>b bs. rg = Inr (b # bs)"
  proof (cases rg)
    case (Inl e)
    with a ra c1 rc c2 s1 s2 assms show ?thesis
      by (simp add: prepareStmt_def bind_def getModule_def)
  next
    case (Inr res)
    with a ra c1 rc c2 s1 s2 assms show ?thesis
      by (cases res) (simp_all add: prepareStmt_def bind_def getModule_def index0_def throw_def)
  qed
  then obtain b bs where rg: "rg = Inr (b # bs)" by auto
  have run: "prepareStmt query \<sigma> =
      bind (ensureStatusCodeSuccess (ucast b) (bytes_of ''failed to prepare'')) (\<lambda>_.
       bind (memReadUint32Le (ucast (b + 4))) (\<lambda>x.
         case x of
           None \<Rightarrow> throw (Panic ''failed to read prepared statement'')
         | Some stmt \<Rightarrow>
             if stmt = 0 then throw (Panic ''failed to read prepared statement'')
             else return stmt)) \<sigma>3"
    using a ra c1 rc c2 rg s1 s2
    by (simp add: prepareStmt_def bind_def getModule_def index0_def return_def)
  from assms[unfolded run] obtain u \<sigma>4 where
    e: "ensureStatusCodeSuccess (ucast b) (bytes_of ''failed to prepare'') \<sigma>3 = (Inr u, \<sigma>4)" and
    k: "bind (memReadUint32Le (ucast (b + 4))) (\<lambda>x.
         case x of
           None \<Rightarrow> throw (Panic ''failed to read prepared statement'')
         | Some stmt \<Rightarrow>
             if stmt = 0 then throw (Panic ''failed to read prepared statement'')
             else return stmt) \<sigma>4 = (Inr stmt, \<sigma>')"
    by (rule bind_InrE)
  note e' = ensureStatusCodeSuccess_InrD[OF e]
  from k e' have
    "ReadUint32Le (mem \<sigma>3) (ucast b) = Some 0 \<and>
     ReadUint32Le (mem \<sigma>3) (ucast (b + 4)) = Some stmt \<and> stmt \<noteq> 0 \<and>
     \<sigma>' = \<sigma>3\<lparr>trace := trace \<sigma>3 @
             [MemReadUint32Le (ucast b) True, MemReadUint32Le (ucast (b + 4)) True]\<rparr>"
    by (auto simp: return_def throw_def
        dest: ReadUint32Le_Some_in_range split: option.splits if_splits)
  with a ra c1 rc c2 rg that show thesis by blast
qed

lemma smod_callOrPanic: "callOrPanic msg f args \<sigma> = (r, \<sigma>') \<Longrightarrow> smod \<sigma>' = smod \<sigma>"
  by (auto simp: io_defs split: option.splits prod.splits sum.splits)

text \<open>The successful runs of \<open>openDb\<close>, step by step.\<close>

lemma openDb_InrD:
  assumes "openDb \<sigma> = (Inr u, \<sigma>')"
  obtains dbNamePtr dbNameSize \<sigma>1 fsNamePTr fsNameSize \<sigma>2 r \<sigma>3 b bs \<sigma>4 h where
    "allocateString (bytes_of '':memory:'') \<sigma> = (Inr (dbNamePtr, dbNameSize), \<sigma>1)"
    "allocateString [] \<sigma>1 = (Inr (fsNamePTr, fsNameSize), \<sigma>2)"
    "callOrPanic [] (open (smod \<sigma>)) [dbNamePtr, dbNameSize, 6, fsNamePTr, fsNameSize] \<sigma>2
       = (Inr r, \<sigma>3)"
    "callOrPanic [] (getResultPtr (smod \<sigma>)) [] \<sigma>3 = (Inr (b # bs), \<sigma>4)"
    "ReadUint32Le (mem \<sigma>4) (ucast b) = Some 0"
    "ReadUint32Le (mem \<sigma>4) (ucast (b + 4)) = Some h"
    "\<sigma>' = \<sigma>4\<lparr>trace := trace \<sigma>4 @
             [MemReadUint32Le (ucast b) True, MemReadUint32Le (ucast (b + 4)) True],
            smod := (smod \<sigma>)\<lparr>dbHandle := ucast h\<rparr>\<rparr>"
proof -
  obtain ra \<sigma>1 where a: "allocateString (bytes_of '':memory:'') \<sigma> = (ra, \<sigma>1)"
    by (cases "allocateString (bytes_of '':memory:'') \<sigma>")
  have s1: "smod \<sigma>1 = smod \<sigma>" using a by (rule allocateString_smod)
  have "\<exists>pq. ra = Inr pq"
    using a assms by (cases ra) (simp_all add: openDb_def bind_def)
  then obtain dbNamePtr dbNameSize where ra: "ra = Inr (dbNamePtr, dbNameSize)" by auto
  obtain rb \<sigma>2 where a2: "allocateString [] \<sigma>1 = (rb, \<sigma>2)"
    by (cases "allocateString [] \<sigma>1")
  have s2: "smod \<sigma>2 = smod \<sigma>" using a2 s1 by (simp add: allocateString_smod)
  have "\<exists>pq. rb = Inr pq"
    using a ra a2 assms by (cases rb) (simp_all add: openDb_def bind_def)
  then obtain fsNamePTr fsNameSize where rb: "rb = Inr (fsNamePTr, fsNameSize)" by auto
  obtain rc \<sigma>3 where c1: "callOrPanic [] (open (smod \<sigma>))
      [dbNamePtr, dbNameSize, 6, fsNamePTr, fsNameSize] \<sigma>2 = (rc, \<sigma>3)"
    by (cases "callOrPanic [] (open (smod \<sigma>))
      [dbNamePtr, dbNameSize, 6, fsNamePTr, fsNameSize] \<sigma>2")
  have "\<exists>r. rc = Inr r"
    using a ra a2 rb c1 s2 assms by (cases rc) (simp_all add: openDb_def bind_def getModule_def)
  then obtain r where rc: "rc = Inr r" by auto
  have s3: "smod \<sigma>3 = smod \<sigma>"
    using c1 s2 by (simp add: smod_callOrPanic)
  obtain rg \<sigma>4 where c2: "callOrPanic [] (getResultPtr (smod \<sigma>)) [] \<sigma>3 = (rg, \<sigma>4)"
    by (cases "callOrPanic [] (getResultPtr (smod \<sigma>)) [] \<sigma>3")
  have s4: "smod \<sigma>4 = smod \<sigma>"
    using c2 s3 by (simp add: smod_callOrPanic)
  have "\<exists>b bs. rg = Inr (b # bs)"
  proof (cases rg)
    case (Inl e)
    with a ra a2 rb c1 rc c2 s2 s3 assms show ?thesis
      by (simp add: openDb_def bind_def getModule_def)
  next
    case (Inr res)
    with a ra a2 rb c1 rc c2 s2 s3 assms show ?thesis
      by (cases res) (simp_all add: openDb_def bind_def getModule_def index0_def throw_def)
  qed
  then obtain b bs where rg: "rg = Inr (b # bs)" by auto
  have run: "openDb \<sigma> =
      bind (ensureStatusCodeSuccess (ucast b) (bytes_of ''db pointer'')) (\<lambda>_.
       bind (memReadUint32Le (ucast (b + 4))) (\<lambda>x.
         case x of
           None \<Rightarrow> throw (Panic ''cannot take db pointer'')
         | Some h \<Rightarrow> setDbHandle (ucast h))) \<sigma>4"
    using a ra a2 rb c1 rc c2 rg s2 s3
    by (simp add: openDb_def bind_def getModule_def index0_def return_def)
  from assms[unfolded run] obtain u' \<sigma>5 where
    e: "ensureStatusCodeSuccess (ucast b) (bytes_of ''db pointer'') \<sigma>4 = (Inr u', \<sigma>5)" and
    k: "bind (memReadUint32Le (ucast (b + 4))) (\<lambda>x.
         case x of
           None \<Rightarrow> throw (Panic ''cannot take db pointer'')
         | Some h \<Rightarrow> setDbHandle (ucast h)) \<sigma>5 = (Inr u, \<sigma>')"
    by (rule bind_InrE)
  note e' = ensureStatusCodeSuccess_InrD[OF e]
  from k e' s4 have
    "\<exists>h. ReadUint32Le (mem \<sigma>4) (ucast (b + 4)) = Some h \<and>
     \<sigma>' = \<sigma>4\<lparr>trace := trace \<sigma>4 @
             [MemReadUint32Le (ucast b) True, MemReadUint32Le (ucast (b + 4)) True],
            smod := (smod \<sigma>)\<lparr>dbHandle := ucast h\<rparr>\<rparr>"
    by (auto simp: return_def throw_def setDbHandle_def dest: ReadUint32Le_Some_in_range
        split: option.splits if_splits)
  with a ra a2 rb c1 rc c2 rg e' that show thesis by blast
qed

lemma prepareStmt_run:
  assumes a: "allocateString query \<sigma> = (Inr (queryPtr, querySize), \<sigma>1)"
    and c1: "callOrPanic ''failed to call prepare query'' (prepare (smod \<sigma>))
       [dbHandle (smod \<sigma>), queryPtr, querySize] \<sigma>1 = (Inr r, \<sigma>2)"
    and c2: "callOrPanic ''error getting result ptr'' (getResultPtr (smod \<sigma>)) [] \<sigma>2
       = (Inr (b # bs), \<sigma>3)"
  shows "prepareStmt query \<sigma> =
      bind (ensureStatusCodeSuccess (ucast b) (bytes_of ''failed to prepare'')) (\<lambda>_.
       bind (memReadUint32Le (ucast (b + 4))) (\<lambda>x.
         case x of
           None \<Rightarrow> throw (Panic ''failed to read prepared statement'')
         | Some stmt \<Rightarrow>
             if stmt = 0 then throw (Panic ''failed to read prepared statement'')
             else return stmt)) \<sigma>3"
proof -
  have s1: "smod \<sigma>1 = smod \<sigma>" using a by (rule allocateString_smod)
  have s2: "smod \<sigma>2 = smod \<sigma>" using c1 s1 by (simp add: smod_callOrPanic)
  show ?thesis
    using a c1 c2 s1 s2
    by (simp add: prepareStmt_def bind_def getModule_def index0_def return_def)
qed

lemma no_step_allocateString:
  assumes "named (smod \<sigma>)" "allocateString str \<sigma> = (r, \<sigma>')"
  shows "\<not> list_ex (is_call_of ''sqlite3_step'') (new_events \<sigma> \<sigma>')"
proof -
  have "keeps (smod \<sigma>) (\<lambda>e. \<not> is_call_of ''sqlite3_step'' e) (allocateString str :: ('a, u64 \<times> u64) io)"
  proof (rule keeps_allocateString[OF assms(1)])
    show "\<not> is_call_of ''sqlite3_step'' e" if "\<not> is_call e" for e
      using that by (cases e) simp_all
    show "\<not> is_call_of ''sqlite3_step'' (Called ''allocate'' args out)" for args out
      by simp
  qed
  from this refl assms(2) obtain ext where
    "trace \<sigma>' = trace \<sigma> @ ext" "list_all (\<lambda>e. \<not> is_call_of ''sqlite3_step'' e) ext"
    by (rule keepsD)
  then show ?thesis
    by (simp add: new_events_def list_ex_iff list_all_iff)
qed

lemma execSql_run:
  assumes a: "allocateString query \<sigma> = (Inr (queryPtr, querySize), \<sigma>1)"
    and c1: "callOrPanic ''error execution query'' (exec (smod \<sigma>))
       [dbHandle (smod \<sigma>), queryPtr, querySize, 0, 0] \<sigma>1 = (Inr r, \<sigma>2)"
    and c2: "callOrPanic ''error getting result ptr'' (getResultPtr (smod \<sigma>)) [] \<sigma>2
       = (Inr (b # bs), \<sigma>3)"
  shows "execSql query \<sigma> =
     bind (memReadUint32Le (ucast (b + 4))) (\<lambda>x.
       case x of
         None \<Rightarrow> throw (Panic ''cannot read err msg ptr'')
       | Some errMsgPtr \<Rightarrow>
     bind (memReadUint32Le (ucast (b + 8))) (\<lambda>y.
       case y of
         None \<Rightarrow> throw (Panic ''cannot read err msg size'')
       | Some errMsgSize \<Rightarrow>
     bind (if errMsgSize \<noteq> 0
           then bind (memRead errMsgPtr errMsgSize) (\<lambda>r.
                  case r of
                    None \<Rightarrow> throw (Panic ''cannot read err msg'')
                  | Some raw \<Rightarrow> return raw)
           else return []) (\<lambda>errMsg.
       ensureStatusCodeSuccess (ucast b) errMsg))) \<sigma>3"
proof -
  have s1: "smod \<sigma>1 = smod \<sigma>" using a by (rule allocateString_smod)
  have s2: "smod \<sigma>2 = smod \<sigma>" using c1 s1 by (simp add: smod_callOrPanic)
  show ?thesis
    using a c1 c2 s1 s2
    by (simp add: execSql_def bind_def getModule_def index0_def return_def)
qed

section \<open>The module struct and the handle passed to exec and prepare\<close>

lemma keeps_case_option:
  "keeps s P a \<Longrightarrow> (\<And>v. keeps s P (g v)) \<Longrightarrow> keeps s P (case_option a g x)"
  by (cases x) simp_all

lemma keeps_if: "keeps s P a \<Longrightarrow> keeps s P b \<Longrightarrow> keeps s P (if c then a else b)"
  by simp

lemma keeps_case_prod: "(\<And>a b. keeps s P (f a b)) \<Longrightarrow> keeps s P (case_prod f p)"
  by (cases p) simp

lemma handle_passed_not_call: "\<not> is_call e \<Longrightarrow> handle_passed h e"
  by (cases e) simp_all

lemma named_bound:
  assumes "named s"
  shows "bound_to (open s) ''sqlite3_open_v2''" "bound_to (exec s) ''sqlite3_exec''"
    "bound_to (getResultPtr s) ''get_result_ptr''" "bound_to (getResultSize s) ''get_result_size''"
    "bound_to (prepare s) ''sqlite3_prepare_v2''" "bound_to (step s) ''sqlite3_step''"
    "bound_to (columnInt s) ''sqlite3_column_int64''"
    "bound_to (columnText s) ''sqlite3_column_text''" "bound_to (alloc s) ''allocate''"
  using assms by (simp_all add: named_def)

lemma keeps_handle_allocateString:
  assumes "named s"
  shows "keeps s (handle_passed h) (allocateString str)"
  using assms by (rule keeps_allocateString) (simp_all add: handle_passed_not_call)

lemma keeps_handle_execStep:
  assumes "named s"
  shows "keeps s (handle_passed h) (execStep stmt)"
  using assms by (rule keeps_execStep) simp

lemma keeps_handle_readInt:
  assumes "named s"
  shows "keeps s (handle_passed h) (readInt stmt c)"
  using assms by (rule keeps_readInt) simp

lemma keeps_handle_readText:
  assumes "named s"
  shows "keeps s (handle_passed h) (readText stmt c)"
  using assms by (rule keeps_readText) (simp_all add: handle_passed_not_call)

lemma keeps_handle_ensureStatusCodeSuccess:
  "keeps s (handle_passed h) (ensureStatusCodeSuccess p msg)"
  by (rule keeps_ensureStatusCodeSuccess) (rule handle_passed_not_call)

lemma keeps_handle_execSql:
  assumes n: "named s"
  shows "keeps s (handle_passed (dbHandle s)) (execSql query)"
  unfolding execSql_def
  by (intro keeps_bind keeps_case_prod keeps_getModule keeps_case_option keeps_if keeps_throw
      keeps_return keeps_index0 keeps_memReadUint32Le keeps_memRead
      keeps_handle_ensureStatusCodeSuccess keeps_handle_allocateString[OF n]
      keeps_callOrPanic[OF named_bound(2)[OF n]] keeps_callOrPanic[OF named_bound(3)[OF n]])
    (simp_all add: handle_passed_not_call)

lemma keeps_handle_prepareStmt:
  assumes n: "named s"
  shows "keeps s (handle_passed (dbHandle s)) (prepareStmt query)"
  unfolding prepareStmt_def
  by (intro keeps_bind keeps_case_prod keeps_getModule keeps_case_option keeps_if keeps_throw
      keeps_return keeps_index0 keeps_memReadUint32Le keeps_memRead
      keeps_handle_ensureStatusCodeSuccess keeps_handle_allocateString[OF n]
      keeps_callOrPanic[OF named_bound(5)[OF n]] keeps_callOrPanic[OF named_bound(3)[OF n]])
    (simp_all add: handle_passed_not_call)

lemma follows_refl: "smod \<sigma> = s \<Longrightarrow> follows s P \<sigma> \<sigma>"
  by (simp add: follows_def)

lemma follows_trans: "follows s P \<sigma> \<sigma>1 \<Longrightarrow> follows s P \<sigma>1 \<sigma>2 \<Longrightarrow> follows s P \<sigma> \<sigma>2"
  by (auto simp: follows_def)

lemma keeps_follows:
  assumes "keeps s P m" "smod \<sigma> = s" "m \<sigma> = (r, \<sigma>')"
  shows "follows s P \<sigma> \<sigma>'"
  using keepsD[OF assms] unfolding follows_def by blast

lemma follows_smod: "follows s P \<sigma> \<sigma>' \<Longrightarrow> smod \<sigma>' = s"
  by (simp add: follows_def)

lemma follows_new_events:
  "follows s P \<sigma> \<sigma>' \<Longrightarrow> list_all P (new_events \<sigma> \<sigma>')"
  by (auto simp: follows_def new_events_def)

lemma stepLoop_follows:
  assumes run: "stepLoop stmt rc users \<sigma> = Some y"
    and n: "named s"
  shows "smod \<sigma> = s \<longrightarrow> follows s (handle_passed h) \<sigma> (snd y)"
  using run
proof (induction rule: stepLoop_returns_induct)
  case (leave rc users \<sigma>)
  show ?case by (simp add: follows_refl)
next
  case (readInt_panics users \<sigma> e \<sigma>1)
  show ?case
  proof
    assume s: "smod \<sigma> = s"
    have "follows s (handle_passed h) \<sigma> \<sigma>1"
      using keeps_handle_readInt[OF n] s readInt_panics by (rule keeps_follows)
    then show "follows s (handle_passed h) \<sigma> (snd (Inl e :: panic + user list, \<sigma>1))"
      by simp
  qed
next
  case (readText_panics users \<sigma> i \<sigma>1 e \<sigma>2)
  show ?case
  proof
    assume s: "smod \<sigma> = s"
    have 1: "follows s (handle_passed h) \<sigma> \<sigma>1"
      using keeps_handle_readInt[OF n] s readText_panics(1) by (rule keeps_follows)
    have 2: "follows s (handle_passed h) \<sigma>1 \<sigma>2"
      using keeps_handle_readText[OF n] follows_smod[OF 1] readText_panics(2)
      by (rule keeps_follows)
    from follows_trans[OF 1 2] show "follows s (handle_passed h) \<sigma> (snd (Inl e :: panic + user list, \<sigma>2))"
      by simp
  qed
next
  case (execStep_panics users \<sigma> i \<sigma>1 nm \<sigma>2 e \<sigma>3)
  show ?case
  proof
    assume s: "smod \<sigma> = s"
    have 1: "follows s (handle_passed h) \<sigma> \<sigma>1"
      using keeps_handle_readInt[OF n] s execStep_panics(1) by (rule keeps_follows)
    have 2: "follows s (handle_passed h) \<sigma>1 \<sigma>2"
      using keeps_handle_readText[OF n] follows_smod[OF 1] execStep_panics(2)
      by (rule keeps_follows)
    have 3: "follows s (handle_passed h) \<sigma>2 \<sigma>3"
      using keeps_handle_execStep[OF n] follows_smod[OF 2] execStep_panics(3)
      by (rule keeps_follows)
    from follows_trans[OF follows_trans[OF 1 2] 3]
    show "follows s (handle_passed h) \<sigma> (snd (Inl e :: panic + user list, \<sigma>3))"
      by simp
  qed
next
  case (pass users \<sigma> i \<sigma>1 nm \<sigma>2 rc' \<sigma>3 y)
  show ?case
  proof
    assume s: "smod \<sigma> = s"
    have 1: "follows s (handle_passed h) \<sigma> \<sigma>1"
      using keeps_handle_readInt[OF n] s pass(1) by (rule keeps_follows)
    have 2: "follows s (handle_passed h) \<sigma>1 \<sigma>2"
      using keeps_handle_readText[OF n] follows_smod[OF 1] pass(2)
      by (rule keeps_follows)
    have 3: "follows s (handle_passed h) \<sigma>2 \<sigma>3"
      using keeps_handle_execStep[OF n] follows_smod[OF 2] pass(3)
      by (rule keeps_follows)
    from pass(4) follows_smod[OF 3] have 4: "follows s (handle_passed h) \<sigma>3 (snd y)"
      by simp
    from follows_trans[OF follows_trans[OF follows_trans[OF 1 2] 3] 4]
    show "follows s (handle_passed h) \<sigma> (snd y)" .
  qed
qed

lemma execSelectUsers_follows:
  assumes run: "execSelectUsers query \<sigma> = Some y"
    and n: "named (smod \<sigma>)"
  shows "follows (smod \<sigma>) (handle_passed (dbHandle (smod \<sigma>))) \<sigma> (snd y)"
proof -
  let ?s = "smod \<sigma>" and ?P = "handle_passed (dbHandle (smod \<sigma>))"
  obtain r1 \<sigma>1 where r1: "prepareStmt query \<sigma> = (r1, \<sigma>1)" by (cases "prepareStmt query \<sigma>")
  have 1: "follows ?s ?P \<sigma> \<sigma>1"
    using keeps_handle_prepareStmt[OF n] refl r1 by (rule keeps_follows)
  show ?thesis
  proof (cases r1)
    case (Inl e)
    with r1 run have "y = (Inl e, \<sigma>1)" by (simp add: execSelectUsers_def)
    with 1 show ?thesis by simp
  next
    case (Inr stmt)
    obtain r2 \<sigma>2 where r2: "execStep stmt \<sigma>1 = (r2, \<sigma>2)" by (cases "execStep stmt \<sigma>1")
    have 2: "follows ?s ?P \<sigma>1 \<sigma>2"
      using keeps_handle_execStep[OF n] follows_smod[OF 1] r2 by (rule keeps_follows)
    show ?thesis
    proof (cases r2)
      case (Inl e)
      with r1 r2 Inr run have "y = (Inl e, \<sigma>2)" by (simp add: execSelectUsers_def)
      with follows_trans[OF 1 2] show ?thesis by simp
    next
      case rc: (Inr rc)
      from r1 r2 Inr rc run have "stepLoop stmt rc [] \<sigma>2 = Some y"
        by (simp add: execSelectUsers_def)
      from stepLoop_follows[OF this n, of "dbHandle (smod \<sigma>)"] follows_smod[OF 2]
      have "follows ?s ?P \<sigma>2 (snd y)" by simp
      with follows_trans[OF 1 2] show ?thesis by (rule follows_trans)
    qed
  qed
qed

lemma callOrPanic_event:
  assumes "f = Some fn" "callOrPanic msg f args \<sigma> = (r, \<sigma>')"
  shows "\<exists>out. trace \<sigma>' = trace \<sigma> @ [Called (fname fn) args out]"
  using assms by (auto simp: io_defs split: prod.splits sum.splits)

lemma disciplined_grows:
  assumes "disciplined m"
  shows "\<exists>ext. trace (snd (m \<sigma>)) = trace \<sigma> @ ext"
  using assms unfolding disciplined_def by blast

lemma execSql_calls_exec:
  assumes n: "named (smod \<sigma>)"
    and a: "allocateString query \<sigma> = (Inr (p, k), \<sigma>1)"
    and f: "exec (smod \<sigma>) = Some fn"
  shows "\<exists>out. Called ''sqlite3_exec'' [dbHandle (smod \<sigma>), p, k, 0, 0] out
           \<in> set (new_events \<sigma> (snd (execSql query \<sigma>)))"
proof -
  define K :: "('a, unit) io" where "K =
     bind getModule (\<lambda>s.
     bind (callOrPanic ''error getting result ptr'' (getResultPtr s) []) (\<lambda>res.
     bind (index0 res) (\<lambda>r0.
     bind (memReadUint32Le (ucast (r0 + 4))) (\<lambda>x.
       case x of
         None \<Rightarrow> throw (Panic ''cannot read err msg ptr'')
       | Some errMsgPtr \<Rightarrow>
     bind (memReadUint32Le (ucast (r0 + 8))) (\<lambda>y.
       case y of
         None \<Rightarrow> throw (Panic ''cannot read err msg size'')
       | Some errMsgSize \<Rightarrow>
     bind (if errMsgSize \<noteq> 0
           then bind (memRead errMsgPtr errMsgSize) (\<lambda>r.
                  case r of
                    None \<Rightarrow> throw (Panic ''cannot read err msg'')
                  | Some raw \<Rightarrow> return raw)
           else return []) (\<lambda>errMsg.
       ensureStatusCodeSuccess (ucast r0) errMsg))))))"
  have dK: "disciplined K"
    unfolding K_def by (intro disciplined_intros disciplined_ensureStatusCodeSuccess)
  have s1: "smod \<sigma>1 = smod \<sigma>" using a by (rule allocateString_smod)
  obtain e1 where t1: "trace \<sigma>1 = trace \<sigma> @ e1"
    using disciplinedD[OF disciplined_allocateString a] by blast
  let ?c = "callOrPanic ''error execution query'' (exec (smod \<sigma>))
             [dbHandle (smod \<sigma>), p, k, 0, 0]"
  obtain rc \<sigma>2 where c: "?c \<sigma>1 = (rc, \<sigma>2)" by (cases "?c \<sigma>1")
  from callOrPanic_event[OF f c] obtain out where
    t2: "trace \<sigma>2 = trace \<sigma>1 @ [Called (fname fn) [dbHandle (smod \<sigma>), p, k, 0, 0] out]"
    by blast
  have nm: "fname fn = ''sqlite3_exec''"
    using n f by (simp add: named_def bound_to_def)
  have eq: "execSql query \<sigma> = bind ?c (\<lambda>_. K) \<sigma>1"
    using a s1 by (simp add: execSql_def K_def bind_Inr)
  have "\<exists>ext. trace (snd (execSql query \<sigma>)) = trace \<sigma>2 @ ext"
  proof (cases rc)
    case (Inl e)
    with c eq show ?thesis by (simp add: bind_def)
  next
    case (Inr x)
    with c eq have "execSql query \<sigma> = K \<sigma>2" by (simp add: bind_def)
    with disciplined_grows[OF dK, of \<sigma>2] show ?thesis by simp
  qed
  then obtain ext where "trace (snd (execSql query \<sigma>)) = trace \<sigma>2 @ ext" by blast
  with t1 t2 nm show ?thesis
    by (auto simp: new_events_def)
qed

lemma prepareStmt_calls_prepare:
  assumes n: "named (smod \<sigma>)"
    and a: "allocateString query \<sigma> = (Inr (p, k), \<sigma>1)"
    and f: "prepare (smod \<sigma>) = Some fn"
  shows "\<exists>out. Called ''sqlite3_prepare_v2'' [dbHandle (smod \<sigma>), p, k] out
           \<in> set (new_events \<sigma> (snd (prepareStmt query \<sigma>)))"
proof -
  define K :: "('a, u32) io" where "K =
     bind getModule (\<lambda>s.
     bind (callOrPanic ''error getting result ptr'' (getResultPtr s) []) (\<lambda>res.
     bind (index0 res) (\<lambda>r0.
     bind (ensureStatusCodeSuccess (ucast r0) (bytes_of ''failed to prepare'')) (\<lambda>_.
     bind (memReadUint32Le (ucast (r0 + 4))) (\<lambda>x.
       case x of
         None \<Rightarrow> throw (Panic ''failed to read prepared statement'')
       | Some stmt \<Rightarrow>
           if stmt = 0 then throw (Panic ''failed to read prepared statement'')
           else return stmt)))))"
  have dK: "disciplined K"
    unfolding K_def by (intro disciplined_intros disciplined_ensureStatusCodeSuccess)
  have s1: "smod \<sigma>1 = smod \<sigma>" using a by (rule allocateString_smod)
  obtain e1 where t1: "trace \<sigma>1 = trace \<sigma> @ e1"
    using disciplinedD[OF disciplined_allocateString a] by blast
  let ?c = "callOrPanic ''failed to call prepare query'' (prepare (smod \<sigma>))
             [dbHandle (smod \<sigma>), p, k]"
  obtain rc \<sigma>2 where c: "?c \<sigma>1 = (rc, \<sigma>2)" by (cases "?c \<sigma>1")
  from callOrPanic_event[OF f c] obtain out where
    t2: "trace \<sigma>2 = trace \<sigma>1 @ [Called (fname fn) [dbHandle (smod \<sigma>), p, k] out]"
    by blast
  have nm: "fname fn = ''sqlite3_prepare_v2''"
    using n f by (simp add: named_def bound_to_def)
  have eq: "prepareStmt query \<sigma> = bind ?c (\<lambda>_. K) \<sigma>1"
    using a s1 by (simp add: prepareStmt_def K_def bind_Inr)
  have "\<exists>ext. trace (snd (prepareStmt query \<sigma>)) = trace \<sigma>2 @ ext"
  proof (cases rc)
    case (Inl e)
    with c eq show ?thesis by (simp add: bind_def)
  next
    case (Inr x)
    with c eq have "prepareStmt query \<sigma> = K \<sigma>2" by (simp add: bind_def)
    with disciplined_grows[OF dK, of \<sigma>2] show ?thesis by simp
  qed
  then obtain ext where "trace (snd (prepareStmt query \<sigma>)) = trace \<sigma>2 @ ext" by blast
  with t1 t2 nm show ?thesis
    by (auto simp: new_events_def)
qed

section \<open>The step loop: codes and rows\<close>

lemma step_codes_Nil [simp]: "step_codes [] = []"
  by (simp add: step_codes_def)

lemma step_codes_append [simp]: "step_codes (xs @ ys) = step_codes xs @ step_codes ys"
  by (simp add: step_codes_def)

lemma step_codes_none: "list_all (\<lambda>e. step_code e = []) ext \<Longrightarrow> step_codes ext = []"
  by (induction ext) (simp_all add: step_codes_def)

lemma step_code_not_call: "\<not> is_call e \<Longrightarrow> step_code e = []"
  by (cases e) simp_all

lemma keeps_nostep_readInt:
  assumes "named s"
  shows "keeps s (\<lambda>e. step_code e = []) (readInt stmt c)"
  using assms by (rule keeps_readInt) simp

lemma keeps_nostep_readText:
  assumes "named s"
  shows "keeps s (\<lambda>e. step_code e = []) (readText stmt c)"
  using assms by (rule keeps_readText) (simp_all add: step_code_not_call)

lemma keeps_nostep_prepareStmt:
  assumes n: "named s"
  shows "keeps s (\<lambda>e. step_code e = []) (prepareStmt query)"
  unfolding prepareStmt_def
  by (intro keeps_bind keeps_case_prod keeps_getModule keeps_case_option keeps_if keeps_throw
      keeps_return keeps_index0 keeps_memReadUint32Le keeps_memRead
      keeps_ensureStatusCodeSuccess keeps_allocateString[OF n]
      keeps_callOrPanic[OF named_bound(5)[OF n]] keeps_callOrPanic[OF named_bound(3)[OF n]])
    (simp_all add: step_code_not_call)

lemma execStep_InrD:
  assumes run: "execStep stmt \<sigma> = (Inr rc, \<sigma>')" and n: "named (smod \<sigma>)"
  shows "smod \<sigma>' = smod \<sigma>"
    "\<exists>vs. trace \<sigma>' = trace \<sigma> @ [Called ''sqlite3_step'' [ucast stmt] (Inr (rc # vs))]"
proof -
  from run have "bind (callOrPanic ''failed to call step'' (step (smod \<sigma>)) [ucast stmt]) index0 \<sigma>
      = (Inr rc, \<sigma>')"
    by (simp add: execStep_def)
  then obtain res \<sigma>1 where
    c: "callOrPanic ''failed to call step'' (step (smod \<sigma>)) [ucast stmt] \<sigma> = (Inr res, \<sigma>1)"
    and i: "index0 res \<sigma>1 = (Inr rc, \<sigma>')"
    by (rule bind_InrE)
  from i obtain vs where res: "res = rc # vs" and s: "\<sigma>' = \<sigma>1"
    by (rule index0_InrD)
  from c obtain fn where f: "step (smod \<sigma>) = Some fn"
    and t: "trace \<sigma>1 = trace \<sigma> @ [Called (fname fn) [ucast stmt] (Inr res)]"
    by (rule callOrPanic_InrD) simp
  from n f have nm: "fname fn = ''sqlite3_step''"
    by (simp add: named_def bound_to_def)
  from c s show "smod \<sigma>' = smod \<sigma>"
    by (simp add: smod_callOrPanic)
  from t nm res s
  show "\<exists>vs. trace \<sigma>' = trace \<sigma> @ [Called ''sqlite3_step'' [ucast stmt] (Inr (rc # vs))]"
    by simp
qed

text \<open>
  What a run of the loop that returns rows looks like: entered with the code \<open>rc\<close>, it
  adds \<open>k\<close> rows, the codes seen (the one it was entered with, then those of its own
  step calls) are \<open>k\<close> times 100 and then one other code, and its last event, if it has
  any, is a step call.
\<close>

lemma stepLoop_rows:
  assumes run: "stepLoop stmt rc users \<sigma> = Some y"
  shows "named (smod \<sigma>) \<longrightarrow> (\<forall>rows \<sigma>'. y = (Inr rows, \<sigma>') \<longrightarrow>
           smod \<sigma>' = smod \<sigma> \<and>
           (\<exists>ext k c. trace \<sigma>' = trace \<sigma> @ ext \<and> length rows = length users + k \<and>
              Some rc # step_codes ext = replicate k (Some 100) @ [Some c] \<and> c \<noteq> 100 \<and>
              (ext = [] \<or> is_call_of ''sqlite3_step'' (last ext))))"
  using run
proof (induction rule: stepLoop_returns_induct)
  case (leave rc users \<sigma>)
  show ?case
  proof (intro impI allI conjI)
    fix rows \<sigma>'
    assume y: "(Inr users, \<sigma>) = (Inr rows :: panic + user list, \<sigma>')"
    then show "smod \<sigma>' = smod \<sigma>" by simp
    have "trace \<sigma>' = trace \<sigma> @ [] \<and> length rows = length users + 0 \<and>
          Some rc # step_codes [] = replicate 0 (Some 100) @ [Some rc] \<and> rc \<noteq> 100 \<and>
          ([] = [] \<or> is_call_of ''sqlite3_step'' (last []))"
      using y leave by (simp add: SQLITE_ROW_def)
    then show "\<exists>ext k c. trace \<sigma>' = trace \<sigma> @ ext \<and> length rows = length users + k \<and>
              Some rc # step_codes ext = replicate k (Some 100) @ [Some c] \<and> c \<noteq> 100 \<and>
              (ext = [] \<or> is_call_of ''sqlite3_step'' (last ext))"
      by blast
  qed
next
  case (readInt_panics users \<sigma> e \<sigma>1)
  show ?case by simp
next
  case (readText_panics users \<sigma> i \<sigma>1 e \<sigma>2)
  show ?case by simp
next
  case (execStep_panics users \<sigma> i \<sigma>1 nm \<sigma>2 e \<sigma>3)
  show ?case by simp
next
  case (pass users \<sigma> i \<sigma>1 nm \<sigma>2 rc' \<sigma>3 y)
  show ?case
  proof (intro impI allI)
    fix rows \<sigma>'
    assume n: "named (smod \<sigma>)" and y: "y = (Inr rows, \<sigma>')"
    from keepsD[OF keeps_nostep_readInt[OF n] refl pass(1)] obtain e1 where
      1: "smod \<sigma>1 = smod \<sigma>" "trace \<sigma>1 = trace \<sigma> @ e1" "list_all (\<lambda>e. step_code e = []) e1" .
    from 1(1) n have n1: "named (smod \<sigma>1)" by simp
    from keepsD[OF keeps_nostep_readText[OF n1] refl pass(2)] obtain e2 where
      2: "smod \<sigma>2 = smod \<sigma>1" "trace \<sigma>2 = trace \<sigma>1 @ e2" "list_all (\<lambda>e. step_code e = []) e2" .
    from 2(1) n1 have n2: "named (smod \<sigma>2)" by simp
    from execStep_InrD[OF pass(3) n2] obtain vs where
      3: "smod \<sigma>3 = smod \<sigma>2"
        "trace \<sigma>3 = trace \<sigma>2 @ [Called ''sqlite3_step'' [ucast stmt] (Inr (rc' # vs))]"
      by blast
    from 3(1) n2 have n3: "named (smod \<sigma>3)" by simp
    from pass(4) n3 y obtain ext k c where
      4: "smod \<sigma>' = smod \<sigma>3" "trace \<sigma>' = trace \<sigma>3 @ ext"
        "length rows = length (users @ [\<lparr>id' = i, name' = nm\<rparr>]) + k"
        "Some rc' # step_codes ext = replicate k (Some 100) @ [Some c]" "c \<noteq> 100"
        "ext = [] \<or> is_call_of ''sqlite3_step'' (last ext)"
      by blast
    let ?ext = "e1 @ e2 @ [Called ''sqlite3_step'' [ucast stmt] (Inr (rc' # vs))] @ ext"
    have a: "trace \<sigma>' = trace \<sigma> @ ?ext"
      using 1 2 3 4 by simp
    have b: "length rows = length users + Suc k"
      using 4(3) by simp
    have sc: "step_codes ?ext = Some rc' # step_codes ext"
      using step_codes_none[OF 1(3)] step_codes_none[OF 2(3)] by (simp add: step_codes_def)
    have c: "Some SQLITE_ROW # step_codes ?ext = replicate (Suc k) (Some 100) @ [Some c]"
      unfolding sc using 4(4) by (simp add: SQLITE_ROW_def)
    have d: "?ext = [] \<or> is_call_of ''sqlite3_step'' (last ?ext)"
      using 4(6) by (cases "ext = []") auto
    from 1 2 3 4 have s: "smod \<sigma>' = smod \<sigma>" by simp
    from a b c d 4(5) s
    show "smod \<sigma>' = smod \<sigma> \<and>
           (\<exists>ext k c. trace \<sigma>' = trace \<sigma> @ ext \<and> length rows = length users + k \<and>
              Some SQLITE_ROW # step_codes ext = replicate k (Some 100) @ [Some c] \<and> c \<noteq> 100 \<and>
              (ext = [] \<or> is_call_of ''sqlite3_step'' (last ext)))"
      by blast
  qed
qed

lemma execSelectUsers_rows:
  assumes run: "execSelectUsers query \<sigma> = Some (Inr rows, \<sigma>')"
    and n: "named (smod \<sigma>)"
  shows "\<exists>c. step_codes (new_events \<sigma> \<sigma>') = replicate (length rows) (Some 100) @ [Some c]
           \<and> c \<noteq> 100
           \<and> new_events \<sigma> \<sigma>' \<noteq> []
           \<and> is_call_of ''sqlite3_step'' (last (new_events \<sigma> \<sigma>'))"
proof -
  obtain r1 \<sigma>1 where r1: "prepareStmt query \<sigma> = (r1, \<sigma>1)" by (cases "prepareStmt query \<sigma>")
  from run r1 obtain st where st: "r1 = Inr st"
    by (cases r1) (simp_all add: execSelectUsers_def)
  from keepsD[OF keeps_nostep_prepareStmt[OF n] refl r1] obtain e0 where
    0: "smod \<sigma>1 = smod \<sigma>" "trace \<sigma>1 = trace \<sigma> @ e0" "list_all (\<lambda>e. step_code e = []) e0" .
  from 0(1) n have n1: "named (smod \<sigma>1)" by simp
  obtain r2 \<sigma>2 where r2: "execStep st \<sigma>1 = (r2, \<sigma>2)" by (cases "execStep st \<sigma>1")
  from run r1 st r2 obtain rc where rc: "r2 = Inr rc"
    by (cases r2) (simp_all add: execSelectUsers_def)
  from execStep_InrD[OF r2[unfolded rc] n1] obtain vs where
    1: "smod \<sigma>2 = smod \<sigma>1"
      "trace \<sigma>2 = trace \<sigma>1 @ [Called ''sqlite3_step'' [ucast st] (Inr (rc # vs))]"
    by blast
  from 1(1) n1 have n2: "named (smod \<sigma>2)" by simp
  from run r1 st r2 rc have loop: "stepLoop st rc [] \<sigma>2 = Some (Inr rows, \<sigma>')"
    by (simp add: execSelectUsers_def)
  from stepLoop_rows[OF loop] n2 obtain ext k c where
    2: "trace \<sigma>' = trace \<sigma>2 @ ext" "length rows = length ([] :: user list) + k"
      "Some rc # step_codes ext = replicate k (Some 100) @ [Some c]" "c \<noteq> 100"
      "ext = [] \<or> is_call_of ''sqlite3_step'' (last ext)"
    by blast
  let ?ext = "e0 @ [Called ''sqlite3_step'' [ucast st] (Inr (rc # vs))] @ ext"
  have ne: "new_events \<sigma> \<sigma>' = ?ext"
    using 0 1 2 by (simp add: new_events_def)
  have sc: "step_codes ?ext = replicate (length rows) (Some 100) @ [Some c]"
    using step_codes_none[OF 0(3)] 2(2,3) by (simp add: step_codes_def)
  have l: "is_call_of ''sqlite3_step'' (last ?ext)"
    using 2(5) by (cases "ext = []") auto
  from ne sc l 2(4) show ?thesis by auto
qed

section \<open>The status check\<close>

text \<open>
  C4. \<open>ensureStatusCodeSuccess\<close> reads the status code, the \<open>uint32\<close> at the address it
  is given (the base of the result struct). Whenever that word can be read, the call
  panics if and only if the code is not zero; the panic carries the code and the
  message the caller passed (whatever it is, the empty string included); with a zero
  code the call returns, and in both cases nothing of the state changes: the module
  struct, the memory and the guest are as before, and the only event is the one read.
\<close>

theorem ensureStatusCodeSuccess_status:
  assumes "ReadUint32Le (mem \<sigma>) resultPpr = Some retCode"
  shows "(isl (fst (ensureStatusCodeSuccess resultPpr errMsg \<sigma>)) \<longleftrightarrow> retCode \<noteq> 0)
       \<and> (if retCode = 0
          then fst (ensureStatusCodeSuccess resultPpr errMsg \<sigma>) = Inr ()
          else fst (ensureStatusCodeSuccess resultPpr errMsg \<sigma>) = Inl (StatusPanic retCode errMsg))
       \<and> snd (ensureStatusCodeSuccess resultPpr errMsg \<sigma>)
           = \<sigma>\<lparr>trace := trace \<sigma> @ [MemReadUint32Le resultPpr True]\<rparr>"
  using assms
  by (auto simp: ensureStatusCodeSuccess_def bind_def return_def throw_def memReadUint32Le_def
      log_event_def ReadUint32Le_def split: if_splits)

theorem ensureStatusCodeSuccess_status_witness:
  "ReadUint32Le (mem (bindExports (demo 12 0 0 [1, 2, 0, 0] 0))) 0 = Some 513
   \<and> fst (ensureStatusCodeSuccess 0 [7] (bindExports (demo 12 0 0 [1, 2, 0, 0] 0)))
       = Inl (StatusPanic 513 [7])
   \<and> ReadUint32Le (mem (bindExports (demo 12 0 0 [0, 0, 0, 0] 0))) 0 = Some 0
   \<and> fst (ensureStatusCodeSuccess 0 [7] (bindExports (demo 12 0 0 [0, 0, 0, 0] 0))) = Inr ()"
proof -
  have a: "ReadUint32Le (mem (bindExports (demo 12 0 0 [1, 2, 0, 0] 0))) 0 = Some 513"
    by (simp add: demo_defs mem_defs)
  have b: "ReadUint32Le (mem (bindExports (demo 12 0 0 [0, 0, 0, 0] 0))) 0 = Some 0"
    by (simp add: demo_defs mem_defs)
  show ?thesis
    using a b ensureStatusCodeSuccess_status [OF a, of "[7]"]
      ensureStatusCodeSuccess_status [OF b, of "[7]"]
    by simp
qed

section \<open>Integer columns\<close>

text \<open>
  C7. When the integer-column export is bound and returns a value, \<open>readInt\<close> returns
  exactly the first result of that call (Go's \<open>int(res[0])\<close> keeps the 64 bits), and the
  call of the export is the only thing that happens: the trace grows by this one
  event, so there is no call of \<open>get_result_ptr\<close> or \<open>get_result_size\<close> and no read of
  guest memory, and memory and guest state are the ones the export left. In a module
  built by \<open>newSqlModule\<close> the export called is \<open>sqlite3_column_int64\<close>.
\<close>

theorem readInt_raw:
  assumes "columnInt (smod \<sigma>) = Some f"
    and "fbody f [ucast stmt, ucast columnIndex] (mem \<sigma>) (guest \<sigma>) = (Inr (v # vs), m', g')"
  shows "readInt stmt columnIndex \<sigma> =
           (Inr v, \<sigma>\<lparr>mem := m', guest := g',
                     trace := trace \<sigma> @
                       [Called (fname f) [ucast stmt, ucast columnIndex] (Inr (v # vs))]\<rparr>)
         \<and> (if named (smod \<sigma>) then fname f = ''sqlite3_column_int64'' else True)"
  using assms by (simp add: readInt_def io_defs named_def bound_to_def)

theorem readInt_raw_witness:
  "columnInt (smod (bindExports (demo 12 0 0 [] 5)))
     = Some \<lparr>fname = ''sqlite3_column_int64'', fbody = (\<lambda>args m g. (Inr [of_nat g], m, g))\<rparr>
   \<and> fst (readInt 9 0 (bindExports (demo 12 0 0 [] 5))) = Inr 5
   \<and> trace (snd (readInt 9 0 (bindExports (demo 12 0 0 [] 5))))
       = [Called ''sqlite3_column_int64'' [9, 0] (Inr [5])]"
proof -
  let ?f = "\<lparr>fname = ''sqlite3_column_int64'',
             fbody = (\<lambda>args m g. (Inr [of_nat g], m, g :: nat))\<rparr> :: nat func"
  have a: "columnInt (smod (bindExports (demo 12 0 0 [] 5))) = Some ?f"
    by (simp add: demo_defs)
  have b: "fbody ?f [ucast (9 :: u32), ucast (0 :: u32)]
             (mem (bindExports (demo 12 0 0 [] 5))) (guest (bindExports (demo 12 0 0 [] 5)))
           = (Inr (5 # []), [], 5)"
    by (simp add: demo_defs)
  show ?thesis
    using a readInt_raw [OF a b] by (simp add: demo_defs)
qed

section \<open>Calls that fail\<close>

text \<open>
  C8. A call through a function reference obtained with \<open>ExportedFunction\<close> fails when
  the export does not exist: the reference is \<open>nil\<close> and Go panics at the call, before
  anything is invoked (state and trace unchanged). It fails when the invocation returns
  an error (a trap): the panic carries that error, and the export has been invoked
  exactly once (one event, no second attempt). These are the only two ways a call
  fails, whatever the function reference (last part of the statement).

  A failure is the result of the operation it occurs in, with the state the failed call
  left, so nothing is invoked after it. This holds at every call site of the program:
  the allocator call of \<open>allocateString\<close>; the step call of \<open>execStep\<close>; the column
  calls of \<open>readInt\<close> and \<open>readText\<close> and the two result-struct calls of \<open>readText\<close>; the
  allocation, the exec call and the result-pointer call of \<open>execSql\<close>; the allocation,
  the prepare call and the result-pointer call of the prepare half; the two
  allocations, the open call and the result-pointer call of \<open>openDb\<close>. And the failure
  of an operation is the failure of the one that uses it: of \<open>newSqlModule\<close> for
  \<open>openDb\<close>, of \<open>execSelectUsers\<close> for the prepare half, for the first step and for
  the column reads and the steps inside the loop.
\<close>

theorem call_failure_propagates:
  "(exports sqlite n = None \<longrightarrow>
      callOrPanic msg (ExportedFunction sqlite n) args \<sigma> = (Inl NilFunctionPanic, \<sigma>))
   \<and> (\<forall>body err m' g'.
        exports sqlite n = Some body \<longrightarrow> body args (mem \<sigma>) (guest \<sigma>) = (Inl err, m', g') \<longrightarrow>
        callOrPanic msg (ExportedFunction sqlite n) args \<sigma> =
          (Inl (CallPanic msg err),
           \<sigma>\<lparr>mem := m', guest := g', trace := trace \<sigma> @ [Called n args (Inl err)]\<rparr>))
   \<and> (\<forall>m f e \<sigma>'. m \<sigma> = (Inl e, \<sigma>') \<longrightarrow>
        bind m (f :: 'a \<Rightarrow> ('g, 'b) io) \<sigma> = (Inl e, \<sigma>'))
   \<and> (\<forall>e \<sigma>'.
        callOrPanic ''failed to call step'' (step (smod \<sigma>)) [ucast stmt] \<sigma> = (Inl e, \<sigma>') \<longrightarrow>
        execStep stmt \<sigma> = (Inl e, \<sigma>'))
   \<and> (\<forall>st e \<sigma>1 \<sigma>2.
        prepareStmt query \<sigma> = (Inr st, \<sigma>1) \<longrightarrow> execStep st \<sigma>1 = (Inl e, \<sigma>2) \<longrightarrow>
        execSelectUsers query \<sigma> = Some (Inl e, \<sigma>2))
   \<and> (\<forall>i nm e \<sigma>1 \<sigma>2 \<sigma>3.
        readInt stmt 0 \<sigma> = (Inr i, \<sigma>1) \<longrightarrow> readText stmt 1 \<sigma>1 = (Inr nm, \<sigma>2) \<longrightarrow>
        execStep stmt \<sigma>2 = (Inl e, \<sigma>3) \<longrightarrow>
        stepLoop stmt SQLITE_ROW users \<sigma> = Some (Inl e, \<sigma>3))
   \<and> (\<forall>e \<sigma>'.
        callOrPanic [] (alloc (smod \<sigma>)) [of_nat (length str), 0] \<sigma> = (Inl e, \<sigma>') \<longrightarrow>
        allocateString str \<sigma> = (Inl e, \<sigma>'))
   \<and> (\<forall>e \<sigma>'.
        callOrPanic ''failed to read column as integer'' (columnInt (smod \<sigma>))
          [ucast stmt, ucast columnIndex] \<sigma> = (Inl e, \<sigma>') \<longrightarrow>
        readInt stmt columnIndex \<sigma> = (Inl e, \<sigma>'))
   \<and> (\<forall>e \<sigma>'.
        callOrPanic ''failed to read column as text'' (columnText (smod \<sigma>))
          [ucast stmt, ucast columnIndex] \<sigma> = (Inl e, \<sigma>') \<longrightarrow>
        readText stmt columnIndex \<sigma> = (Inl e, \<sigma>'))
   \<and> (\<forall>r1 \<sigma>1 e \<sigma>'.
        callOrPanic ''failed to read column as text'' (columnText (smod \<sigma>))
          [ucast stmt, ucast columnIndex] \<sigma> = (Inr r1, \<sigma>1) \<longrightarrow>
        callOrPanic ''failed to get column text ptr'' (getResultPtr (smod \<sigma>1)) [] \<sigma>1
          = (Inl e, \<sigma>') \<longrightarrow>
        readText stmt columnIndex \<sigma> = (Inl e, \<sigma>'))
   \<and> (\<forall>r1 \<sigma>1 r2 \<sigma>2 e \<sigma>'.
        callOrPanic ''failed to read column as text'' (columnText (smod \<sigma>))
          [ucast stmt, ucast columnIndex] \<sigma> = (Inr r1, \<sigma>1) \<longrightarrow>
        callOrPanic ''failed to get column text ptr'' (getResultPtr (smod \<sigma>1)) [] \<sigma>1
          = (Inr r2, \<sigma>2) \<longrightarrow>
        callOrPanic ''failed to get column text size'' (getResultSize (smod \<sigma>2)) [] \<sigma>2
          = (Inl e, \<sigma>') \<longrightarrow>
        readText stmt columnIndex \<sigma> = (Inl e, \<sigma>'))
   \<and> (\<forall>e \<sigma>'. allocateString query \<sigma> = (Inl e, \<sigma>') \<longrightarrow> execSql query \<sigma> = (Inl e, \<sigma>'))
   \<and> (\<forall>p k \<sigma>1 e \<sigma>'.
        allocateString query \<sigma> = (Inr (p, k), \<sigma>1) \<longrightarrow>
        callOrPanic ''error execution query'' (exec (smod \<sigma>1))
          [dbHandle (smod \<sigma>1), p, k, 0, 0] \<sigma>1 = (Inl e, \<sigma>') \<longrightarrow>
        execSql query \<sigma> = (Inl e, \<sigma>'))
   \<and> (\<forall>p k \<sigma>1 r1 \<sigma>2 e \<sigma>'.
        allocateString query \<sigma> = (Inr (p, k), \<sigma>1) \<longrightarrow>
        callOrPanic ''error execution query'' (exec (smod \<sigma>1))
          [dbHandle (smod \<sigma>1), p, k, 0, 0] \<sigma>1 = (Inr r1, \<sigma>2) \<longrightarrow>
        callOrPanic ''error getting result ptr'' (getResultPtr (smod \<sigma>2)) [] \<sigma>2
          = (Inl e, \<sigma>') \<longrightarrow>
        execSql query \<sigma> = (Inl e, \<sigma>'))
   \<and> (\<forall>e \<sigma>'. allocateString query \<sigma> = (Inl e, \<sigma>') \<longrightarrow>
        prepareStmt query \<sigma> = (Inl e, \<sigma>'))
   \<and> (\<forall>p k \<sigma>1 e \<sigma>'.
        allocateString query \<sigma> = (Inr (p, k), \<sigma>1) \<longrightarrow>
        callOrPanic ''failed to call prepare query'' (prepare (smod \<sigma>1))
          [dbHandle (smod \<sigma>1), p, k] \<sigma>1 = (Inl e, \<sigma>') \<longrightarrow>
        prepareStmt query \<sigma> = (Inl e, \<sigma>'))
   \<and> (\<forall>p k \<sigma>1 r1 \<sigma>2 e \<sigma>'.
        allocateString query \<sigma> = (Inr (p, k), \<sigma>1) \<longrightarrow>
        callOrPanic ''failed to call prepare query'' (prepare (smod \<sigma>1))
          [dbHandle (smod \<sigma>1), p, k] \<sigma>1 = (Inr r1, \<sigma>2) \<longrightarrow>
        callOrPanic ''error getting result ptr'' (getResultPtr (smod \<sigma>2)) [] \<sigma>2
          = (Inl e, \<sigma>') \<longrightarrow>
        prepareStmt query \<sigma> = (Inl e, \<sigma>'))
   \<and> (\<forall>e \<sigma>'. prepareStmt query \<sigma> = (Inl e, \<sigma>') \<longrightarrow>
        execSelectUsers query \<sigma> = Some (Inl e, \<sigma>'))
   \<and> (\<forall>st rc \<sigma>1 \<sigma>2.
        prepareStmt query \<sigma> = (Inr st, \<sigma>1) \<longrightarrow> execStep st \<sigma>1 = (Inr rc, \<sigma>2) \<longrightarrow>
        execSelectUsers query \<sigma> = stepLoop st rc [] \<sigma>2)
   \<and> (\<forall>e \<sigma>1. readInt stmt 0 \<sigma> = (Inl e, \<sigma>1) \<longrightarrow>
        stepLoop stmt SQLITE_ROW users \<sigma> = Some (Inl e, \<sigma>1))
   \<and> (\<forall>i e \<sigma>1 \<sigma>2.
        readInt stmt 0 \<sigma> = (Inr i, \<sigma>1) \<longrightarrow> readText stmt 1 \<sigma>1 = (Inl e, \<sigma>2) \<longrightarrow>
        stepLoop stmt SQLITE_ROW users \<sigma> = Some (Inl e, \<sigma>2))
   \<and> (\<forall>e \<sigma>'. allocateString (bytes_of '':memory:'') \<sigma> = (Inl e, \<sigma>') \<longrightarrow>
        openDb \<sigma> = (Inl e, \<sigma>'))
   \<and> (\<forall>p1 k1 \<sigma>1 e \<sigma>'.
        allocateString (bytes_of '':memory:'') \<sigma> = (Inr (p1, k1), \<sigma>1) \<longrightarrow>
        allocateString [] \<sigma>1 = (Inl e, \<sigma>') \<longrightarrow>
        openDb \<sigma> = (Inl e, \<sigma>'))
   \<and> (\<forall>p1 k1 \<sigma>1 p2 k2 \<sigma>2 e \<sigma>'.
        allocateString (bytes_of '':memory:'') \<sigma> = (Inr (p1, k1), \<sigma>1) \<longrightarrow>
        allocateString [] \<sigma>1 = (Inr (p2, k2), \<sigma>2) \<longrightarrow>
        callOrPanic [] (open (smod \<sigma>2)) [p1, k1, 6, p2, k2] \<sigma>2 = (Inl e, \<sigma>') \<longrightarrow>
        openDb \<sigma> = (Inl e, \<sigma>'))
   \<and> (\<forall>p1 k1 \<sigma>1 p2 k2 \<sigma>2 r1 \<sigma>3 e \<sigma>'.
        allocateString (bytes_of '':memory:'') \<sigma> = (Inr (p1, k1), \<sigma>1) \<longrightarrow>
        allocateString [] \<sigma>1 = (Inr (p2, k2), \<sigma>2) \<longrightarrow>
        callOrPanic [] (open (smod \<sigma>2)) [p1, k1, 6, p2, k2] \<sigma>2 = (Inr r1, \<sigma>3) \<longrightarrow>
        callOrPanic [] (getResultPtr (smod \<sigma>3)) [] \<sigma>3 = (Inl e, \<sigma>') \<longrightarrow>
        openDb \<sigma> = (Inl e, \<sigma>'))
   \<and> (\<forall>e \<sigma>'. openDb (bindExports sqlite) = (Inl e, \<sigma>') \<longrightarrow>
        newSqlModule (Inr sqlite) = Inr (Inl e, \<sigma>'))
   \<and> (\<forall>fr e \<sigma>'. callOrPanic msg fr args \<sigma> = (Inl e, \<sigma>') \<longrightarrow>
        (case fr of
           None \<Rightarrow> e = NilFunctionPanic \<and> \<sigma>' = \<sigma>
         | Some fn \<Rightarrow>
             (case fbody fn args (mem \<sigma>) (guest \<sigma>) of
                (Inl err, m', g') \<Rightarrow>
                  e = CallPanic msg err \<and>
                  \<sigma>' = \<sigma>\<lparr>mem := m', guest := g',
                          trace := trace \<sigma> @ [Called (fname fn) args (Inl err)]\<rparr>
              | (Inr res, m', g') \<Rightarrow> False)))"
proof (intro conjI allI impI)
  show "callOrPanic msg (ExportedFunction sqlite n) args \<sigma> = (Inl NilFunctionPanic, \<sigma>)"
    if "exports sqlite n = None"
    using that by (simp add: ExportedFunction_def io_defs)
  show "callOrPanic msg (ExportedFunction sqlite n) args \<sigma> =
          (Inl (CallPanic msg err),
           \<sigma>\<lparr>mem := m', guest := g', trace := trace \<sigma> @ [Called n args (Inl err)]\<rparr>)"
    if "exports sqlite n = Some body" "body args (mem \<sigma>) (guest \<sigma>) = (Inl err, m', g')"
    for body err m' g'
    using that by (simp add: ExportedFunction_def io_defs)
  show "bind m f \<sigma> = (Inl e, \<sigma>')" if "m \<sigma> = (Inl e, \<sigma>')"
    for m and f :: "'a \<Rightarrow> ('g, 'b) io" and e \<sigma>'
    using that by (rule bind_Inl)
  show "execStep stmt \<sigma> = (Inl e, \<sigma>')"
    if "callOrPanic ''failed to call step'' (step (smod \<sigma>)) [ucast stmt] \<sigma> = (Inl e, \<sigma>')"
    for e \<sigma>'
    using that by (simp add: execStep_def bind_def getModule_def)
  show "execSelectUsers query \<sigma> = Some (Inl e, \<sigma>2)"
    if "prepareStmt query \<sigma> = (Inr st, \<sigma>1)" "execStep st \<sigma>1 = (Inl e, \<sigma>2)"
    for st e \<sigma>1 \<sigma>2
    using that by (simp add: execSelectUsers_def)
  show "stepLoop stmt SQLITE_ROW users \<sigma> = Some (Inl e, \<sigma>3)"
    if "readInt stmt 0 \<sigma> = (Inr i, \<sigma>1)" "readText stmt 1 \<sigma>1 = (Inr nm, \<sigma>2)"
      "execStep stmt \<sigma>2 = (Inl e, \<sigma>3)"
    for i nm e \<sigma>1 \<sigma>2 \<sigma>3
    using that by (subst stepLoop.simps) simp
  show "allocateString str \<sigma> = (Inl e, \<sigma>')"
    if "callOrPanic [] (alloc (smod \<sigma>)) [of_nat (length str), 0] \<sigma> = (Inl e, \<sigma>')"
    for e \<sigma>'
    using that by (simp add: allocateString_def bind_def getModule_def)
  show "readInt stmt columnIndex \<sigma> = (Inl e, \<sigma>')"
    if "callOrPanic ''failed to read column as integer'' (columnInt (smod \<sigma>))
          [ucast stmt, ucast columnIndex] \<sigma> = (Inl e, \<sigma>')"
    for e \<sigma>'
    using that by (simp add: readInt_def bind_def getModule_def)
  show "readText stmt columnIndex \<sigma> = (Inl e, \<sigma>')"
    if "callOrPanic ''failed to read column as text'' (columnText (smod \<sigma>))
          [ucast stmt, ucast columnIndex] \<sigma> = (Inl e, \<sigma>')"
    for e \<sigma>'
    using that by (simp add: readText_def bind_def getModule_def)
  show "readText stmt columnIndex \<sigma> = (Inl e, \<sigma>')"
    if "callOrPanic ''failed to read column as text'' (columnText (smod \<sigma>))
          [ucast stmt, ucast columnIndex] \<sigma> = (Inr r1, \<sigma>1)"
       "callOrPanic ''failed to get column text ptr'' (getResultPtr (smod \<sigma>1)) [] \<sigma>1
          = (Inl e, \<sigma>')"
    for r1 \<sigma>1 e \<sigma>'
    using that by (simp add: readText_def bind_def getModule_def)
  show "readText stmt columnIndex \<sigma> = (Inl e, \<sigma>')"
    if "callOrPanic ''failed to read column as text'' (columnText (smod \<sigma>))
          [ucast stmt, ucast columnIndex] \<sigma> = (Inr r1, \<sigma>1)"
       "callOrPanic ''failed to get column text ptr'' (getResultPtr (smod \<sigma>1)) [] \<sigma>1
          = (Inr r2, \<sigma>2)"
       "callOrPanic ''failed to get column text size'' (getResultSize (smod \<sigma>2)) [] \<sigma>2
          = (Inl e, \<sigma>')"
    for r1 \<sigma>1 r2 \<sigma>2 e \<sigma>'
    using that by (simp add: readText_def bind_def getModule_def)
  show "execSql query \<sigma> = (Inl e, \<sigma>')" if "allocateString query \<sigma> = (Inl e, \<sigma>')" for e \<sigma>'
    using that by (simp add: execSql_def bind_def)
  show "execSql query \<sigma> = (Inl e, \<sigma>')"
    if "allocateString query \<sigma> = (Inr (p, k), \<sigma>1)"
       "callOrPanic ''error execution query'' (exec (smod \<sigma>1))
          [dbHandle (smod \<sigma>1), p, k, 0, 0] \<sigma>1 = (Inl e, \<sigma>')"
    for p k \<sigma>1 e \<sigma>'
    using that by (simp add: execSql_def bind_def getModule_def)
  show "execSql query \<sigma> = (Inl e, \<sigma>')"
    if "allocateString query \<sigma> = (Inr (p, k), \<sigma>1)"
       "callOrPanic ''error execution query'' (exec (smod \<sigma>1))
          [dbHandle (smod \<sigma>1), p, k, 0, 0] \<sigma>1 = (Inr r1, \<sigma>2)"
       "callOrPanic ''error getting result ptr'' (getResultPtr (smod \<sigma>2)) [] \<sigma>2
          = (Inl e, \<sigma>')"
    for p k \<sigma>1 r1 \<sigma>2 e \<sigma>'
    using that by (simp add: execSql_def bind_def getModule_def)
  show "prepareStmt query \<sigma> = (Inl e, \<sigma>')" if "allocateString query \<sigma> = (Inl e, \<sigma>')"
    for e \<sigma>'
    using that by (simp add: prepareStmt_def bind_def)
  show "prepareStmt query \<sigma> = (Inl e, \<sigma>')"
    if "allocateString query \<sigma> = (Inr (p, k), \<sigma>1)"
       "callOrPanic ''failed to call prepare query'' (prepare (smod \<sigma>1))
          [dbHandle (smod \<sigma>1), p, k] \<sigma>1 = (Inl e, \<sigma>')"
    for p k \<sigma>1 e \<sigma>'
    using that by (simp add: prepareStmt_def bind_def getModule_def)
  show "prepareStmt query \<sigma> = (Inl e, \<sigma>')"
    if "allocateString query \<sigma> = (Inr (p, k), \<sigma>1)"
       "callOrPanic ''failed to call prepare query'' (prepare (smod \<sigma>1))
          [dbHandle (smod \<sigma>1), p, k] \<sigma>1 = (Inr r1, \<sigma>2)"
       "callOrPanic ''error getting result ptr'' (getResultPtr (smod \<sigma>2)) [] \<sigma>2
          = (Inl e, \<sigma>')"
    for p k \<sigma>1 r1 \<sigma>2 e \<sigma>'
    using that by (simp add: prepareStmt_def bind_def getModule_def)
  show "execSelectUsers query \<sigma> = Some (Inl e, \<sigma>')"
    if "prepareStmt query \<sigma> = (Inl e, \<sigma>')" for e \<sigma>'
    using that by (simp add: execSelectUsers_def)
  show "execSelectUsers query \<sigma> = stepLoop st rc [] \<sigma>2"
    if "prepareStmt query \<sigma> = (Inr st, \<sigma>1)" "execStep st \<sigma>1 = (Inr rc, \<sigma>2)"
    for st rc \<sigma>1 \<sigma>2
    using that by (simp add: execSelectUsers_def)
  show "stepLoop stmt SQLITE_ROW users \<sigma> = Some (Inl e, \<sigma>1)"
    if "readInt stmt 0 \<sigma> = (Inl e, \<sigma>1)" for e \<sigma>1
    using that by (subst stepLoop.simps) simp
  show "stepLoop stmt SQLITE_ROW users \<sigma> = Some (Inl e, \<sigma>2)"
    if "readInt stmt 0 \<sigma> = (Inr i, \<sigma>1)" "readText stmt 1 \<sigma>1 = (Inl e, \<sigma>2)"
    for i e \<sigma>1 \<sigma>2
    using that by (subst stepLoop.simps) simp
  show "openDb \<sigma> = (Inl e, \<sigma>')"
    if "allocateString (bytes_of '':memory:'') \<sigma> = (Inl e, \<sigma>')" for e \<sigma>'
    using that by (simp add: openDb_def bind_def)
  show "openDb \<sigma> = (Inl e, \<sigma>')"
    if "allocateString (bytes_of '':memory:'') \<sigma> = (Inr (p1, k1), \<sigma>1)"
       "allocateString [] \<sigma>1 = (Inl e, \<sigma>')"
    for p1 k1 \<sigma>1 e \<sigma>'
    using that by (simp add: openDb_def bind_def)
  show "openDb \<sigma> = (Inl e, \<sigma>')"
    if "allocateString (bytes_of '':memory:'') \<sigma> = (Inr (p1, k1), \<sigma>1)"
       "allocateString [] \<sigma>1 = (Inr (p2, k2), \<sigma>2)"
       "callOrPanic [] (open (smod \<sigma>2)) [p1, k1, 6, p2, k2] \<sigma>2 = (Inl e, \<sigma>')"
    for p1 k1 \<sigma>1 p2 k2 \<sigma>2 e \<sigma>'
    using that by (simp add: openDb_def bind_def getModule_def)
  show "openDb \<sigma> = (Inl e, \<sigma>')"
    if "allocateString (bytes_of '':memory:'') \<sigma> = (Inr (p1, k1), \<sigma>1)"
       "allocateString [] \<sigma>1 = (Inr (p2, k2), \<sigma>2)"
       "callOrPanic [] (open (smod \<sigma>2)) [p1, k1, 6, p2, k2] \<sigma>2 = (Inr r1, \<sigma>3)"
       "callOrPanic [] (getResultPtr (smod \<sigma>3)) [] \<sigma>3 = (Inl e, \<sigma>')"
    for p1 k1 \<sigma>1 p2 k2 \<sigma>2 r1 \<sigma>3 e \<sigma>'
    using that by (simp add: openDb_def bind_def getModule_def)
  show "newSqlModule (Inr sqlite) = Inr (Inl e, \<sigma>')"
    if "openDb (bindExports sqlite) = (Inl e, \<sigma>')" for e \<sigma>'
    using that by (simp add: newSqlModule_def)
  show "case fr of
           None \<Rightarrow> e = NilFunctionPanic \<and> \<sigma>' = \<sigma>
         | Some fn \<Rightarrow>
             (case fbody fn args (mem \<sigma>) (guest \<sigma>) of
                (Inl err, m', g') \<Rightarrow>
                  e = CallPanic msg err \<and>
                  \<sigma>' = \<sigma>\<lparr>mem := m', guest := g',
                          trace := trace \<sigma> @ [Called (fname fn) args (Inl err)]\<rparr>
              | (Inr res, m', g') \<Rightarrow> False)"
    if "callOrPanic msg fr args \<sigma> = (Inl e, \<sigma>')" for fr e \<sigma>'
    using that by (auto simp: io_defs split: option.splits prod.splits sum.splits)
qed

theorem call_failure_propagates_witness:
  "exports (demo_nostep [0,0,0,0, 9,0,0,0, 0,0,0,0, 0,0]) ''sqlite3_step'' = None
   \<and> execStep 9 (bindExports (demo_nostep [0,0,0,0, 9,0,0,0, 0,0,0,0, 0,0]))
       = (Inl NilFunctionPanic, bindExports (demo_nostep [0,0,0,0, 9,0,0,0, 0,0,0,0, 0,0]))
   \<and> fst (execStep 9 (bindExports (demo_trap [0,0,0,0, 9,0,0,0, 0,0,0,0, 0,0])))
       = Inl (CallPanic ''failed to call step'' ''unreachable'')
   \<and> trace (snd (execStep 9 (bindExports (demo_trap [0,0,0,0, 9,0,0,0, 0,0,0,0, 0,0]))))
       = [Called ''sqlite3_step'' [9] (Inl ''unreachable'')]
   \<and> map_option fst (execSelectUsers [1, 2] (bindExports (demo_trap [0,0,0,0, 9,0,0,0, 0,0,0,0, 0,0])))
       = Some (Inl (CallPanic ''failed to call step'' ''unreachable''))
   \<and> fst (execSql [1, 2] (bindExports (demo_trap_exec [0,0,0,0, 9,0,0,0, 0,0,0,0, 0,0])))
       = Inl (CallPanic ''error execution query'' ''unreachable'')
   \<and> trace (snd (execSql [1, 2] (bindExports (demo_trap_exec [0,0,0,0, 9,0,0,0, 0,0,0,0, 0,0]))))
       = [Called ''allocate'' [2, 0] (Inr [12]), MemWrite 12 2 True,
          Called ''sqlite3_exec'' [0, 12, 2, 0, 0] (Inl ''unreachable'')]"
proof -
  let ?m = "[0,0,0,0, 9,0,0,0, 0,0,0,0, 0,0] :: byte list"
  let ?N = "bindExports (demo_nostep ?m)"
  let ?T = "bindExports (demo_trap ?m)"
  let ?E = "bindExports (demo_trap_exec ?m)"
  note N = call_failure_propagates [where sqlite = "demo_nostep ?m" and n = "''sqlite3_step''"
      and msg = "''failed to call step''" and args = "[ucast (9 :: u32)]" and \<sigma> = ?N and stmt = 9]
  note T = call_failure_propagates [where sqlite = "demo_trap ?m" and n = "''sqlite3_step''"
      and msg = "''failed to call step''" and args = "[ucast (9 :: u32)]" and \<sigma> = ?T and stmt = 9
      and query = "[1, 2]"]
  note E = call_failure_propagates [where \<sigma> = ?E and query = "[1, 2]"]
  have n0: "exports (demo_nostep ?m) ''sqlite3_step'' = None"
    by (simp add: demo_defs)
  have n1: "step (smod ?N) = ExportedFunction (demo_nostep ?m) ''sqlite3_step''"
    by (simp add: bindExports_def)
  have n1a: "callOrPanic ''failed to call step''
      (ExportedFunction (demo_nostep ?m) ''sqlite3_step'') [ucast (9 :: u32)] ?N
        = (Inl NilFunctionPanic, ?N)"
    by (rule N [THEN conjunct1, rule_format, OF n0])
  have n2: "execStep 9 ?N = (Inl NilFunctionPanic, ?N)"
    by (rule N [THEN conjunct2, THEN conjunct2, THEN conjunct2, THEN conjunct1, rule_format])
       (use n1a in \<open>simp add: n1\<close>)
  have t0: "exports (demo_trap ?m) ''sqlite3_step''
              = Some (\<lambda>args m g. (Inl ''unreachable'', m, g))"
    by (simp add: demo_defs)
  have t1: "step (smod ?T) = ExportedFunction (demo_trap ?m) ''sqlite3_step''"
    by (simp add: bindExports_def)
  have t1a: "callOrPanic ''failed to call step''
        (ExportedFunction (demo_trap ?m) ''sqlite3_step'') [ucast (9 :: u32)] ?T
      = (Inl (CallPanic ''failed to call step'' ''unreachable''),
         ?T\<lparr>mem := mem ?T, guest := guest ?T,
           trace := trace ?T @ [Called ''sqlite3_step'' [ucast (9 :: u32)] (Inl ''unreachable'')]\<rparr>)"
    by (rule T [THEN conjunct2, THEN conjunct1, rule_format, OF t0]) simp
  have t2: "execStep 9 ?T =
      (Inl (CallPanic ''failed to call step'' ''unreachable''),
       ?T\<lparr>mem := mem ?T, guest := guest ?T,
           trace := trace ?T @ [Called ''sqlite3_step'' [ucast (9 :: u32)] (Inl ''unreachable'')]\<rparr>)"
    by (rule T [THEN conjunct2, THEN conjunct2, THEN conjunct2, THEN conjunct1, rule_format])
       (use t1a in \<open>simp add: t1\<close>)
  have t3: "trace ?T = []"
    by (simp add: bindExports_def)
  have p: "fst (prepareStmt [1, 2] ?T) = Inr 9"
    by (simp add: op_defs io_defs mem_defs demo_defs)
  define \<sigma>1 where "\<sigma>1 = snd (prepareStmt [1, 2] ?T)"
  have p1: "prepareStmt [1, 2] ?T = (Inr 9, \<sigma>1)"
    using p by (simp add: \<sigma>1_def prod_eq_iff)
  have s1: "fst (execStep 9 \<sigma>1) = Inl (CallPanic ''failed to call step'' ''unreachable'')"
    by (simp add: \<sigma>1_def op_defs io_defs mem_defs demo_defs)
  have s2: "execStep 9 \<sigma>1
      = (Inl (CallPanic ''failed to call step'' ''unreachable''), snd (execStep 9 \<sigma>1))"
    using s1 by (simp add: prod_eq_iff)
  have t4: "execSelectUsers [1, 2] ?T
      = Some (Inl (CallPanic ''failed to call step'' ''unreachable''), snd (execStep 9 \<sigma>1))"
    by (rule T [THEN conjunct2, THEN conjunct2, THEN conjunct2, THEN conjunct2, THEN conjunct1,
          rule_format, OF p1 s2])
  define \<sigma>a where "\<sigma>a = snd (allocateString [1, 2] ?E)"
  have a: "allocateString [1, 2] ?E = (Inr (12, 2), \<sigma>a)"
    by (simp add: \<sigma>a_def prod_eq_iff op_defs io_defs mem_defs demo_defs demo_trap_exec_def)
  define \<sigma>b where "\<sigma>b = snd (callOrPanic ''error execution query'' (exec (smod \<sigma>a))
          [dbHandle (smod \<sigma>a), 12, 2, 0, 0] \<sigma>a)"
  have b: "callOrPanic ''error execution query'' (exec (smod \<sigma>a))
          [dbHandle (smod \<sigma>a), 12, 2, 0, 0] \<sigma>a
        = (Inl (CallPanic ''error execution query'' ''unreachable''), \<sigma>b)"
    by (simp add: \<sigma>b_def \<sigma>a_def prod_eq_iff op_defs io_defs mem_defs demo_defs
        demo_trap_exec_def)
  have tb: "trace \<sigma>b = [Called ''allocate'' [2, 0] (Inr [12]), MemWrite 12 2 True,
          Called ''sqlite3_exec'' [0, 12, 2, 0, 0] (Inl ''unreachable'')]"
    by (simp add: \<sigma>b_def \<sigma>a_def op_defs io_defs mem_defs demo_defs demo_trap_exec_def)
  have e1: "execSql [1, 2] ?E = (Inl (CallPanic ''error execution query'' ''unreachable''), \<sigma>b)"
    by (rule E [THEN conjunct2, THEN conjunct2, THEN conjunct2, THEN conjunct2, THEN conjunct2,
          THEN conjunct2, THEN conjunct2, THEN conjunct2, THEN conjunct2, THEN conjunct2,
          THEN conjunct2, THEN conjunct2, THEN conjunct1, rule_format, OF a b])
  show ?thesis
    using n0 n2 t2 t3 t4 e1 tb by simp
qed

section \<open>Strings written into guest memory\<close>

lemma Write_slice:
  assumes "Write m off v = Some m'"
  shows "length m' = length m" "take (length v) (drop (unat off) m') = v"
    "in_range m' off (length v)"
  using assms by (auto simp: Write_def in_range_def split: if_splits)

lemma allocateString_InrD:
  assumes "allocateString str \<sigma> = (Inr (ptr, len), \<sigma>')"
  shows "len = of_nat (length str)" "\<exists>m1. Write m1 (ucast ptr) str = Some (mem \<sigma>')"
  using assms
  by (auto simp: allocateString_def io_defs split: option.splits prod.splits sum.splits list.splits if_splits)

text \<open>
  C5. When \<open>allocateString str\<close> returns \<open>(ptr, len)\<close>, \<open>len\<close> is \<open>uint64(len(str))\<close>, the
  range of \<open>length str\<close> bytes at the guest address \<open>uint32(ptr)\<close> (the address the
  write went to) lies within the memory, and the bytes of the memory there are exactly
  \<open>str\<close>. Read back through \<open>api.Memory.Read\<close>, whose offset and size are \<open>uint32\<close>, the
  same bytes come back whenever the length fits 32 bits.
\<close>

theorem allocateString_roundtrip:
  assumes "allocateString str \<sigma> = (Inr (ptr, len), \<sigma>')"
  shows "len = of_nat (length str)
       \<and> in_range (mem \<sigma>') (ucast ptr) (length str)
       \<and> take (length str) (drop (unat (ucast ptr :: u32)) (mem \<sigma>')) = str
       \<and> (if length str < 2 ^ 32 then Read (mem \<sigma>') (ucast ptr) (ucast len) = Some str else True)"
proof -
  from allocateString_InrD[OF assms] obtain m1 where
    len: "len = of_nat (length str)" and w: "Write m1 (ucast ptr) str = Some (mem \<sigma>')"
    by blast
  note s = Write_slice[OF w]
  have "unat (ucast len :: u32) = length str" if "length str < 2 ^ 32"
    using that unfolding len
    by (simp add: unsigned_ucast_eq unsigned_of_nat take_bit_nat_eq_self)
  with s len show ?thesis
    by (simp add: Read_def)
qed


theorem allocateString_roundtrip_witness:
  "allocateString [104, 105] (bindExports (demo 12 0 0 [0,0,0,0, 9,0,0,0, 0,0,0,0, 0,0,0,0] 0))
     = (Inr (12, 2), snd (allocateString [104, 105]
          (bindExports (demo 12 0 0 [0,0,0,0, 9,0,0,0, 0,0,0,0, 0,0,0,0] 0))))
   \<and> Read (mem (snd (allocateString [104, 105]
          (bindExports (demo 12 0 0 [0,0,0,0, 9,0,0,0, 0,0,0,0, 0,0,0,0] 0))))) 12 2
       = Some [104, 105]"
proof -
  let ?\<sigma> = "bindExports (demo 12 0 0 [0,0,0,0, 9,0,0,0, 0,0,0,0, 0,0,0,0] 0)"
  have "fst (allocateString [104, 105] ?\<sigma>) = Inr (12, 2)"
    by (simp add: op_defs io_defs mem_defs demo_defs)
  then have a: "allocateString [104, 105] ?\<sigma> = (Inr (12, 2), snd (allocateString [104, 105] ?\<sigma>))"
    by (simp add: prod_eq_iff)
  from allocateString_roundtrip [OF a] show ?thesis
    using a by simp
qed

section \<open>Memory accesses out of range\<close>

text \<open>
  C6. A read of a range that extends past the current memory size is refused as a
  whole (\<open>Read\<close> gives \<open>None\<close> exactly when the range does not fit; what it gives
  otherwise has the full length and is the memory's own bytes, never a shorter or
  padded sequence), and the program turns the refusal into a panic: \<open>readText\<close> panics
  when the range the guest announced does not fit, \<open>allocateString\<close> panics when the
  range to write does not fit, and the memory is untouched in both cases. More
  generally every operation of the program is disciplined: in every run, a refused
  memory access is the last event of the run and the run ends in a panic; a run that
  returns normally has made only accesses that lie within the memory.
\<close>

theorem refused_access_is_fatal:
  "(Read m p n = None \<longleftrightarrow> length m < unat p + unat n)
   \<and> (\<forall>bs. Read m p n = Some bs \<longrightarrow>
         length bs = unat n \<and> bs = take (unat n) (drop (unat p) m))
   \<and> (\<forall>r1 \<sigma>1 tp tps \<sigma>2 ts tss \<sigma>3.
         callOrPanic ''failed to read column as text'' (columnText (smod \<sigma>))
           [ucast stmt, ucast columnIndex] \<sigma> = (Inr r1, \<sigma>1) \<longrightarrow>
         callOrPanic ''failed to get column text ptr'' (getResultPtr (smod \<sigma>1)) [] \<sigma>1
           = (Inr (tp # tps), \<sigma>2) \<longrightarrow>
         callOrPanic ''failed to get column text size'' (getResultSize (smod \<sigma>2)) [] \<sigma>2
           = (Inr (ts # tss), \<sigma>3) \<longrightarrow>
         length (mem \<sigma>3) < unat (ucast tp :: u32) + unat (ucast ts :: u32) \<longrightarrow>
         readText stmt columnIndex \<sigma> =
           (Inl (Panic ''failed to read text''),
            \<sigma>3\<lparr>trace := trace \<sigma>3 @ [MemRead (ucast tp) (ucast ts) False]\<rparr>))
   \<and> (\<forall>ptr rest \<sigma>1.
         callOrPanic [] (alloc (smod \<sigma>)) [of_nat (length str), 0] \<sigma> = (Inr (ptr # rest), \<sigma>1) \<longrightarrow>
         length (mem \<sigma>1) < unat (ucast ptr :: u32) + length str \<longrightarrow>
         allocateString str \<sigma> =
           (Inl (Panic ''failed to write name''),
            \<sigma>1\<lparr>trace := trace \<sigma>1 @ [MemWrite (ucast ptr) (length str) False]\<rparr>))
   \<and> disciplined (ensureStatusCodeSuccess resultPpr errMsg :: ('g, unit) io)
   \<and> disciplined (allocateString str :: ('g, u64 \<times> u64) io)
   \<and> disciplined (readText stmt columnIndex :: ('g, gostring) io)
   \<and> disciplined (execSql query :: ('g, unit) io)
   \<and> disciplined (prepareStmt query :: ('g, u32) io)
   \<and> disciplined (openDb :: ('g, unit) io)
   \<and> (\<forall>y. execSelectUsers query \<sigma> = Some y \<longrightarrow>
         (\<exists>ext. trace (snd y) = trace \<sigma> @ ext \<and> fatal_only (fst y) ext))"
proof (intro conjI allI impI)
  show "Read m p n = None \<longleftrightarrow> length m < unat p + unat n"
    by (auto simp: Read_def in_range_def)
  show "length bs = unat n" if "Read m p n = Some bs" for bs
    using that by (auto simp: Read_def in_range_def split: if_splits)
  show "bs = take (unat n) (drop (unat p) m)" if "Read m p n = Some bs" for bs
    using that by (auto simp: Read_def in_range_def split: if_splits)
  show "readText stmt columnIndex \<sigma> =
           (Inl (Panic ''failed to read text''),
            \<sigma>3\<lparr>trace := trace \<sigma>3 @ [MemRead (ucast tp) (ucast ts) False]\<rparr>)"
    if "callOrPanic ''failed to read column as text'' (columnText (smod \<sigma>))
           [ucast stmt, ucast columnIndex] \<sigma> = (Inr r1, \<sigma>1)"
      "callOrPanic ''failed to get column text ptr'' (getResultPtr (smod \<sigma>1)) [] \<sigma>1
           = (Inr (tp # tps), \<sigma>2)"
      "callOrPanic ''failed to get column text size'' (getResultSize (smod \<sigma>2)) [] \<sigma>2
           = (Inr (ts # tss), \<sigma>3)"
      "length (mem \<sigma>3) < unat (ucast tp :: u32) + unat (ucast ts :: u32)"
    for r1 \<sigma>1 tp tps \<sigma>2 ts tss \<sigma>3
    using that
    by (simp add: readText_def bind_def getModule_def index0_def return_def throw_def
        memRead_def Read_def in_range_def log_event_def)
  show "allocateString str \<sigma> =
           (Inl (Panic ''failed to write name''),
            \<sigma>1\<lparr>trace := trace \<sigma>1 @ [MemWrite (ucast ptr) (length str) False]\<rparr>)"
    if "callOrPanic [] (alloc (smod \<sigma>)) [of_nat (length str), 0] \<sigma> = (Inr (ptr # rest), \<sigma>1)"
      "length (mem \<sigma>1) < unat (ucast ptr :: u32) + length str"
    for ptr rest \<sigma>1
    using that
    by (simp add: allocateString_def bind_def getModule_def index0_def return_def throw_def
        memWrite_def Write_def in_range_def log_event_def)
  show "\<exists>ext. trace (snd y) = trace \<sigma> @ ext \<and> fatal_only (fst y) ext"
    if "execSelectUsers query \<sigma> = Some y" for y
    using that by (rule execSelectUsers_disciplined)
qed (rule disciplined_ensureStatusCodeSuccess disciplined_allocateString disciplined_readText
    disciplined_execSql disciplined_prepareStmt disciplined_openDb)+


theorem refused_access_is_fatal_witness:
  "Read (mem (bindExports (demo 12 0 100 [0,0,0,0, 9,0,0,0, 0,0,0,0, 0,0,0,0] 0))) 0 100 = None
   \<and> fst (readText 9 1 (bindExports (demo 12 0 100 [0,0,0,0, 9,0,0,0, 0,0,0,0, 0,0,0,0] 0)))
       = Inl (Panic ''failed to read text'')
   \<and> trace (snd (readText 9 1 (bindExports (demo 12 0 100 [0,0,0,0, 9,0,0,0, 0,0,0,0, 0,0,0,0] 0))))
       = [Called ''sqlite3_column_text'' [9, 1] (Inr []),
          Called ''get_result_ptr'' [] (Inr [0]),
          Called ''get_result_size'' [] (Inr [100]),
          MemRead 0 100 False]"
proof -
  let ?\<sigma> = "bindExports (demo 12 0 100 [0,0,0,0, 9,0,0,0, 0,0,0,0, 0,0,0,0] 0)"
  define \<sigma>1 where "\<sigma>1 = snd (callOrPanic ''failed to read column as text''
      (columnText (smod ?\<sigma>)) [ucast (9 :: u32), ucast (1 :: u32)] ?\<sigma>)"
  define \<sigma>2 where "\<sigma>2 = snd (callOrPanic ''failed to get column text ptr''
      (getResultPtr (smod \<sigma>1)) [] \<sigma>1)"
  define \<sigma>3 where "\<sigma>3 = snd (callOrPanic ''failed to get column text size''
      (getResultSize (smod \<sigma>2)) [] \<sigma>2)"
  have c1: "callOrPanic ''failed to read column as text'' (columnText (smod ?\<sigma>))
      [ucast (9 :: u32), ucast (1 :: u32)] ?\<sigma> = (Inr [], \<sigma>1)"
    by (simp add: \<sigma>1_def prod_eq_iff io_defs demo_defs)
  have c2: "callOrPanic ''failed to get column text ptr'' (getResultPtr (smod \<sigma>1)) [] \<sigma>1
      = (Inr (0 # []), \<sigma>2)"
    by (simp add: \<sigma>2_def \<sigma>1_def prod_eq_iff io_defs demo_defs)
  have c3: "callOrPanic ''failed to get column text size'' (getResultSize (smod \<sigma>2)) [] \<sigma>2
      = (Inr (100 # []), \<sigma>3)"
    by (simp add: \<sigma>3_def \<sigma>2_def \<sigma>1_def prod_eq_iff io_defs demo_defs)
  have c4: "length (mem \<sigma>3) < unat (ucast (0 :: u64) :: u32) + unat (ucast (100 :: u64) :: u32)"
    by (simp add: \<sigma>3_def \<sigma>2_def \<sigma>1_def io_defs demo_defs)
  have tr: "trace \<sigma>3 = [Called ''sqlite3_column_text'' [9, 1] (Inr []),
          Called ''get_result_ptr'' [] (Inr [0]), Called ''get_result_size'' [] (Inr [100])]"
    by (simp add: \<sigma>3_def \<sigma>2_def \<sigma>1_def io_defs demo_defs)
  note T = refused_access_is_fatal [where \<sigma> = ?\<sigma> and stmt = 9 and columnIndex = 1
      and m = "mem ?\<sigma>" and p = 0 and n = 100]
  have r: "readText 9 1 ?\<sigma> = (Inl (Panic ''failed to read text''),
      \<sigma>3\<lparr>trace := trace \<sigma>3 @ [MemRead (ucast (0 :: u64)) (ucast (100 :: u64)) False]\<rparr>)"
    by (rule T [THEN conjunct2, THEN conjunct2, THEN conjunct1, rule_format, OF c1 c2 c3 c4])
  have "Read (mem ?\<sigma>) 0 100 = None"
    using T [THEN conjunct1] by (simp add: demo_defs)
  with r tr show ?thesis by simp
qed

section \<open>Where the handles come from\<close>

text \<open>
  C1, as the program has it. After a successful \<open>newSqlModule\<close>, and after a
  successful prepare in \<open>execSelectUsers\<close>, the handle is the little-endian \<open>uint32\<close>
  stored in guest memory at \<open>b + 4\<close>, where \<open>b\<close> is the value the \<open>get_result_ptr\<close>
  export returned (the base address of the result struct, whose word at \<open>b\<close> is the
  status, read as zero): the run ends with the call of \<open>get_result_ptr\<close>, the read of
  the status at \<open>b\<close> and the read of the handle at \<open>b + 4\<close>. The handle is the word at
  offset 4 itself; that word is not used as a second address.
\<close>

theorem handle_is_word_at_base_plus_4:
  "(\<forall>\<sigma>'. newSqlModule (Inr (sqlite :: 'g moduleInstance)) = Inr (Inr (), \<sigma>') \<longrightarrow>
      (\<exists>b bs h tr.
         trace \<sigma>' = tr @ [Called ''get_result_ptr'' [] (Inr (b # bs)),
                          MemReadUint32Le (ucast b) True, MemReadUint32Le (ucast (b + 4)) True]
       \<and> ReadUint32Le (mem \<sigma>') (ucast b) = Some 0
       \<and> ReadUint32Le (mem \<sigma>') (ucast (b + 4)) = Some h
       \<and> dbHandle (smod \<sigma>') = ucast h))
   \<and> (\<forall>stmt \<sigma>'. named (smod (\<sigma> :: 'g state)) \<longrightarrow>
        prepareStmt query \<sigma> = (Inr stmt, \<sigma>') \<longrightarrow>
      (\<exists>b bs tr.
         trace \<sigma>' = tr @ [Called ''get_result_ptr'' [] (Inr (b # bs)),
                          MemReadUint32Le (ucast b) True, MemReadUint32Le (ucast (b + 4)) True]
       \<and> ReadUint32Le (mem \<sigma>') (ucast b) = Some 0
       \<and> ReadUint32Le (mem \<sigma>') (ucast (b + 4)) = Some stmt))"
proof (intro conjI allI impI)
  fix \<sigma>' :: "'g state"
  assume "newSqlModule (Inr sqlite) = Inr (Inr (), \<sigma>')"
  then have o: "openDb (bindExports sqlite) = (Inr (), \<sigma>')"
    by (simp add: newSqlModule_def)
  from o obtain b bs \<sigma>3 \<sigma>4 h where
    c: "callOrPanic [] (getResultPtr (smod (bindExports sqlite))) [] \<sigma>3 = (Inr (b # bs), \<sigma>4)" and
    r0: "ReadUint32Le (mem \<sigma>4) (ucast b) = Some 0" and
    r4: "ReadUint32Le (mem \<sigma>4) (ucast (b + 4)) = Some h" and
    s: "\<sigma>' = \<sigma>4\<lparr>trace := trace \<sigma>4 @
             [MemReadUint32Le (ucast b) True, MemReadUint32Le (ucast (b + 4)) True],
            smod := (smod (bindExports sqlite))\<lparr>dbHandle := ucast h\<rparr>\<rparr>"
    by (rule openDb_InrD)
  from c obtain fn where f: "getResultPtr (smod (bindExports sqlite)) = Some fn"
    and t: "trace \<sigma>4 = trace \<sigma>3 @ [Called (fname fn) [] (Inr (b # bs))]"
    by (rule callOrPanic_InrD) simp
  from f have "fname fn = ''get_result_ptr''"
    using named_bindExports[of sqlite] by (simp add: named_def bound_to_def)
  with t s r0 r4
  show "\<exists>b bs h tr.
         trace \<sigma>' = tr @ [Called ''get_result_ptr'' [] (Inr (b # bs)),
                          MemReadUint32Le (ucast b) True, MemReadUint32Le (ucast (b + 4)) True]
       \<and> ReadUint32Le (mem \<sigma>') (ucast b) = Some 0
       \<and> ReadUint32Le (mem \<sigma>') (ucast (b + 4)) = Some h
       \<and> dbHandle (smod \<sigma>') = ucast h"
    by auto
next
  fix stmt and \<sigma>' :: "'g state"
  assume n: "named (smod \<sigma>)" and p: "prepareStmt query \<sigma> = (Inr stmt, \<sigma>')"
  from p obtain b bs \<sigma>2 \<sigma>3 where
    c: "callOrPanic ''error getting result ptr'' (getResultPtr (smod \<sigma>)) [] \<sigma>2
          = (Inr (b # bs), \<sigma>3)" and
    r0: "ReadUint32Le (mem \<sigma>3) (ucast b) = Some 0" and
    r4: "ReadUint32Le (mem \<sigma>3) (ucast (b + 4)) = Some stmt" and
    s: "\<sigma>' = \<sigma>3\<lparr>trace := trace \<sigma>3 @
             [MemReadUint32Le (ucast b) True, MemReadUint32Le (ucast (b + 4)) True]\<rparr>"
    by (rule prepareStmt_InrD)
  from c obtain fn where f: "getResultPtr (smod \<sigma>) = Some fn"
    and t: "trace \<sigma>3 = trace \<sigma>2 @ [Called (fname fn) [] (Inr (b # bs))]"
    by (rule callOrPanic_InrD) simp
  from f n have "fname fn = ''get_result_ptr''"
    by (simp add: named_def bound_to_def)
  with t s r0 r4
  show "\<exists>b bs tr.
         trace \<sigma>' = tr @ [Called ''get_result_ptr'' [] (Inr (b # bs)),
                          MemReadUint32Le (ucast b) True, MemReadUint32Le (ucast (b + 4)) True]
       \<and> ReadUint32Le (mem \<sigma>') (ucast b) = Some 0
       \<and> ReadUint32Le (mem \<sigma>') (ucast (b + 4)) = Some stmt"
    by auto
qed


theorem handle_is_word_at_base_plus_4_witness:
  "newSqlModule (Inr (demo 24 0 0 demo_mem 0))
     = Inr (Inr (), snd (openDb (bindExports (demo 24 0 0 demo_mem 0))))
   \<and> (\<exists>b bs h tr.
         trace (snd (openDb (bindExports (demo 24 0 0 demo_mem 0))))
           = tr @ [Called ''get_result_ptr'' [] (Inr (b # bs)),
                   MemReadUint32Le (ucast b) True, MemReadUint32Le (ucast (b + 4)) True]
       \<and> ReadUint32Le (mem (snd (openDb (bindExports (demo 24 0 0 demo_mem 0))))) (ucast b) = Some 0
       \<and> ReadUint32Le (mem (snd (openDb (bindExports (demo 24 0 0 demo_mem 0))))) (ucast (b + 4))
           = Some h
       \<and> dbHandle (smod (snd (openDb (bindExports (demo 24 0 0 demo_mem 0))))) = ucast h)
   \<and> dbHandle (smod (snd (openDb (bindExports (demo 24 0 0 demo_mem 0))))) = 16"
proof -
  let ?\<sigma> = "bindExports (demo 24 0 0 demo_mem 0)"
  have "fst (openDb ?\<sigma>) = Inr ()"
    by (simp add: op_defs io_defs mem_defs demo_defs demo_mem_def bytes_of_def)
  then have a: "newSqlModule (Inr (demo 24 0 0 demo_mem 0)) = Inr (Inr (), snd (openDb ?\<sigma>))"
    by (simp add: newSqlModule_def prod_eq_iff)
  have h: "dbHandle (smod (snd (openDb ?\<sigma>))) = 16"
    by (simp add: op_defs io_defs mem_defs demo_defs demo_mem_def bytes_of_def)
  from handle_is_word_at_base_plus_4 [where sqlite = "demo 24 0 0 demo_mem 0"
      and \<sigma> = ?\<sigma>, THEN conjunct1, rule_format, OF a] a h
  show ?thesis by simp
qed

text \<open>
  C1 as stated fails. With a result struct at address 0 whose word at offset 4 is 16,
  and the word 99 stored at address \<open>16 + 4\<close>, both the open and the prepare succeed
  with the handle 16, not with the word 99 found at "the value of the field, plus 4".
\<close>

theorem handle_is_not_word_at_auxPointer_plus_4:
  "newSqlModule (Inr (demo 24 0 0 demo_mem 0))
     = Inr (Inr (), snd (openDb (bindExports (demo 24 0 0 demo_mem 0))))
   \<and> ReadUint32Le (mem (snd (openDb (bindExports (demo 24 0 0 demo_mem 0))))) (0 + 4) = Some 16
   \<and> ReadUint32Le (mem (snd (openDb (bindExports (demo 24 0 0 demo_mem 0))))) (16 + 4) = Some 99
   \<and> dbHandle (smod (snd (openDb (bindExports (demo 24 0 0 demo_mem 0))))) = 16
   \<and> dbHandle (smod (snd (openDb (bindExports (demo 24 0 0 demo_mem 0))))) \<noteq> 99
   \<and> fst (prepareStmt [1] (bindExports (demo 24 0 0 demo_mem 0))) = Inr 16
   \<and> ReadUint32Le (mem (snd (prepareStmt [1] (bindExports (demo 24 0 0 demo_mem 0))))) (0 + 4)
       = Some 16
   \<and> ReadUint32Le (mem (snd (prepareStmt [1] (bindExports (demo 24 0 0 demo_mem 0))))) (16 + 4)
       = Some 99"
proof -
  let ?\<sigma> = "bindExports (demo 24 0 0 demo_mem 0)"
  have "fst (openDb ?\<sigma>) = Inr ()"
    by (simp add: op_defs io_defs mem_defs demo_defs demo_mem_def bytes_of_def)
  then have a: "newSqlModule (Inr (demo 24 0 0 demo_mem 0)) = Inr (Inr (), snd (openDb ?\<sigma>))"
    by (simp add: newSqlModule_def prod_eq_iff)
  have m: "mem (snd (openDb ?\<sigma>))
      = [0,0,0,0, 16,0,0,0, 0,0,0,0, 0,0,0,0, 0,0,0,0, 99,0,0,0, 58,109,101,109,111,114,121,58]"
    by (simp add: op_defs io_defs mem_defs demo_defs demo_mem_def bytes_of_def)
  have h: "dbHandle (smod (snd (openDb ?\<sigma>))) = 16"
    by (simp add: op_defs io_defs mem_defs demo_defs demo_mem_def bytes_of_def)
  have p: "fst (prepareStmt [1] ?\<sigma>) = Inr 16"
    by (simp add: op_defs io_defs mem_defs demo_defs demo_mem_def bytes_of_def)
  have pm: "mem (snd (prepareStmt [1] ?\<sigma>))
      = [0,0,0,0, 16,0,0,0, 0,0,0,0, 0,0,0,0, 0,0,0,0, 99,0,0,0, 1,0,0,0, 0,0,0,0]"
    by (simp add: op_defs io_defs mem_defs demo_defs demo_mem_def bytes_of_def)
  show ?thesis
    unfolding m pm using a h p by (simp add: mem_defs)
qed

section \<open>The error message of a failed statement\<close>

text \<open>
  C2, as the program has it. In \<open>execSql\<close>, let \<open>b\<close> be the value the \<open>get_result_ptr\<close>
  export returned (the base of the result struct). When the status word at \<open>b\<close> is not
  zero, the pointer word at \<open>b + 4\<close> and the size word at \<open>b + 8\<close> can be read, and (when
  the size is not zero) the range they describe can be read, the call panics with the
  status code and with a
  message that is exactly that range of guest memory when the size is not zero, and
  empty when it is zero; so the message is non-empty if and only if the size word is
  not zero. With a zero size the run reads the three words and no byte range.
\<close>

theorem execSql_failure_message:
  assumes a: "allocateString query \<sigma> = (Inr (queryPtr, querySize), \<sigma>1)"
    and c1: "callOrPanic ''error execution query'' (exec (smod \<sigma>))
       [dbHandle (smod \<sigma>), queryPtr, querySize, 0, 0] \<sigma>1 = (Inr r, \<sigma>2)"
    and c2: "callOrPanic ''error getting result ptr'' (getResultPtr (smod \<sigma>)) [] \<sigma>2
       = (Inr (b # bs), \<sigma>3)"
    and status: "ReadUint32Le (mem \<sigma>3) (ucast b) = Some code" "code \<noteq> 0"
    and ptr: "ReadUint32Le (mem \<sigma>3) (ucast (b + 4)) = Some errMsgPtr"
    and size: "ReadUint32Le (mem \<sigma>3) (ucast (b + 8)) = Some errMsgSize"
    and msg: "errMsgSize \<noteq> 0 \<Longrightarrow> Read (mem \<sigma>3) errMsgPtr errMsgSize = Some errMsg"
  shows "execSql query \<sigma> =
           (Inl (StatusPanic code (if errMsgSize = 0 then [] else errMsg)),
            \<sigma>3\<lparr>trace := trace \<sigma>3 @
              (if errMsgSize = 0
               then [MemReadUint32Le (ucast (b + 4)) True, MemReadUint32Le (ucast (b + 8)) True,
                     MemReadUint32Le (ucast b) True]
               else [MemReadUint32Le (ucast (b + 4)) True, MemReadUint32Le (ucast (b + 8)) True,
                     MemRead errMsgPtr errMsgSize True, MemReadUint32Le (ucast b) True])\<rparr>)
       \<and> ((if errMsgSize = 0 then [] else errMsg) \<noteq> [] \<longleftrightarrow> errMsgSize \<noteq> 0)
       \<and> (if errMsgSize = 0 then True
           else errMsg = take (unat errMsgSize) (drop (unat errMsgPtr) (mem \<sigma>3))
              \<and> length errMsg = unat errMsgSize)"
proof -
  note r = ReadUint32Le_Some_in_range[OF status(1)] ReadUint32Le_Some_in_range[OF ptr]
    ReadUint32Le_Some_in_range[OF size]
  have 1: "execSql query \<sigma> =
           (Inl (StatusPanic code (if errMsgSize = 0 then [] else errMsg)),
            \<sigma>3\<lparr>trace := trace \<sigma>3 @
              (if errMsgSize = 0
               then [MemReadUint32Le (ucast (b + 4)) True, MemReadUint32Le (ucast (b + 8)) True,
                     MemReadUint32Le (ucast b) True]
               else [MemReadUint32Le (ucast (b + 4)) True, MemReadUint32Le (ucast (b + 8)) True,
                     MemRead errMsgPtr errMsgSize True, MemReadUint32Le (ucast b) True])\<rparr>)"
  proof (cases "errMsgSize = 0")
    case True
    show ?thesis
      unfolding execSql_run[OF a c1 c2]
      using status ptr size r True
      by (simp add: ensureStatusCodeSuccess_def bind_def return_def throw_def
          memReadUint32Le_def log_event_def)
  next
    case False
    note m = msg[OF False]
    show ?thesis
      unfolding execSql_run[OF a c1 c2]
      using status ptr size r False m Read_Some_in_range[OF m]
      by (simp add: ensureStatusCodeSuccess_def bind_def return_def throw_def
          memReadUint32Le_def memRead_def log_event_def)
  qed
  have len: "length errMsg = unat errMsgSize"
    and sl: "errMsg = take (unat errMsgSize) (drop (unat errMsgPtr) (mem \<sigma>3))"
    if "errMsgSize \<noteq> 0"
    using msg[OF that] by (auto simp: Read_def in_range_def split: if_splits)
  have 2: "(if errMsgSize = 0 then [] else errMsg) \<noteq> [] \<longleftrightarrow> errMsgSize \<noteq> 0"
    using len by (auto simp: unat_eq_0)
  have 3: "if errMsgSize = 0 then True
           else errMsg = take (unat errMsgSize) (drop (unat errMsgPtr) (mem \<sigma>3))
              \<and> length errMsg = unat errMsgSize"
    using len sl by simp
  show ?thesis by (intro conjI 1 2 3)
qed

theorem execSql_failure_message_witness:
  "ReadUint32Le demo_mem_err 0 = Some 1
   \<and> ReadUint32Le demo_mem_err 4 = Some 16
   \<and> ReadUint32Le demo_mem_err 8 = Some 2
   \<and> Read demo_mem_err 16 2 = Some [104, 105]
   \<and> fst (execSql [] (bindExports (demo 32 0 0 demo_mem_err 0)))
       = Inl (StatusPanic 1 [104, 105])"
proof -
  let ?\<sigma> = "bindExports (demo 32 0 0 demo_mem_err 0)"
  define \<sigma>1 where "\<sigma>1 = snd (allocateString [] ?\<sigma>)"
  define \<sigma>2 where "\<sigma>2 = snd (callOrPanic ''error execution query'' (exec (smod ?\<sigma>))
       [dbHandle (smod ?\<sigma>), 32, 0, 0, 0] \<sigma>1)"
  define \<sigma>3 where "\<sigma>3 = snd (callOrPanic ''error getting result ptr''
       (getResultPtr (smod ?\<sigma>)) [] \<sigma>2)"
  have a: "allocateString [] ?\<sigma> = (Inr (32, 0), \<sigma>1)"
    by (simp add: \<sigma>1_def prod_eq_iff op_defs io_defs mem_defs demo_defs demo_mem_err_def)
  have c1: "callOrPanic ''error execution query'' (exec (smod ?\<sigma>))
       [dbHandle (smod ?\<sigma>), 32, 0, 0, 0] \<sigma>1 = (Inr [], \<sigma>2)"
    by (simp add: \<sigma>2_def prod_eq_iff io_defs demo_defs)
  have c2: "callOrPanic ''error getting result ptr'' (getResultPtr (smod ?\<sigma>)) [] \<sigma>2
       = (Inr (0 # []), \<sigma>3)"
    by (simp add: \<sigma>3_def prod_eq_iff io_defs demo_defs)
  have m3: "mem \<sigma>3 = demo_mem_err"
    by (simp add: \<sigma>3_def \<sigma>2_def \<sigma>1_def op_defs io_defs mem_defs demo_defs demo_mem_err_def)
  have r0: "ReadUint32Le demo_mem_err 0 = Some 1"
    and r4: "ReadUint32Le demo_mem_err 4 = Some 16"
    and r8: "ReadUint32Le demo_mem_err 8 = Some 2"
    and rm: "Read demo_mem_err 16 2 = Some [104, 105]"
    by (simp_all add: mem_defs demo_mem_err_def)
  have st: "ReadUint32Le (mem \<sigma>3) (ucast (0 :: u64)) = Some 1"
    and p: "ReadUint32Le (mem \<sigma>3) (ucast ((0 :: u64) + 4)) = Some 16"
    and s: "ReadUint32Le (mem \<sigma>3) (ucast ((0 :: u64) + 8)) = Some 2"
    and m: "Read (mem \<sigma>3) 16 2 = Some [104, 105]"
    unfolding m3 using r0 r4 r8 rm by simp_all
  have nz: "(1 :: u32) \<noteq> 0" by simp
  from execSql_failure_message [OF a c1 c2 st nz p s m] r0 r4 r8 rm
  show ?thesis by simp
qed

text \<open>
  C2 as stated fails in two ways. First, it takes the pointer and the size from
  \<open>auxPointer + 4\<close> and \<open>auxPointer + 8\<close>, where \<open>auxPointer\<close> is the word at offset 4 of the
  result struct: with the struct at 0 holding status 1, pointer word 16 and size word 2,
  the bytes "hi" at 16, and the words 28 and 3 at \<open>16 + 4\<close> and \<open>16 + 8\<close> describing the
  bytes "abc", the panic carries "hi", not "abc". Second, a status that is not zero does
  not always come with a message from that range: when the size word is 200 and the
  range does not fit the memory, the failure reported is "cannot read err msg", with
  neither the status nor a message.
\<close>

theorem execSql_message_is_not_at_auxPointer:
  "fst (execSql [] (bindExports (demo 32 0 0 demo_mem_err 0))) = Inl (StatusPanic 1 [104, 105])
   \<and> mem (snd (execSql [] (bindExports (demo 32 0 0 demo_mem_err 0)))) = demo_mem_err
   \<and> ReadUint32Le demo_mem_err 0 = Some 1
   \<and> ReadUint32Le demo_mem_err (0 + 4) = Some 16
   \<and> ReadUint32Le demo_mem_err (16 + 4) = Some 28
   \<and> ReadUint32Le demo_mem_err (16 + 8) = Some 3
   \<and> Read demo_mem_err 28 3 = Some [97, 98, 99]
   \<and> fst (execSql [] (bindExports (demo 32 0 0 demo_mem_bad 0)))
       = Inl (Panic ''cannot read err msg'')
   \<and> ReadUint32Le demo_mem_bad 0 = Some 1"
proof -
  have 1: "fst (execSql [] (bindExports (demo 32 0 0 demo_mem_err 0)))
      = Inl (StatusPanic 1 [104, 105])"
    by (simp add: op_defs io_defs mem_defs demo_defs demo_mem_err_def)
  have 2: "mem (snd (execSql [] (bindExports (demo 32 0 0 demo_mem_err 0)))) = demo_mem_err"
    by (simp add: op_defs io_defs mem_defs demo_defs demo_mem_err_def)
  have 3: "ReadUint32Le demo_mem_err 0 = Some 1" "ReadUint32Le demo_mem_err (0 + 4) = Some 16"
    "ReadUint32Le demo_mem_err (16 + 4) = Some 28" "ReadUint32Le demo_mem_err (16 + 8) = Some 3"
    "Read demo_mem_err 28 3 = Some [97, 98, 99]"
    by (simp_all add: mem_defs demo_mem_err_def)
  have 4: "fst (execSql [] (bindExports (demo 32 0 0 demo_mem_bad 0)))
      = Inl (Panic ''cannot read err msg'')"
    by (simp add: op_defs io_defs mem_defs demo_defs demo_mem_bad_def)
  have 5: "ReadUint32Le demo_mem_bad 0 = Some 1"
    by (simp add: mem_defs demo_mem_bad_def)
  show ?thesis by (intro conjI 1 2 3 4 5)
qed

section \<open>A zero statement handle\<close>

text \<open>
  C9. When the prepare call and the result-pointer call return, the status word at the
  base \<open>b\<close> of the result struct is zero (success) and the word at \<open>b + 4\<close>, the
  statement handle, is zero too, \<open>execSelectUsers\<close> panics with "failed to read
  prepared statement" right after the two reads: no step call is made in the whole run.
  And whenever the prepare half returns a handle, the handle is not zero.
\<close>

theorem zero_statement_handle_rejected:
  assumes a: "allocateString query \<sigma> = (Inr (queryPtr, querySize), \<sigma>1)"
    and c1: "callOrPanic ''failed to call prepare query'' (prepare (smod \<sigma>))
       [dbHandle (smod \<sigma>), queryPtr, querySize] \<sigma>1 = (Inr r, \<sigma>2)"
    and c2: "callOrPanic ''error getting result ptr'' (getResultPtr (smod \<sigma>)) [] \<sigma>2
       = (Inr (b # bs), \<sigma>3)"
    and status: "ReadUint32Le (mem \<sigma>3) (ucast b) = Some 0"
    and handle: "ReadUint32Le (mem \<sigma>3) (ucast (b + 4)) = Some 0"
    and n: "named (smod \<sigma>)"
  shows "execSelectUsers query \<sigma> =
           Some (Inl (Panic ''failed to read prepared statement''),
                 \<sigma>3\<lparr>trace := trace \<sigma>3 @
                   [MemReadUint32Le (ucast b) True, MemReadUint32Le (ucast (b + 4)) True]\<rparr>)
       \<and> \<not> list_ex (is_call_of ''sqlite3_step'')
            (new_events \<sigma> (\<sigma>3\<lparr>trace := trace \<sigma>3 @
                   [MemReadUint32Le (ucast b) True, MemReadUint32Le (ucast (b + 4)) True]\<rparr>))
       \<and> (if isl (fst (prepareStmt query \<sigma>)) then True
           else projr (fst (prepareStmt query \<sigma>)) \<noteq> 0)"
proof -
  let ?\<sigma>' = "\<sigma>3\<lparr>trace := trace \<sigma>3 @
                   [MemReadUint32Le (ucast b) True, MemReadUint32Le (ucast (b + 4)) True]\<rparr>"
  have p: "prepareStmt query \<sigma> = (Inl (Panic ''failed to read prepared statement''), ?\<sigma>')"
    unfolding prepareStmt_run[OF a c1 c2]
    using status handle ReadUint32Le_Some_in_range[OF status] ReadUint32Le_Some_in_range[OF handle]
    by (simp add: ensureStatusCodeSuccess_def bind_def return_def throw_def
        memReadUint32Le_def log_event_def)
  then have 1: "execSelectUsers query \<sigma> = Some (Inl (Panic ''failed to read prepared statement''), ?\<sigma>')"
    by (simp add: execSelectUsers_def)
  from no_step_allocateString[OF n a] have e1: "\<not> list_ex (is_call_of ''sqlite3_step'') (new_events \<sigma> \<sigma>1)" .
  have s1: "smod \<sigma>1 = smod \<sigma>" using a by (rule allocateString_smod)
  obtain e1 where t1: "trace \<sigma>1 = trace \<sigma> @ e1"
    using disciplinedD[OF disciplined_allocateString a] by blast
  from c1 obtain f1 where f1: "prepare (smod \<sigma>) = Some f1"
    and t2: "trace \<sigma>2 = trace \<sigma>1 @ [Called (fname f1) [dbHandle (smod \<sigma>), queryPtr, querySize] (Inr r)]"
    by (rule callOrPanic_InrD) simp
  from c2 obtain f2 where f2: "getResultPtr (smod \<sigma>) = Some f2"
    and t3: "trace \<sigma>3 = trace \<sigma>2 @ [Called (fname f2) [] (Inr (b # bs))]"
    by (rule callOrPanic_InrD) simp
  from n f1 f2 have nm: "fname f1 = ''sqlite3_prepare_v2''" "fname f2 = ''get_result_ptr''"
    by (simp_all add: named_def bound_to_def)
  have 2: "\<not> list_ex (is_call_of ''sqlite3_step'') (new_events \<sigma> ?\<sigma>')"
    using e1 t1 t2 t3 nm by (simp add: new_events_def)
  have 3: "(if isl (fst (prepareStmt query \<sigma>)) then True
           else projr (fst (prepareStmt query \<sigma>)) \<noteq> 0)"
    using p by simp
  show ?thesis by (intro conjI 1 2 3)
qed

theorem zero_statement_handle_rejected_witness:
  "ReadUint32Le (mem (bindExports (demo 12 0 0 [0,0,0,0, 0,0,0,0, 0,0,0,0, 0,0,0,0] 3))) 0 = Some 0
   \<and> ReadUint32Le (mem (bindExports (demo 12 0 0 [0,0,0,0, 0,0,0,0, 0,0,0,0, 0,0,0,0] 3))) 4 = Some 0
   \<and> map_option fst
        (execSelectUsers [1, 2] (bindExports (demo 12 0 0 [0,0,0,0, 0,0,0,0, 0,0,0,0, 0,0,0,0] 3)))
       = Some (Inl (Panic ''failed to read prepared statement''))"
proof -
  let ?\<sigma> = "bindExports (demo 12 0 0 [0,0,0,0, 0,0,0,0, 0,0,0,0, 0,0,0,0] 3)"
  define \<sigma>1 where "\<sigma>1 = snd (allocateString [1, 2] ?\<sigma>)"
  define \<sigma>2 where "\<sigma>2 = snd (callOrPanic ''failed to call prepare query'' (prepare (smod ?\<sigma>))
       [dbHandle (smod ?\<sigma>), 12, 2] \<sigma>1)"
  define \<sigma>3 where "\<sigma>3 = snd (callOrPanic ''error getting result ptr''
       (getResultPtr (smod ?\<sigma>)) [] \<sigma>2)"
  have a: "allocateString [1, 2] ?\<sigma> = (Inr (12, 2), \<sigma>1)"
    by (simp add: \<sigma>1_def prod_eq_iff op_defs io_defs mem_defs demo_defs)
  have c1: "callOrPanic ''failed to call prepare query'' (prepare (smod ?\<sigma>))
       [dbHandle (smod ?\<sigma>), 12, 2] \<sigma>1 = (Inr [], \<sigma>2)"
    by (simp add: \<sigma>2_def prod_eq_iff io_defs demo_defs)
  have c2: "callOrPanic ''error getting result ptr'' (getResultPtr (smod ?\<sigma>)) [] \<sigma>2
       = (Inr (0 # []), \<sigma>3)"
    by (simp add: \<sigma>3_def prod_eq_iff io_defs demo_defs)
  have m3: "mem \<sigma>3 = [0,0,0,0, 0,0,0,0, 0,0,0,0, 1,2,0,0]"
    by (simp add: \<sigma>3_def \<sigma>2_def \<sigma>1_def op_defs io_defs mem_defs demo_defs)
  have st: "ReadUint32Le (mem \<sigma>3) (ucast (0 :: u64)) = Some 0"
    unfolding m3 by (simp add: mem_defs)
  have h: "ReadUint32Le (mem \<sigma>3) (ucast ((0 :: u64) + 4)) = Some 0"
    unfolding m3 by (simp add: mem_defs)
  have n: "named (smod ?\<sigma>)"
    by (rule named_bindExports)
  have r: "ReadUint32Le (mem ?\<sigma>) 0 = Some 0" "ReadUint32Le (mem ?\<sigma>) 4 = Some 0"
    by (simp_all add: mem_defs demo_defs)
  from zero_statement_handle_rejected [OF a c1 c2 st h n] r
  show ?thesis by simp
qed

section \<open>Rows are read while the step code is \<open>SQLITE_ROW\<close>\<close>

text \<open>
  C3. The loop of \<open>execSelectUsers\<close>, entered with the code of the last step call:
  with a code other than 100 it returns the rows gathered so far at once, without
  error and in the very state it was entered with, so no step call and no column read
  follows; with the code 100 it reads the integer column 0 and the text column 1,
  appends that one row, calls step again and goes on with the new code. When the first
  step call gives a code other than 100, \<open>execSelectUsers\<close> returns the empty sequence.
  And in every run of \<open>execSelectUsers\<close> that returns rows (from a module built by
  \<open>newSqlModule\<close>), the codes of the step calls made are 100 once for each row returned,
  followed by exactly one other code, and that last step call is the last event of the
  run.
\<close>

theorem rows_while_SQLITE_ROW:
  "(rc \<noteq> SQLITE_ROW \<longrightarrow> stepLoop stmt rc users \<sigma> = Some (Inr users, \<sigma>))
   \<and> (\<forall>i nm rc' \<sigma>1 \<sigma>2 \<sigma>3.
        readInt stmt 0 \<sigma> = (Inr i, \<sigma>1) \<longrightarrow> readText stmt 1 \<sigma>1 = (Inr nm, \<sigma>2) \<longrightarrow>
        execStep stmt \<sigma>2 = (Inr rc', \<sigma>3) \<longrightarrow>
        stepLoop stmt SQLITE_ROW users \<sigma>
          = stepLoop stmt rc' (users @ [\<lparr>id' = i, name' = nm\<rparr>]) \<sigma>3)
   \<and> (\<forall>st rc1 \<sigma>1 \<sigma>2.
        prepareStmt query \<sigma> = (Inr st, \<sigma>1) \<longrightarrow> execStep st \<sigma>1 = (Inr rc1, \<sigma>2) \<longrightarrow>
        rc1 \<noteq> SQLITE_ROW \<longrightarrow>
        execSelectUsers query \<sigma> = Some (Inr [], \<sigma>2))
   \<and> (\<forall>rows \<sigma>'.
        named (smod \<sigma>) \<longrightarrow> execSelectUsers query \<sigma> = Some (Inr rows, \<sigma>') \<longrightarrow>
        (\<exists>c. step_codes (new_events \<sigma> \<sigma>') = replicate (length rows) (Some 100) @ [Some c]
           \<and> c \<noteq> 100
           \<and> new_events \<sigma> \<sigma>' \<noteq> []
           \<and> is_call_of ''sqlite3_step'' (last (new_events \<sigma> \<sigma>'))))"
proof (intro conjI allI impI)
  show "stepLoop stmt rc users \<sigma> = Some (Inr users, \<sigma>)" if "rc \<noteq> SQLITE_ROW"
    using that by (subst stepLoop.simps) simp
  show "stepLoop stmt SQLITE_ROW users \<sigma>
          = stepLoop stmt rc' (users @ [\<lparr>id' = i, name' = nm\<rparr>]) \<sigma>3"
    if "readInt stmt 0 \<sigma> = (Inr i, \<sigma>1)" "readText stmt 1 \<sigma>1 = (Inr nm, \<sigma>2)"
      "execStep stmt \<sigma>2 = (Inr rc', \<sigma>3)"
    for i nm rc' \<sigma>1 \<sigma>2 \<sigma>3
    using that by (subst stepLoop.simps) simp
  show "execSelectUsers query \<sigma> = Some (Inr [], \<sigma>2)"
    if "prepareStmt query \<sigma> = (Inr st, \<sigma>1)" "execStep st \<sigma>1 = (Inr rc1, \<sigma>2)"
      "rc1 \<noteq> SQLITE_ROW"
    for st rc1 \<sigma>1 \<sigma>2
  proof -
    have "stepLoop st rc1 [] \<sigma>2 = Some (Inr [], \<sigma>2)"
      using that(3) by (subst stepLoop.simps) simp
    with that(1,2) show ?thesis by (simp add: execSelectUsers_def)
  qed
  show "\<exists>c. step_codes (new_events \<sigma> \<sigma>') = replicate (length rows) (Some 100) @ [Some c]
           \<and> c \<noteq> 100
           \<and> new_events \<sigma> \<sigma>' \<noteq> []
           \<and> is_call_of ''sqlite3_step'' (last (new_events \<sigma> \<sigma>'))"
    if "named (smod \<sigma>)" "execSelectUsers query \<sigma> = Some (Inr rows, \<sigma>')" for rows \<sigma>'
    using that(2,1) by (rule execSelectUsers_rows)
qed

theorem rows_while_SQLITE_ROW_witness:
  "map_option fst (execSelectUsers [1, 2]
      (bindExports (demo 12 0 2 [0,0,0,0, 9,0,0,0, 0,0,0,0, 0,0,0,0] 2)))
     = Some (Inr [\<lparr>id' = 1, name' = [0, 0]\<rparr>, \<lparr>id' = 0, name' = [0, 0]\<rparr>])
   \<and> (\<exists>c. step_codes (new_events
            (bindExports (demo 12 0 2 [0,0,0,0, 9,0,0,0, 0,0,0,0, 0,0,0,0] 2))
            (snd (the (execSelectUsers [1, 2]
               (bindExports (demo 12 0 2 [0,0,0,0, 9,0,0,0, 0,0,0,0, 0,0,0,0] 2))))))
          = [Some 100, Some 100, Some c] \<and> c \<noteq> 100)
   \<and> map_option fst (execSelectUsers [1, 2]
      (bindExports (demo 12 0 2 [0,0,0,0, 9,0,0,0, 0,0,0,0, 0,0,0,0] 0)))
     = Some (Inr [])"
proof -
  let ?\<sigma> = "bindExports (demo 12 0 2 [0,0,0,0, 9,0,0,0, 0,0,0,0, 0,0,0,0] 2)"
  let ?\<tau> = "bindExports (demo 12 0 2 [0,0,0,0, 9,0,0,0, 0,0,0,0, 0,0,0,0] 0)"
  let ?rows = "[\<lparr>id' = 1, name' = [0, 0]\<rparr>, \<lparr>id' = 0, name' = [0, 0]\<rparr>]"
  have r: "map_option fst (execSelectUsers [1, 2] ?\<sigma>) = Some (Inr ?rows)"
    by (simp add: op_defs io_defs mem_defs demo_defs stepLoop.simps SQLITE_ROW_def)
  then obtain y where y: "execSelectUsers [1, 2] ?\<sigma> = Some y" "fst y = Inr ?rows"
    by auto
  then have e: "execSelectUsers [1, 2] ?\<sigma>
      = Some (Inr ?rows, snd (the (execSelectUsers [1, 2] ?\<sigma>)))"
    by (simp add: prod_eq_iff)
  have n: "named (smod ?\<sigma>)" by (rule named_bindExports)
  from rows_while_SQLITE_ROW [where \<sigma> = ?\<sigma> and query = "[1, 2]",
      THEN conjunct2, THEN conjunct2, THEN conjunct2, rule_format, OF n e]
  have 1: "\<exists>c. step_codes (new_events ?\<sigma> (snd (the (execSelectUsers [1, 2] ?\<sigma>))))
          = [Some 100, Some 100, Some c] \<and> c \<noteq> 100"
    by (auto simp: numeral_2_eq_2)
  define \<tau>1 where "\<tau>1 = snd (prepareStmt [1, 2] ?\<tau>)"
  have p: "prepareStmt [1, 2] ?\<tau> = (Inr 9, \<tau>1)"
    by (simp add: \<tau>1_def prod_eq_iff op_defs io_defs mem_defs demo_defs)
  have s: "execStep 9 \<tau>1 = (Inr 101, snd (execStep 9 \<tau>1))"
    by (simp add: \<tau>1_def prod_eq_iff op_defs io_defs mem_defs demo_defs)
  have ne: "(101 :: u64) \<noteq> SQLITE_ROW" by (simp add: SQLITE_ROW_def)
  from rows_while_SQLITE_ROW [where \<sigma> = ?\<tau> and query = "[1, 2]",
      THEN conjunct2, THEN conjunct2, THEN conjunct1, rule_format, OF p s ne]
  have 2: "map_option fst (execSelectUsers [1, 2] ?\<tau>) = Some (Inr [])"
    by simp
  from r 1 2 show ?thesis by (intro conjI)
qed

section \<open>The database handle after construction\<close>

text \<open>
  C10. A module built by \<open>newSqlModule\<close> has the function references of the struct
  literal and the handle read at the opening (last part). From any state with such a
  module, none of \<open>allocateString\<close>, \<open>execStep\<close>, \<open>readInt\<close>, \<open>readText\<close>, \<open>execSql\<close>
  and \<open>execSelectUsers\<close> changes the module struct: the handle and the nine function
  references after the operation are those before it, whether it returns or panics.
  Every call of the exec export and of the prepare export made during \<open>execSql\<close> and
  \<open>execSelectUsers\<close> has that handle as its first argument; and the calls are made:
  once the string is allocated, \<open>execSql\<close> calls the exec export with the handle, the
  string's pointer and length, 0 and 0, and the prepare half calls the prepare export
  with the handle, the pointer and the length.
\<close>

theorem dbHandle_frame:
  assumes n: "named (smod (\<sigma> :: 'g state))"
  shows "smod (snd (allocateString str \<sigma>)) = smod \<sigma>
       \<and> smod (snd (execStep stmt \<sigma>)) = smod \<sigma>
       \<and> smod (snd (readInt stmt columnIndex \<sigma>)) = smod \<sigma>
       \<and> smod (snd (readText stmt columnIndex \<sigma>)) = smod \<sigma>
       \<and> smod (snd (execSql query \<sigma>)) = smod \<sigma>
       \<and> list_all (handle_passed (dbHandle (smod \<sigma>))) (new_events \<sigma> (snd (execSql query \<sigma>)))
       \<and> (\<forall>y. execSelectUsers query \<sigma> = Some y \<longrightarrow>
             smod (snd y) = smod \<sigma> \<and>
             list_all (handle_passed (dbHandle (smod \<sigma>))) (new_events \<sigma> (snd y)))
       \<and> (\<forall>p k \<sigma>1. allocateString query \<sigma> = (Inr (p, k), \<sigma>1) \<longrightarrow> exec (smod \<sigma>) \<noteq> None \<longrightarrow>
             (\<exists>out. Called ''sqlite3_exec'' [dbHandle (smod \<sigma>), p, k, 0, 0] out
                \<in> set (new_events \<sigma> (snd (execSql query \<sigma>)))))
       \<and> (\<forall>p k \<sigma>1. allocateString query \<sigma> = (Inr (p, k), \<sigma>1) \<longrightarrow>
             prepare (smod \<sigma>) \<noteq> None \<longrightarrow>
             (\<exists>out. Called ''sqlite3_prepare_v2'' [dbHandle (smod \<sigma>), p, k] out
                \<in> set (new_events \<sigma> (snd (prepareStmt query \<sigma>)))))
       \<and> (\<forall>sqlite \<sigma>0. newSqlModule (Inr sqlite) = Inr (Inr (), \<sigma>0 :: 'g state) \<longrightarrow>
             named (smod \<sigma>0) \<and>
             smod \<sigma>0 = (smod (bindExports sqlite))\<lparr>dbHandle := dbHandle (smod \<sigma>0)\<rparr>)"
proof (intro conjI allI impI)
  let ?P = "handle_passed (dbHandle (smod \<sigma>))"
  show "smod (snd (allocateString str \<sigma>)) = smod \<sigma>"
    by (rule smod_allocateString)
  show "smod (snd (execStep stmt \<sigma>)) = smod \<sigma>"
    using keeps_handle_execStep[OF n, of 0 stmt] by (simp add: keeps_def)
  show "smod (snd (readInt stmt columnIndex \<sigma>)) = smod \<sigma>"
    using keeps_handle_readInt[OF n, of 0 stmt columnIndex] by (simp add: keeps_def)
  show "smod (snd (readText stmt columnIndex \<sigma>)) = smod \<sigma>"
    using keeps_handle_readText[OF n, of 0 stmt columnIndex] by (simp add: keeps_def)
  have e: "follows (smod \<sigma>) ?P \<sigma> (snd (execSql query \<sigma>))"
    using keeps_handle_execSql[OF n] refl by (rule keeps_follows) (rule surjective_pairing)
  show "smod (snd (execSql query \<sigma>)) = smod \<sigma>"
    using e by (rule follows_smod)
  show "list_all ?P (new_events \<sigma> (snd (execSql query \<sigma>)))"
    using e by (rule follows_new_events)
  show "smod (snd y) = smod \<sigma>" if "execSelectUsers query \<sigma> = Some y" for y
    using execSelectUsers_follows[OF that n] by (rule follows_smod)
  show "list_all ?P (new_events \<sigma> (snd y))" if "execSelectUsers query \<sigma> = Some y" for y
    using execSelectUsers_follows[OF that n] by (rule follows_new_events)
  show "\<exists>out. Called ''sqlite3_exec'' [dbHandle (smod \<sigma>), p, k, 0, 0] out
           \<in> set (new_events \<sigma> (snd (execSql query \<sigma>)))"
    if "allocateString query \<sigma> = (Inr (p, k), \<sigma>1)" "exec (smod \<sigma>) \<noteq> None" for p k \<sigma>1
  proof -
    from that(2) obtain fn where "exec (smod \<sigma>) = Some fn" by auto
    with n that(1) show ?thesis by (rule execSql_calls_exec)
  qed
  show "\<exists>out. Called ''sqlite3_prepare_v2'' [dbHandle (smod \<sigma>), p, k] out
           \<in> set (new_events \<sigma> (snd (prepareStmt query \<sigma>)))"
    if "allocateString query \<sigma> = (Inr (p, k), \<sigma>1)" "prepare (smod \<sigma>) \<noteq> None" for p k \<sigma>1
  proof -
    from that(2) obtain fn where "prepare (smod \<sigma>) = Some fn" by auto
    with n that(1) show ?thesis by (rule prepareStmt_calls_prepare)
  qed
next
  fix sqlite and \<sigma>0 :: "'g state"
  assume "newSqlModule (Inr sqlite) = Inr (Inr (), \<sigma>0)"
  then have o: "openDb (bindExports sqlite) = (Inr (), \<sigma>0)"
    by (simp add: newSqlModule_def)
  have "named (smod \<sigma>0) \<and>
        smod \<sigma>0 = (smod (bindExports sqlite))\<lparr>dbHandle := dbHandle (smod \<sigma>0)\<rparr>"
    using o
  proof (rule openDb_InrD)
    fix dbNamePtr dbNameSize \<sigma>1 fsNamePTr fsNameSize \<sigma>2 r \<sigma>3 b bs and \<sigma>4 :: "'g state" and h
    assume "\<sigma>0 = \<sigma>4\<lparr>trace := trace \<sigma>4 @
             [MemReadUint32Le (ucast b) True, MemReadUint32Le (ucast (b + 4)) True],
            smod := (smod (bindExports sqlite))\<lparr>dbHandle := ucast h\<rparr>\<rparr>"
    then show ?thesis
      using named_bindExports[of sqlite] by (simp add: named_def)
  qed
  then show "named (smod \<sigma>0)"
    and "smod \<sigma>0 = (smod (bindExports sqlite))\<lparr>dbHandle := dbHandle (smod \<sigma>0)\<rparr>"
    by simp_all
qed

theorem dbHandle_frame_witness:
  "named (smod (snd (openDb (bindExports (demo 24 0 0 demo_mem 2)))))
   \<and> dbHandle (smod (snd (openDb (bindExports (demo 24 0 0 demo_mem 2))))) = 16
   \<and> dbHandle (smod (snd (execSql [1, 2] (snd (openDb (bindExports (demo 24 0 0 demo_mem 2))))))) = 16
   \<and> new_events (snd (openDb (bindExports (demo 24 0 0 demo_mem 2))))
        (snd (execSql [1, 2] (snd (openDb (bindExports (demo 24 0 0 demo_mem 2))))))
       = [Called ''allocate'' [2, 0] (Inr [24]), MemWrite 24 2 True,
          Called ''sqlite3_exec'' [16, 24, 2, 0, 0] (Inr []),
          Called ''get_result_ptr'' [] (Inr [0]),
          MemReadUint32Le 4 True, MemReadUint32Le 8 True, MemReadUint32Le 0 True]
   \<and> list_all (handle_passed 16)
        (new_events (snd (openDb (bindExports (demo 24 0 0 demo_mem 2))))
           (snd (execSql [1, 2] (snd (openDb (bindExports (demo 24 0 0 demo_mem 2)))))))"
proof -
  let ?\<sigma> = "snd (openDb (bindExports (demo 24 0 0 demo_mem 2)))"
  have "fst (openDb (bindExports (demo 24 0 0 demo_mem 2))) = Inr ()"
    by (simp add: op_defs io_defs mem_defs demo_defs demo_mem_def bytes_of_def)
  then have a: "newSqlModule (Inr (demo 24 0 0 demo_mem 2)) = Inr (Inr (), ?\<sigma>)"
    by (simp add: newSqlModule_def prod_eq_iff)
  have h: "dbHandle (smod ?\<sigma>) = 16"
    by (simp add: op_defs io_defs mem_defs demo_defs demo_mem_def bytes_of_def)
  have n: "named (smod ?\<sigma>)"
    by (simp add: op_defs io_defs mem_defs demo_defs demo_mem_def bytes_of_def named_def
        bound_to_def)
  have ev: "new_events ?\<sigma> (snd (execSql [1, 2] ?\<sigma>))
       = [Called ''allocate'' [2, 0] (Inr [24]), MemWrite 24 2 True,
          Called ''sqlite3_exec'' [16, 24, 2, 0, 0] (Inr []),
          Called ''get_result_ptr'' [] (Inr [0]),
          MemReadUint32Le 4 True, MemReadUint32Le 8 True, MemReadUint32Le 0 True]"
    by (simp add: new_events_def op_defs io_defs mem_defs demo_defs demo_mem_def bytes_of_def)
  note T = dbHandle_frame [OF n, where query = "[1, 2]"]
  have 1: "smod (snd (execSql [1, 2] ?\<sigma>)) = smod ?\<sigma>"
    by (rule T [THEN conjunct2, THEN conjunct2, THEN conjunct2, THEN conjunct2, THEN conjunct1])
  have 2: "list_all (handle_passed (dbHandle (smod ?\<sigma>)))
      (new_events ?\<sigma> (snd (execSql [1, 2] ?\<sigma>)))"
    by (rule T [THEN conjunct2, THEN conjunct2, THEN conjunct2, THEN conjunct2, THEN conjunct2,
          THEN conjunct1])
  from n h 1 2 ev show ?thesis by simp
qed

end
